theory Spec2Isabelle
  imports Main "HOL-Library.Word"
begin

unbundle bit_operations_syntax

section \<open>Bytes, memory and build configuration\<close>

text \<open>
  The kernels of \<^verbatim>\<open>draw-paint.c\<close> work on raw byte pointers. A buffer is modelled as a
  flat byte-addressed store, a pointer as an address into it, and pointer arithmetic as
  integer arithmetic, so that \<^verbatim>\<open>dp[k]\<close> is the byte at address \<open>dp + k\<close> whatever
  \<open>k\<close> is. The destination, the source, the mask and the colour are \<^verbatim>\<open>restrict\<close>
  pointers in the source, hence separate stores here; only the destination store is
  returned. C \<^verbatim>\<open>int\<close> values are unbounded integers (no value computed from bytes and
  weights in \<open>0..256\<close> comes near the 32-bit range); a byte store truncates with
  \<open>word_of_int\<close>, a byte load promotes with \<open>uint\<close>.
\<close>

type_synonym byte = "8 word"
type_synonym mem = "int \<Rightarrow> byte"

definition load :: "mem \<Rightarrow> int \<Rightarrow> int" where
  "load m a = uint (m a)"

definition store :: "mem \<Rightarrow> int \<Rightarrow> int \<Rightarrow> mem" where
  "store m a v = m(a := word_of_int v)"

definition mem_of :: "byte list \<Rightarrow> mem" where
  "mem_of xs = (\<lambda>a. if 0 \<le> a \<and> a < int (length xs) then xs ! nat a else 0)"

definition bytes :: "mem \<Rightarrow> int \<Rightarrow> nat \<Rightarrow> byte list" where
  "bytes m a k = map (\<lambda>i. m (a + int i)) [0..<k]"

text \<open>
  The preprocessor switches of the build (\<^verbatim>\<open>FZ_PLOTTERS_G\<close>, \<^verbatim>\<open>FZ_PLOTTERS_RGB\<close>,
  \<^verbatim>\<open>FZ_PLOTTERS_CMYK\<close>, \<^verbatim>\<open>FZ_PLOTTERS_N\<close>, \<^verbatim>\<open>ARCH_UNALIGNED_OK\<close>) and the result
  of \<^verbatim>\<open>isbigendian()\<close> are fixed outside this file; they are parameters of the model.
  So is \<^verbatim>\<open>NDEBUG\<close>: where it is defined (\<open>ndebug\<close>), \<^verbatim>\<open>assert\<close> expands to nothing.
\<close>

record config =
  plotters_g :: bool
  plotters_rgb :: bool
  plotters_cmyk :: bool
  plotters_n :: bool
  arch_unaligned_ok :: bool
  isbigendian :: bool
  ndebug :: bool

section \<open>Fixed-point blend primitives\<close>

text \<open>
  Modelled from the spec: the macros \<^verbatim>\<open>FZ_EXPAND\<close>, \<^verbatim>\<open>FZ_COMBINE\<close>, \<^verbatim>\<open>FZ_BLEND\<close> and
  \<^verbatim>\<open>FZ_COMBINE2\<close> are defined in a header that is not part of the sources at hand. The
  spec gives \<open>expand(a) = a + (a >> 7)\<close>, \<open>combine(x, w) = (x * w) >> 8\<close>,
  \<open>blend(src, dst, w) = dst + combine(src - dst, w)\<close> and
  \<open>combine2(a, wa, b, wb) = combine(a, wa) + combine(b, wb)\<close>. The shifts are arithmetic
  shifts of C ints, that is, flooring divisions.
\<close>

definition FZ_EXPAND :: "int \<Rightarrow> int" where
  "FZ_EXPAND a = a + a div 2 ^ 7"

definition FZ_COMBINE :: "int \<Rightarrow> int \<Rightarrow> int" where
  "FZ_COMBINE x w = (x * w) div 2 ^ 8"

definition FZ_BLEND :: "int \<Rightarrow> int \<Rightarrow> int \<Rightarrow> int" where
  "FZ_BLEND src dst w = dst + FZ_COMBINE (src - dst) w"

definition FZ_COMBINE2 :: "int \<Rightarrow> int \<Rightarrow> int \<Rightarrow> int \<Rightarrow> int" where
  "FZ_COMBINE2 a wa b wb = FZ_COMBINE a wa + FZ_COMBINE b wb"

section \<open>Loops\<close>

text \<open>
  \<^verbatim>\<open>do { body } while (--w);\<close> runs the body, decrements \<open>w\<close> and repeats while the
  result is not zero. Entered with \<open>w < 1\<close> the C loop counts down through the negative
  ints and never leaves in a defined way: that is the result \<open>None\<close>.
\<close>

function do_while_dec :: "('s \<Rightarrow> 's) \<Rightarrow> int \<Rightarrow> 's \<Rightarrow> 's option" where
  "do_while_dec body w s =
     (if w < 1 then None
      else (let s' = body s in
            if w - 1 = 0 then Some s' else do_while_dec body (w - 1) s'))"
  by pat_completeness auto
termination
  by (relation "measure (\<lambda>(body, w, s). nat w)") auto

declare do_while_dec.simps [simp del]

text \<open>
  \<^verbatim>\<open>for (; k < hi; k++) body\<close>, returning the final value of \<open>k\<close> with the state, since
  some kernels go on using \<open>k\<close> after the loop.
\<close>

function for_k :: "int \<Rightarrow> int \<Rightarrow> (int \<Rightarrow> 's \<Rightarrow> 's) \<Rightarrow> 's \<Rightarrow> int \<times> 's" where
  "for_k k hi body s = (if k < hi then for_k (k + 1) hi body (body k s) else (k, s))"
  by pat_completeness auto
termination
  by (relation "measure (\<lambda>(k, hi, body, s). nat (hi - k))") auto

declare for_k.simps [simp del]

section \<open>Span with solid colour\<close>

text \<open>
  \<^verbatim>\<open>template_span_with_color_N_general\<close>: the two pixel bodies are the bodies of its two
  \<^verbatim>\<open>do ... while (--w)\<close> loops, on the state (destination store, \<open>dp\<close>, \<open>mp\<close>).
\<close>

definition span_with_color_N_general_opaque ::
  "mem \<Rightarrow> int \<Rightarrow> mem \<Rightarrow> int \<Rightarrow> int \<Rightarrow> mem \<times> int \<times> int \<Rightarrow> mem \<times> int \<times> int" where
  "span_with_color_N_general_opaque m n color da n1 =
     (\<lambda>(d, dp, mp).
        let ma = load m mp; mp = mp + 1; ma = FZ_EXPAND ma;
            d = (if ma = 0 then d
                 else if ma = 256 then
                   (let d = (if n1 > 0 then store d (dp + 0) (load color 0) else d);
                        d = (if n1 > 1 then store d (dp + 1) (load color 1) else d);
                        d = (if n1 > 2 then store d (dp + 2) (load color 2) else d);
                        (k, d) = for_k 3 n1 (\<lambda>k d. store d (dp + k) (load color k)) d
                    in if da \<noteq> 0 then store d (dp + n1) 255 else d)
                 else
                   (let (k, d) = for_k 0 n1
                          (\<lambda>k d. store d (dp + k) (FZ_BLEND (load color k) (load d (dp + k)) ma)) d
                    in if da \<noteq> 0 then store d (dp + n1) (FZ_BLEND 255 (load d (dp + k)) ma) else d))
        in (d, dp + n, mp))"

definition span_with_color_N_general_alpha ::
  "mem \<Rightarrow> int \<Rightarrow> mem \<Rightarrow> int \<Rightarrow> int \<Rightarrow> int \<Rightarrow> mem \<times> int \<times> int \<Rightarrow> mem \<times> int \<times> int" where
  "span_with_color_N_general_alpha m n color da n1 sa =
     (\<lambda>(d, dp, mp).
        let ma = load m mp; mp = mp + 1; ma = FZ_COMBINE (FZ_EXPAND ma) sa;
            (k, d) = for_k 0 n1
               (\<lambda>k d. store d (dp + k) (FZ_BLEND (load color k) (load d (dp + k)) ma)) d;
            d = (if da \<noteq> 0 then store d (dp + k) (FZ_BLEND 255 (load d (dp + k)) ma) else d)
        in (d, dp + n, mp))"

definition template_span_with_color_N_general ::
  "mem \<Rightarrow> int \<Rightarrow> mem \<Rightarrow> int \<Rightarrow> int \<Rightarrow> int \<Rightarrow> mem \<Rightarrow> int \<Rightarrow> mem option" where
  "template_span_with_color_N_general d dp m mp n w color da =
     (let n1 = n - da; sa = FZ_EXPAND (load color n1) in
      if sa = 0 then Some d
      else if sa = 256 then
        map_option fst (do_while_dec (span_with_color_N_general_opaque m n color da n1) w (d, dp, mp))
      else
        map_option fst (do_while_dec (span_with_color_N_general_alpha m n color da n1 sa) w (d, dp, mp)))"

text \<open>
  The three-channel kernels with destination alpha work on whole 32-bit words. A word is
  read from and written to four consecutive bytes in the byte order of the machine.
\<close>

type_synonym u32 = "32 word"

definition load32 :: "bool \<Rightarrow> mem \<Rightarrow> int \<Rightarrow> u32" where
  "load32 be m a =
     (if be then push_bit 24 (ucast (m a)) OR push_bit 16 (ucast (m (a + 1)))
                 OR push_bit 8 (ucast (m (a + 2))) OR ucast (m (a + 3))
      else ucast (m a) OR push_bit 8 (ucast (m (a + 1)))
           OR push_bit 16 (ucast (m (a + 2))) OR push_bit 24 (ucast (m (a + 3))))"

definition store32 :: "bool \<Rightarrow> mem \<Rightarrow> int \<Rightarrow> u32 \<Rightarrow> mem" where
  "store32 be m a v =
     (if be then m(a := ucast (drop_bit 24 v), a + 1 := ucast (drop_bit 16 v),
                   a + 2 := ucast (drop_bit 8 v), a + 3 := ucast v)
      else m(a := ucast v, a + 1 := ucast (drop_bit 8 v),
             a + 2 := ucast (drop_bit 16 v), a + 3 := ucast (drop_bit 24 v)))"

text \<open>
  The word-parallel blend that \<^verbatim>\<open>template_solid_color_3_da\<close> and
  \<^verbatim>\<open>template_span_with_color_3_da\<close> write out in each of their blending branches:
  \<open>RGBA\<close> is the destination word, \<open>rb\<close> and \<open>ga\<close> the two halves of the colour word,
  \<open>ma\<close> the weight; all arithmetic is unsigned 32-bit and wraps.
\<close>

definition swar_blend :: "u32 \<Rightarrow> u32 \<Rightarrow> u32 \<Rightarrow> u32 \<Rightarrow> u32" where
  "swar_blend rb ga RGBA ma =
     (let mask = 0xFF00FF00;
          RB = push_bit 8 RGBA AND mask;
          GA = RGBA AND mask;
          RB = RB + (rb - drop_bit 8 RB) * ma;
          GA = GA + (ga - drop_bit 8 GA) * ma;
          RB = RB AND mask;
          GA = GA AND mask
      in drop_bit 8 RB OR GA)"

text \<open>\<^verbatim>\<open>template_span_with_color_1_da\<close>: the bodies of its two loops, then the function.\<close>

definition span_with_color_1_da_opaque ::
  "mem \<Rightarrow> int \<Rightarrow> mem \<times> int \<times> int \<Rightarrow> mem \<times> int \<times> int" where
  "span_with_color_1_da_opaque m g =
     (\<lambda>(d, dp, mp).
        let ma = load m mp; mp = mp + 1; ma = FZ_EXPAND ma;
            d = (if ma = 0 then d
                 else if ma = 256 then store (store d (dp + 0) g) (dp + 1) 255
                 else (let d = store d (dp + 0) (FZ_BLEND g (load d (dp + 0)) ma)
                       in store d (dp + 1) (FZ_BLEND 255 (load d (dp + 1)) ma)))
        in (d, dp + 2, mp))"

definition span_with_color_1_da_alpha ::
  "mem \<Rightarrow> int \<Rightarrow> int \<Rightarrow> mem \<times> int \<times> int \<Rightarrow> mem \<times> int \<times> int" where
  "span_with_color_1_da_alpha m g sa =
     (\<lambda>(d, dp, mp).
        let ma = load m mp; mp = mp + 1; ma = FZ_EXPAND ma;
            d = (if ma = 0 then d
                 else (let ma = FZ_COMBINE ma sa;
                           d = store d (dp + 0) (FZ_BLEND g (load d (dp + 0)) ma)
                       in store d (dp + 1) (FZ_BLEND 255 (load d (dp + 1)) ma)))
        in (d, dp + 2, mp))"

definition template_span_with_color_1_da ::
  "mem \<Rightarrow> int \<Rightarrow> mem \<Rightarrow> int \<Rightarrow> int \<Rightarrow> int \<Rightarrow> mem \<Rightarrow> int \<Rightarrow> mem option" where
  "template_span_with_color_1_da d dp m mp n w color da =
     (let sa = FZ_EXPAND (load color 1); g = load color 0 in
      if sa = 256 then
        map_option fst (do_while_dec (span_with_color_1_da_opaque m g) w (d, dp, mp))
      else
        map_option fst (do_while_dec (span_with_color_1_da_alpha m g sa) w (d, dp, mp)))"

text \<open>
  \<^verbatim>\<open>template_span_with_color_3_da\<close>. The weight \<open>ma\<close> is an \<^verbatim>\<open>unsigned int\<close> there; it
  stays within \<open>0..256\<close>, so it is computed with the integer macros and enters the word
  arithmetic through \<open>word_of_int\<close>.
\<close>

definition span_with_color_3_da_opaque ::
  "bool \<Rightarrow> mem \<Rightarrow> u32 \<Rightarrow> u32 \<Rightarrow> u32 \<Rightarrow> mem \<times> int \<times> int \<Rightarrow> mem \<times> int \<times> int" where
  "span_with_color_3_da_opaque be m rgba rb ga =
     (\<lambda>(d, dp, mp).
        let ma = load m mp; mp = mp + 1; dp = dp + 4; ma = FZ_EXPAND ma;
            d = (if ma = 0 then d
                 else if ma = 256 then store32 be d (dp - 4) rgba
                 else store32 be d (dp - 4)
                        (swar_blend rb ga (load32 be d (dp - 4)) (word_of_int ma)))
        in (d, dp, mp))"

definition span_with_color_3_da_alpha ::
  "bool \<Rightarrow> mem \<Rightarrow> u32 \<Rightarrow> u32 \<Rightarrow> int \<Rightarrow> mem \<times> int \<times> int \<Rightarrow> mem \<times> int \<times> int" where
  "span_with_color_3_da_alpha be m rb ga sa =
     (\<lambda>(d, dp, mp).
        let ma = load m mp; mp = mp + 1; ma = FZ_COMBINE (FZ_EXPAND ma) sa; dp = dp + 4;
            d = (if ma \<noteq> 0
                 then store32 be d (dp - 4)
                        (swar_blend rb ga (load32 be d (dp - 4)) (word_of_int ma))
                 else d)
        in (d, dp, mp))"

definition template_span_with_color_3_da ::
  "config \<Rightarrow> mem \<Rightarrow> int \<Rightarrow> mem \<Rightarrow> int \<Rightarrow> int \<Rightarrow> int \<Rightarrow> mem \<Rightarrow> int \<Rightarrow> mem option" where
  "template_span_with_color_3_da cfg d dp m mp n w color da =
     (let be = isbigendian cfg;
          rgba = load32 be color 0;
          sa = FZ_EXPAND (load color 3) in
      if sa = 0 then Some d
      else
        (let rgba = (if be then rgba OR 0x000000FF else rgba OR 0xFF000000);
             mask = 0xFF00FF00;
             rb = rgba AND drop_bit 8 mask;
             ga = drop_bit 8 (rgba AND mask) in
         if sa = 256 then
           map_option fst (do_while_dec (span_with_color_3_da_opaque be m rgba rb ga) w (d, dp, mp))
         else
           map_option fst (do_while_dec (span_with_color_3_da_alpha be m rb ga sa) w (d, dp, mp))))"

text \<open>\<^verbatim>\<open>template_span_with_color_4_da\<close>.\<close>

definition span_with_color_4_da_blend :: "int \<Rightarrow> int \<Rightarrow> int \<Rightarrow> int \<Rightarrow> int \<Rightarrow> mem \<Rightarrow> int \<Rightarrow> mem" where
  "span_with_color_4_da_blend c m' y k ma d dp =
     (let d = store d (dp + 0) (FZ_BLEND c (load d (dp + 0)) ma);
          d = store d (dp + 1) (FZ_BLEND m' (load d (dp + 1)) ma);
          d = store d (dp + 2) (FZ_BLEND y (load d (dp + 2)) ma);
          d = store d (dp + 3) (FZ_BLEND k (load d (dp + 3)) ma)
      in store d (dp + 4) (FZ_BLEND 255 (load d (dp + 4)) ma))"

definition span_with_color_4_da_opaque ::
  "mem \<Rightarrow> int \<Rightarrow> int \<Rightarrow> int \<Rightarrow> int \<Rightarrow> mem \<times> int \<times> int \<Rightarrow> mem \<times> int \<times> int" where
  "span_with_color_4_da_opaque m c m' y k =
     (\<lambda>(d, dp, mp).
        let ma = load m mp; mp = mp + 1; ma = FZ_EXPAND ma;
            d = (if ma = 0 then d
                 else if ma = 256 then
                   (let d = store d (dp + 0) c;
                        d = store d (dp + 1) m';
                        d = store d (dp + 2) y;
                        d = store d (dp + 3) k
                    in store d (dp + 4) 255)
                 else span_with_color_4_da_blend c m' y k ma d dp)
        in (d, dp + 5, mp))"

definition span_with_color_4_da_alpha ::
  "mem \<Rightarrow> int \<Rightarrow> int \<Rightarrow> int \<Rightarrow> int \<Rightarrow> int \<Rightarrow> mem \<times> int \<times> int \<Rightarrow> mem \<times> int \<times> int" where
  "span_with_color_4_da_alpha m c m' y k sa =
     (\<lambda>(d, dp, mp).
        let ma = load m mp; mp = mp + 1; ma = FZ_EXPAND ma;
            d = (if ma = 0 then d
                 else span_with_color_4_da_blend c m' y k (FZ_COMBINE ma sa) d dp)
        in (d, dp + 5, mp))"

definition template_span_with_color_4_da ::
  "mem \<Rightarrow> int \<Rightarrow> mem \<Rightarrow> int \<Rightarrow> int \<Rightarrow> int \<Rightarrow> mem \<Rightarrow> int \<Rightarrow> mem option" where
  "template_span_with_color_4_da d dp m mp n w color da =
     (let sa = FZ_EXPAND (load color 4);
          c = load color 0; m' = load color 1; y = load color 2; k = load color 3 in
      if sa = 256 then
        map_option fst (do_while_dec (span_with_color_4_da_opaque m c m' y k) w (d, dp, mp))
      else
        map_option fst (do_while_dec (span_with_color_4_da_alpha m c m' y k sa) w (d, dp, mp)))"

text \<open>
  The painters proper and their selection. A painter takes \<open>(dp, mp, n, w, color, da)\<close>;
  each one ignores the \<open>n\<close> and \<open>da\<close> it is handed and instantiates its template.
\<close>

type_synonym span_color_painter =
  "mem \<Rightarrow> int \<Rightarrow> mem \<Rightarrow> int \<Rightarrow> int \<Rightarrow> int \<Rightarrow> mem \<Rightarrow> int \<Rightarrow> mem option"

definition paint_span_with_color_0_da :: span_color_painter where
  "paint_span_with_color_0_da d dp m mp n w color da =
     template_span_with_color_N_general d dp m mp 1 w color 1"

definition paint_span_with_color_1 :: span_color_painter where
  "paint_span_with_color_1 d dp m mp n w color da =
     template_span_with_color_N_general d dp m mp 1 w color 0"

definition paint_span_with_color_1_da :: span_color_painter where
  "paint_span_with_color_1_da d dp m mp n w color da =
     template_span_with_color_1_da d dp m mp 2 w color 1"

definition paint_span_with_color_3 :: span_color_painter where
  "paint_span_with_color_3 d dp m mp n w color da =
     template_span_with_color_N_general d dp m mp 3 w color 0"

definition paint_span_with_color_3_da :: "config \<Rightarrow> span_color_painter" where
  "paint_span_with_color_3_da cfg d dp m mp n w color da =
     template_span_with_color_3_da cfg d dp m mp 4 w color 1"

definition paint_span_with_color_4 :: span_color_painter where
  "paint_span_with_color_4 d dp m mp n w color da =
     template_span_with_color_N_general d dp m mp 4 w color 0"

definition paint_span_with_color_4_da :: span_color_painter where
  "paint_span_with_color_4_da d dp m mp n w color da =
     template_span_with_color_4_da d dp m mp 5 w color 1"

definition paint_span_with_color_N :: span_color_painter where
  "paint_span_with_color_N d dp m mp n w color da =
     template_span_with_color_N_general d dp m mp n w color 0"

definition paint_span_with_color_N_da :: span_color_painter where
  "paint_span_with_color_N_da d dp m mp n w color da =
     template_span_with_color_N_general d dp m mp n w color 1"

definition fz_get_span_color_painter :: "config \<Rightarrow> int \<Rightarrow> int \<Rightarrow> mem \<Rightarrow> span_color_painter option" where
  "fz_get_span_color_painter cfg n da color =
     (if n - da = 0 then (if da \<noteq> 0 then Some paint_span_with_color_0_da else None)
      else if n - da = 1 then
        Some (if da \<noteq> 0 then paint_span_with_color_1_da else paint_span_with_color_1)
      else if n - da = 3 \<and> plotters_rgb cfg then
        Some (if da \<noteq> 0 then paint_span_with_color_3_da cfg else paint_span_with_color_3)
      else if n - da = 4 \<and> plotters_cmyk cfg then
        Some (if da \<noteq> 0 then paint_span_with_color_4_da else paint_span_with_color_4)
      else if plotters_n cfg then
        Some (if da \<noteq> 0 then paint_span_with_color_N_da else paint_span_with_color_N)
      else None)"

section \<open>Solid colour fill\<close>

text \<open>
  The word loops of the fast paths are \<^verbatim>\<open>do { body; w -= 4; } while (w > 0);\<close>. The
  final value of \<open>w\<close> is returned with the state, since the code goes on with it.
\<close>

function do_while_sub4 :: "('s \<Rightarrow> 's) \<Rightarrow> int \<Rightarrow> 's \<Rightarrow> int \<times> 's" where
  "do_while_sub4 body w s =
     (let s' = body s;
          w = w - 4
      in if w > 0 then do_while_sub4 body w s' else (w, s'))"
  by pat_completeness auto
termination
  by (relation "measure (\<lambda>(body, w, s). nat w)") auto

declare do_while_sub4.simps [simp del]

text \<open>Consecutive byte stores, first byte at the lowest address.\<close>

fun store_bytes :: "mem \<Rightarrow> int \<Rightarrow> int list \<Rightarrow> mem" where
  "store_bytes d a [] = d"
| "store_bytes d a (v # vs) = store_bytes (store d a v) (a + 1) vs"

text \<open>\<^verbatim>\<open>template_solid_color_1_da\<close>.\<close>

definition template_solid_color_1_da ::
  "mem \<Rightarrow> int \<Rightarrow> int \<Rightarrow> int \<Rightarrow> mem \<Rightarrow> int \<Rightarrow> mem option" where
  "template_solid_color_1_da d dp n w color da =
     (let sa = FZ_EXPAND (load color 1) in
      if sa = 0 then Some d
      else if sa = 256 then
        map_option fst (do_while_dec
          (\<lambda>(d, dp).
             let d = store d (dp + 0) (load color 0);
                 d = store d (dp + 1) 255
             in (d, dp + 2)) w (d, dp))
      else
        map_option fst (do_while_dec
          (\<lambda>(d, dp).
             let d = store d (dp + 0) (FZ_BLEND (load color 0) (load d (dp + 0)) sa);
                 d = store d (dp + 1) (FZ_BLEND 255 (load d (dp + 1)) sa)
             in (d, dp + 2)) w (d, dp)))"

text \<open>\<^verbatim>\<open>template_solid_color_3_da\<close>: one 32-bit word per pixel.\<close>

definition template_solid_color_3_da ::
  "config \<Rightarrow> mem \<Rightarrow> int \<Rightarrow> int \<Rightarrow> int \<Rightarrow> mem \<Rightarrow> int \<Rightarrow> mem option" where
  "template_solid_color_3_da cfg d dp n w color da =
     (let be = isbigendian cfg;
          rgba = load32 be color 0;
          sa = FZ_EXPAND (load color 3) in
      if sa = 0 then Some d
      else
        (let rgba = (if be then rgba OR 0x000000FF else rgba OR 0xFF000000) in
         if sa = 256 then
           map_option fst (do_while_dec
             (\<lambda>(d, dp). (store32 be d dp rgba, dp + 4)) w (d, dp))
         else
           (let mask = 0xFF00FF00;
                rb = rgba AND drop_bit 8 mask;
                ga = drop_bit 8 (rgba AND mask) in
            map_option fst (do_while_dec
              (\<lambda>(d, dp).
                 (store32 be d dp (swar_blend rb ga (load32 be d dp) (word_of_int sa)), dp + 4))
              w (d, dp)))))"

text \<open>
  \<^verbatim>\<open>template_solid_color_4_da\<close>. With \<^verbatim>\<open>ARCH_UNALIGNED_OK\<close> and more than four pixels
  the opaque branch first writes groups of four pixels as five words.
\<close>

definition solid_color_4_da_words :: "bool \<Rightarrow> u32 \<Rightarrow> u32 list" where
  "solid_color_4_da_words be a =
     (if be then
        [a,
         0xFF000000 OR drop_bit 8 a,
         0x00FF0000 OR drop_bit 16 a OR push_bit 24 a,
         0x0000FF00 OR drop_bit 24 a OR push_bit 16 a,
         0x000000FF OR push_bit 8 a]
      else
        [a,
         0x000000FF OR push_bit 8 a,
         0x0000FF00 OR push_bit 16 a OR drop_bit 24 a,
         0x00FF0000 OR push_bit 24 a OR drop_bit 16 a,
         0xFF000000 OR drop_bit 8 a])"

definition solid_color_4_da_group :: "bool \<Rightarrow> u32 list \<Rightarrow> mem \<times> int \<Rightarrow> mem \<times> int" where
  "solid_color_4_da_group be ws =
     (\<lambda>(d, dp).
        let d = store32 be d (dp + 0) (ws ! 0);
            d = store32 be d (dp + 4) (ws ! 1);
            d = store32 be d (dp + 8) (ws ! 2);
            d = store32 be d (dp + 12) (ws ! 3);
            d = store32 be d (dp + 16) (ws ! 4)
        in (d, dp + 20))"

definition solid_color_4_da_opaque :: "mem \<Rightarrow> mem \<times> int \<Rightarrow> mem \<times> int" where
  "solid_color_4_da_opaque color =
     (\<lambda>(d, dp).
        let d = store d (dp + 0) (load color 0);
            d = store d (dp + 1) (load color 1);
            d = store d (dp + 2) (load color 2);
            d = store d (dp + 3) (load color 3);
            d = store d (dp + 4) 255
        in (d, dp + 5))"

definition solid_color_4_da_blend :: "mem \<Rightarrow> int \<Rightarrow> mem \<times> int \<Rightarrow> mem \<times> int" where
  "solid_color_4_da_blend color sa =
     (\<lambda>(d, dp).
        let d = store d (dp + 0) (FZ_BLEND (load color 0) (load d (dp + 0)) sa);
            d = store d (dp + 1) (FZ_BLEND (load color 1) (load d (dp + 1)) sa);
            d = store d (dp + 2) (FZ_BLEND (load color 2) (load d (dp + 2)) sa);
            d = store d (dp + 3) (FZ_BLEND (load color 3) (load d (dp + 3)) sa);
            d = store d (dp + 4) (FZ_BLEND 255 (load d (dp + 5)) sa)
        in (d, dp + 5))"

definition template_solid_color_4_da ::
  "config \<Rightarrow> mem \<Rightarrow> int \<Rightarrow> int \<Rightarrow> int \<Rightarrow> mem \<Rightarrow> int \<Rightarrow> mem option" where
  "template_solid_color_4_da cfg d dp n w color da =
     (let sa = FZ_EXPAND (load color 4) in
      if sa = 0 then Some d
      else if sa = 256 then
        (if arch_unaligned_ok cfg \<and> w > 4 then
           (let be = isbigendian cfg;
                ws = solid_color_4_da_words be (load32 be color 0);
                w = w - 3;
                (w, d, dp) = do_while_sub4 (solid_color_4_da_group be ws) w (d, dp);
                w = w + 3
            in if w = 0 then Some d
               else map_option fst (do_while_dec (solid_color_4_da_opaque color) w (d, dp)))
         else map_option fst (do_while_dec (solid_color_4_da_opaque color) w (d, dp)))
      else map_option fst (do_while_dec (solid_color_4_da_blend color sa) w (d, dp)))"

text \<open>
  \<^verbatim>\<open>template_solid_color_N_256\<close>. For three channels without alpha and at least eight
  pixels it first writes up to the next 4-byte boundary of \<open>dp\<close>, then twelve bytes
  (four pixels) at a time from the union \<^verbatim>\<open>u\<close>; a word of the union is stored as the
  four bytes it overlays. The pixel body is shared with the opaque branch of
  \<^verbatim>\<open>template_solid_color_N_general\<close>, which repeats it literally.
\<close>

definition solid_color_N_opaque :: "int \<Rightarrow> int \<Rightarrow> int \<Rightarrow> mem \<Rightarrow> mem \<times> int \<Rightarrow> mem \<times> int" where
  "solid_color_N_opaque n n1 da color =
     (\<lambda>(d, dp).
        let d = store d (dp + 0) (load color 0);
            d = (if n1 > 1 then store d (dp + 1) (load color 1) else d);
            d = (if n1 > 2 then store d (dp + 2) (load color 2) else d);
            (k, d) = for_k 3 n1 (\<lambda>k d. store d (dp + k) (load color k)) d;
            d = (if da \<noteq> 0 then store d (dp + n1) 255 else d)
        in (d, dp + n))"

definition solid_color_N_blend :: "int \<Rightarrow> int \<Rightarrow> int \<Rightarrow> mem \<Rightarrow> int \<Rightarrow> mem \<times> int \<Rightarrow> mem \<times> int" where
  "solid_color_N_blend n n1 da color sa =
     (\<lambda>(d, dp).
        let (k, d) = for_k 0 n1
              (\<lambda>k d. store d (dp + k) (FZ_BLEND (load color k) (load d (dp + k)) sa)) d;
            d = (if da \<noteq> 0 then store d (dp + k) (FZ_BLEND 255 (load d (dp + k)) sa) else d)
        in (d, dp + n))"

definition template_solid_color_N_256 ::
  "mem \<Rightarrow> int \<Rightarrow> int \<Rightarrow> int \<Rightarrow> mem \<Rightarrow> int \<Rightarrow> mem option" where
  "template_solid_color_N_256 d dp n w color da =
     (let n1 = n - da in
      if n = 3 \<and> da = 0 \<and> w \<ge> 8 then
        (let c0 = load color 0; c1 = load color 1; c2 = load color 2;
             w0 = [c0, c1, c2, c0]; w1 = [c1, c2, c0, c1]; w2 = [c2, c0, c1, c2];
             (d, dp, w) =
               (if dp mod 4 = 3 then
                  (let d = store d dp c0; dp = dp + 1;
                       d = store_bytes d dp w1; dp = dp + 4;
                       d = store_bytes d dp w2; dp = dp + 4
                   in (d, dp, w - 3))
                else if dp mod 4 = 2 then
                  (let d = store d dp c0; dp = dp + 1;
                       d = store d dp c1; dp = dp + 1;
                       d = store_bytes d dp w2; dp = dp + 4
                   in (d, dp, w - 2))
                else if dp mod 4 = 1 then
                  (let d = store d dp c0; dp = dp + 1;
                       d = store d dp c1; dp = dp + 1;
                       d = store d dp c2; dp = dp + 1
                   in (d, dp, w - 1))
                else (d, dp, w));
             w = w - 4;
             (w, d, dp) = do_while_sub4
               (\<lambda>(d, dp).
                  let d = store_bytes d dp w0; dp = dp + 4;
                      d = store_bytes d dp w1; dp = dp + 4;
                      d = store_bytes d dp w2; dp = dp + 4
                  in (d, dp)) w (d, dp);
             w = w + 4
         in if w = 0 then Some d
            else map_option fst (do_while_dec (solid_color_N_opaque n n1 da color) w (d, dp)))
      else map_option fst (do_while_dec (solid_color_N_opaque n n1 da color) w (d, dp)))"

definition template_solid_color_N_sa ::
  "mem \<Rightarrow> int \<Rightarrow> int \<Rightarrow> int \<Rightarrow> mem \<Rightarrow> int \<Rightarrow> int \<Rightarrow> mem option" where
  "template_solid_color_N_sa d dp n w color da sa =
     (let n1 = n - da in
      map_option fst (do_while_dec (solid_color_N_blend n n1 da color sa) w (d, dp)))"

definition template_solid_color_N_general ::
  "mem \<Rightarrow> int \<Rightarrow> int \<Rightarrow> int \<Rightarrow> mem \<Rightarrow> int \<Rightarrow> int \<Rightarrow> mem option" where
  "template_solid_color_N_general d dp n w color da sa =
     (let n1 = n - da in
      if sa = 256 then
        map_option fst (do_while_dec (solid_color_N_opaque n n1 da color) w (d, dp))
      else
        map_option fst (do_while_dec (solid_color_N_blend n n1 da color sa) w (d, dp)))"

text \<open>
  The solid colour painters, taking \<open>(dp, n, w, color, da)\<close>, and their selection by
  \<^verbatim>\<open>fz_get_solid_color_painter\<close>: a \<^verbatim>\<open>switch\<close> on \<open>n - da\<close> whose cases exist only in
  builds with the matching plotters and otherwise fall to \<^verbatim>\<open>default\<close>.
\<close>

type_synonym solid_color_painter =
  "mem \<Rightarrow> int \<Rightarrow> int \<Rightarrow> int \<Rightarrow> mem \<Rightarrow> int \<Rightarrow> mem option"

definition paint_solid_color_1_alpha :: solid_color_painter where
  "paint_solid_color_1_alpha d dp n w color da =
     template_solid_color_N_sa d dp 1 w color 0 (FZ_EXPAND (load color 1))"

definition paint_solid_color_1 :: solid_color_painter where
  "paint_solid_color_1 d dp n w color da = template_solid_color_N_256 d dp 1 w color 0"

definition paint_solid_color_1_da :: solid_color_painter where
  "paint_solid_color_1_da d dp n w color da = template_solid_color_1_da d dp 2 w color 1"

definition paint_solid_color_3_alpha :: solid_color_painter where
  "paint_solid_color_3_alpha d dp n w color da =
     template_solid_color_N_sa d dp 3 w color 0 (FZ_EXPAND (load color 3))"

definition paint_solid_color_3 :: solid_color_painter where
  "paint_solid_color_3 d dp n w color da = template_solid_color_N_256 d dp 3 w color 0"

definition paint_solid_color_3_da :: "config \<Rightarrow> solid_color_painter" where
  "paint_solid_color_3_da cfg d dp n w color da = template_solid_color_3_da cfg d dp 4 w color 1"

definition paint_solid_color_4_alpha :: solid_color_painter where
  "paint_solid_color_4_alpha d dp n w color da =
     template_solid_color_N_sa d dp 4 w color 0 (FZ_EXPAND (load color 4))"

definition paint_solid_color_4 :: solid_color_painter where
  "paint_solid_color_4 d dp n w color da = template_solid_color_N_256 d dp 4 w color 0"

definition paint_solid_color_4_da :: "config \<Rightarrow> solid_color_painter" where
  "paint_solid_color_4_da cfg d dp n w color da = template_solid_color_4_da cfg d dp 5 w color 1"

definition paint_solid_color_N_alpha :: solid_color_painter where
  "paint_solid_color_N_alpha d dp n w color da =
     template_solid_color_N_sa d dp n w color 0 (FZ_EXPAND (load color n))"

definition paint_solid_color_N :: solid_color_painter where
  "paint_solid_color_N d dp n w color da = template_solid_color_N_256 d dp n w color 0"

definition paint_solid_color_N_da :: solid_color_painter where
  "paint_solid_color_N_da d dp n w color da =
     template_solid_color_N_general d dp n w color 1 (FZ_EXPAND (load color 1))"

definition fz_get_solid_color_painter ::
  "config \<Rightarrow> int \<Rightarrow> mem \<Rightarrow> int \<Rightarrow> solid_color_painter option" where
  "fz_get_solid_color_painter cfg n color da =
     (if n - da = 1 \<and> plotters_g cfg then
        Some (if da \<noteq> 0 then paint_solid_color_1_da
              else if load color 1 = 255 then paint_solid_color_1
              else paint_solid_color_1_alpha)
      else if n - da = 3 \<and> plotters_rgb cfg then
        Some (if da \<noteq> 0 then paint_solid_color_3_da cfg
              else if load color 3 = 255 then paint_solid_color_3
              else paint_solid_color_3_alpha)
      else if n - da = 4 \<and> plotters_cmyk cfg then
        Some (if da \<noteq> 0 then paint_solid_color_4_da cfg
              else if load color 4 = 255 then paint_solid_color_4
              else paint_solid_color_4_alpha)
      else if plotters_n cfg then
        Some (if da \<noteq> 0 then paint_solid_color_N_da
              else if load color n = 255 then paint_solid_color_N
              else paint_solid_color_N_alpha)
      else None)"

section \<open>Span with mask\<close>

text \<open>
  Two more loops. \<^verbatim>\<open>while (k--) body\<close> runs the body \<open>k\<close> times and, entered with a
  negative \<open>k\<close>, does not end: \<open>None\<close>. The second is the pixel loop
  \<^verbatim>\<open>do ... while (--w)\<close> again, for a body that can itself fail to return.
\<close>

function while_dec :: "int \<Rightarrow> ('s \<Rightarrow> 's) \<Rightarrow> 's \<Rightarrow> 's option" where
  "while_dec k body s =
     (if k = 0 then Some s
      else if k < 0 then None
      else while_dec (k - 1) body (body s))"
  by pat_completeness auto
termination
  by (relation "measure (\<lambda>(k, body, s). nat k)") auto

declare while_dec.simps [simp del]

function do_while_dec_opt :: "('s \<Rightarrow> 's option) \<Rightarrow> int \<Rightarrow> 's \<Rightarrow> 's option" where
  "do_while_dec_opt body w s =
     (if w < 1 then None
      else (case body s of
              None \<Rightarrow> None
            | Some s' \<Rightarrow> if w - 1 = 0 then Some s' else do_while_dec_opt body (w - 1) s'))"
  by pat_completeness auto
termination
  by (relation "measure (\<lambda>(body, w, s). nat w)") auto

declare do_while_dec_opt.simps [simp del]

text \<open>
  The statements the span kernels are made of, on the state (destination store, \<open>dp\<close>,
  \<open>sp\<close>); \<open>s\<close> is the source store. Each is one statement sequence of the source, which
  the 1, 3, 4 and N channel templates repeat literally:
  \<^item> \<open>copy_byte\<close>: \<^verbatim>\<open>*dp++ = *sp++;\<close>
  \<^item> \<open>over_byte\<close>: \<^verbatim>\<open>*dp = *sp + FZ_COMBINE(*dp, t); sp++; dp++;\<close>
  \<^item> \<open>combine2_byte\<close>: \<^verbatim>\<open>*dp = FZ_COMBINE2(*sp, ma, *dp, masa); sp++; dp++;\<close>
  \<^item> \<open>blend_byte\<close>: \<^verbatim>\<open>*dp = FZ_BLEND(*sp, *dp, ma); sp++; dp++;\<close>
  \<^item> \<open>copy_alpha\<close>: \<^verbatim>\<open>if (da) *dp++ = (sa ? *sp : 255); if (sa) sp++;\<close>
  \<^item> \<open>over_alpha_mask\<close>:
    \<^verbatim>\<open>if (da) { *dp = (sa ? *sp : 255) + FZ_COMBINE(*dp, masa); dp++; } if (sa) sp++;\<close>
  \<^item> \<open>combine2_alpha\<close>: \<^verbatim>\<open>if (da) { *dp = FZ_COMBINE2(*sp, ma, *dp, masa); dp++; } sp++;\<close>
  \<^item> \<open>blend_alpha_255\<close>: \<^verbatim>\<open>if (da) { *dp = FZ_BLEND(255, *dp, ma); dp++; }\<close>
  \<^item> \<open>copy_word\<close>: \<^verbatim>\<open>*(int32_t *)dp = *(int32_t *)sp; sp += 4; dp += 4;\<close>
\<close>

type_synonym span_state = "mem \<times> int \<times> int"

definition copy_byte :: "mem \<Rightarrow> span_state \<Rightarrow> span_state" where
  "copy_byte s = (\<lambda>(d, dp, sp). (store d dp (load s sp), dp + 1, sp + 1))"

definition over_byte :: "mem \<Rightarrow> int \<Rightarrow> span_state \<Rightarrow> span_state" where
  "over_byte s t =
     (\<lambda>(d, dp, sp). (store d dp (load s sp + FZ_COMBINE (load d dp) t), dp + 1, sp + 1))"

definition combine2_byte :: "mem \<Rightarrow> int \<Rightarrow> int \<Rightarrow> span_state \<Rightarrow> span_state" where
  "combine2_byte s ma masa =
     (\<lambda>(d, dp, sp). (store d dp (FZ_COMBINE2 (load s sp) ma (load d dp) masa), dp + 1, sp + 1))"

definition blend_byte :: "mem \<Rightarrow> int \<Rightarrow> span_state \<Rightarrow> span_state" where
  "blend_byte s ma =
     (\<lambda>(d, dp, sp). (store d dp (FZ_BLEND (load s sp) (load d dp) ma), dp + 1, sp + 1))"

definition copy_alpha :: "mem \<Rightarrow> int \<Rightarrow> int \<Rightarrow> span_state \<Rightarrow> span_state" where
  "copy_alpha s da sa =
     (\<lambda>(d, dp, sp).
        let (d, dp) = (if da \<noteq> 0 then (store d dp (if sa \<noteq> 0 then load s sp else 255), dp + 1)
                       else (d, dp));
            sp = (if sa \<noteq> 0 then sp + 1 else sp)
        in (d, dp, sp))"

definition over_alpha_mask :: "mem \<Rightarrow> int \<Rightarrow> int \<Rightarrow> int \<Rightarrow> span_state \<Rightarrow> span_state" where
  "over_alpha_mask s da sa masa =
     (\<lambda>(d, dp, sp).
        let (d, dp) = (if da \<noteq> 0
                       then (store d dp ((if sa \<noteq> 0 then load s sp else 255)
                                          + FZ_COMBINE (load d dp) masa), dp + 1)
                       else (d, dp));
            sp = (if sa \<noteq> 0 then sp + 1 else sp)
        in (d, dp, sp))"

definition combine2_alpha :: "mem \<Rightarrow> int \<Rightarrow> int \<Rightarrow> int \<Rightarrow> span_state \<Rightarrow> span_state" where
  "combine2_alpha s da ma masa =
     (\<lambda>(d, dp, sp).
        let (d, dp) = (if da \<noteq> 0
                       then (store d dp (FZ_COMBINE2 (load s sp) ma (load d dp) masa), dp + 1)
                       else (d, dp))
        in (d, dp, sp + 1))"

definition blend_alpha_255 :: "int \<Rightarrow> int \<Rightarrow> span_state \<Rightarrow> span_state" where
  "blend_alpha_255 da ma =
     (\<lambda>(d, dp, sp).
        if da \<noteq> 0 then (store d dp (FZ_BLEND 255 (load d dp) ma), dp + 1, sp)
        else (d, dp, sp))"

definition copy_word :: "bool \<Rightarrow> mem \<Rightarrow> span_state \<Rightarrow> span_state" where
  "copy_word be s = (\<lambda>(d, dp, sp). (store32 be d dp (load32 be s sp), dp + 4, sp + 4))"

text \<open>
  \<^verbatim>\<open>template_span_with_mask_1_general\<close>: the body of its pixel loop on the state
  (destination, \<open>dp\<close>, \<open>sp\<close>, \<open>mp\<close>), then the function. In the branch for full coverage
  and an opaque source pixel the source pointer moves past the source alpha only inside
  \<^verbatim>\<open>if (da)\<close>: \<^verbatim>\<open>if (da) *dp++ = (sa ? *sp++ : 255);\<close>.
\<close>

type_synonym mask_state = "mem \<times> int \<times> int \<times> int"

definition span_with_mask_1_general_px ::
  "int \<Rightarrow> mem \<Rightarrow> int \<Rightarrow> mem \<Rightarrow> mask_state \<Rightarrow> mask_state" where
  "span_with_mask_1_general_px da s sa m =
     (\<lambda>(d, dp, sp, mp).
        let ma = load m mp; mp = mp + 1; ma = FZ_EXPAND ma;
            (d, dp, sp) =
              (if ma = 0 then (d, dp + (1 + da), sp + (1 + sa))
               else if ma = 256 then
                 (let masa = (if sa \<noteq> 0 then 255 - load s (sp + 1) else 0) in
                  if masa = 0 then
                    (let (d, dp, sp) = copy_byte s (d, dp, sp) in
                     if da \<noteq> 0 then
                       (if sa \<noteq> 0 then copy_byte s (d, dp, sp)
                        else (store d dp 255, dp + 1, sp))
                     else (d, dp, sp))
                  else
                    (let masa = FZ_EXPAND masa;
                         st = over_byte s masa (d, dp, sp)
                     in over_alpha_mask s da sa masa st))
               else
                 (if sa \<noteq> 0 then
                    (let masa = FZ_COMBINE (load s (sp + 1)) ma;
                         masa = 255 - masa;
                         masa = FZ_EXPAND masa;
                         st = combine2_byte s ma masa (d, dp, sp)
                     in combine2_alpha s da ma masa st)
                  else
                    (let st = blend_byte s ma (d, dp, sp)
                     in blend_alpha_255 da ma st)))
        in (d, dp, sp, mp))"

definition template_span_with_mask_1_general ::
  "mem \<Rightarrow> int \<Rightarrow> int \<Rightarrow> mem \<Rightarrow> int \<Rightarrow> int \<Rightarrow> mem \<Rightarrow> int \<Rightarrow> int \<Rightarrow> mem option" where
  "template_span_with_mask_1_general d dp da s sp sa m mp w =
     map_option fst (do_while_dec (span_with_mask_1_general_px da s sa m) w (d, dp, sp, mp))"

text \<open>\<^verbatim>\<open>template_span_with_mask_3_general\<close>.\<close>

definition span_with_mask_3_general_px ::
  "bool \<Rightarrow> int \<Rightarrow> mem \<Rightarrow> int \<Rightarrow> mem \<Rightarrow> mask_state \<Rightarrow> mask_state" where
  "span_with_mask_3_general_px be da s sa m =
     (\<lambda>(d, dp, sp, mp).
        let ma = load m mp; mp = mp + 1; ma = FZ_EXPAND ma;
            (d, dp, sp) =
              (if ma = 0 then (d, dp + (3 + da), sp + (3 + sa))
               else if ma = 256 then
                 (let masa = (if sa \<noteq> 0 then 255 - load s (sp + 3) else 0) in
                  if masa = 0 then
                    (if da \<noteq> 0 \<and> sa \<noteq> 0 then copy_word be s (d, dp, sp)
                     else
                       (let st = copy_byte s (d, dp, sp);
                            st = copy_byte s st;
                            st = copy_byte s st
                        in copy_alpha s da sa st))
                  else
                    (let masa = FZ_EXPAND masa;
                         st = over_byte s masa (d, dp, sp);
                         st = over_byte s masa st;
                         st = over_byte s masa st
                     in over_alpha_mask s da sa masa st))
               else
                 (if sa \<noteq> 0 then
                    (let masa = FZ_COMBINE (load s (sp + 3)) ma;
                         masa = 255 - masa;
                         masa = FZ_EXPAND masa;
                         st = combine2_byte s ma masa (d, dp, sp);
                         st = combine2_byte s ma masa st;
                         st = combine2_byte s ma masa st
                     in combine2_alpha s da ma masa st)
                  else
                    (let st = blend_byte s ma (d, dp, sp);
                         st = blend_byte s ma st;
                         st = blend_byte s ma st
                     in blend_alpha_255 da ma st)))
        in (d, dp, sp, mp))"

definition template_span_with_mask_3_general ::
  "bool \<Rightarrow> mem \<Rightarrow> int \<Rightarrow> int \<Rightarrow> mem \<Rightarrow> int \<Rightarrow> int \<Rightarrow> mem \<Rightarrow> int \<Rightarrow> int \<Rightarrow> mem option" where
  "template_span_with_mask_3_general be d dp da s sp sa m mp w =
     map_option fst (do_while_dec (span_with_mask_3_general_px be da s sa m) w (d, dp, sp, mp))"

text \<open>\<^verbatim>\<open>template_span_with_mask_4_general\<close>.\<close>

definition span_with_mask_4_general_px ::
  "int \<Rightarrow> mem \<Rightarrow> int \<Rightarrow> mem \<Rightarrow> mask_state \<Rightarrow> mask_state" where
  "span_with_mask_4_general_px da s sa m =
     (\<lambda>(d, dp, sp, mp).
        let ma = load m mp; mp = mp + 1; ma = FZ_EXPAND ma;
            (d, dp, sp) =
              (if ma = 0 then (d, dp + (4 + da), sp + (4 + sa))
               else if ma = 256 then
                 (let masa = (if sa \<noteq> 0 then 255 - load s (sp + 4) else 0) in
                  if masa = 0 then
                    (let st = copy_byte s (d, dp, sp);
                         st = copy_byte s st;
                         st = copy_byte s st;
                         st = copy_byte s st
                     in copy_alpha s da sa st)
                  else
                    (let masa = FZ_EXPAND masa;
                         st = over_byte s masa (d, dp, sp);
                         st = over_byte s masa st;
                         st = over_byte s masa st;
                         st = over_byte s masa st
                     in over_alpha_mask s da sa masa st))
               else
                 (if sa \<noteq> 0 then
                    (let masa = FZ_COMBINE (load s (sp + 4)) ma;
                         masa = 255 - masa;
                         masa = FZ_EXPAND masa;
                         st = combine2_byte s ma masa (d, dp, sp);
                         st = combine2_byte s ma masa st;
                         st = combine2_byte s ma masa st;
                         st = combine2_byte s ma masa st
                     in combine2_alpha s da ma masa st)
                  else
                    (let st = blend_byte s ma (d, dp, sp);
                         st = blend_byte s ma st;
                         st = blend_byte s ma st;
                         st = blend_byte s ma st
                     in blend_alpha_255 da ma st)))
        in (d, dp, sp, mp))"

definition template_span_with_mask_4_general ::
  "mem \<Rightarrow> int \<Rightarrow> int \<Rightarrow> mem \<Rightarrow> int \<Rightarrow> int \<Rightarrow> mem \<Rightarrow> int \<Rightarrow> int \<Rightarrow> mem option" where
  "template_span_with_mask_4_general d dp da s sp sa m mp w =
     map_option fst (do_while_dec (span_with_mask_4_general_px da s sa m) w (d, dp, sp, mp))"

text \<open>
  \<^verbatim>\<open>template_span_with_mask_N_general\<close>: the channels are walked by
  \<^verbatim>\<open>int k = n; while (k--)\<close>, so the pixel body may fail to return.
\<close>

definition span_with_mask_N_general_px ::
  "int \<Rightarrow> mem \<Rightarrow> int \<Rightarrow> mem \<Rightarrow> int \<Rightarrow> mask_state \<Rightarrow> mask_state option" where
  "span_with_mask_N_general_px da s sa m n =
     (\<lambda>(d, dp, sp, mp).
        let ma = load m mp; mp = mp + 1; ma = FZ_EXPAND ma in
        map_option (\<lambda>(d, dp, sp). (d, dp, sp, mp))
          (if ma = 0 then Some (d, dp + (n + da), sp + (n + sa))
           else if ma = 256 then
             (let k = n;
                  masa = (if sa \<noteq> 0 then 255 - load s (sp + n) else 0) in
              if masa = 0 then
                map_option (copy_alpha s da sa) (while_dec k (copy_byte s) (d, dp, sp))
              else
                (let masa = FZ_EXPAND masa in
                 map_option (over_alpha_mask s da sa masa)
                   (while_dec k (over_byte s masa) (d, dp, sp))))
           else
             (let k = n in
              if sa \<noteq> 0 then
                (let masa = FZ_COMBINE (load s (sp + n)) ma;
                     masa = 255 - masa;
                     masa = FZ_EXPAND masa in
                 map_option (combine2_alpha s da ma masa)
                   (while_dec k (combine2_byte s ma masa) (d, dp, sp)))
              else
                map_option (blend_alpha_255 da ma)
                  (while_dec k (blend_byte s ma) (d, dp, sp)))))"

definition template_span_with_mask_N_general ::
  "mem \<Rightarrow> int \<Rightarrow> int \<Rightarrow> mem \<Rightarrow> int \<Rightarrow> int \<Rightarrow> mem \<Rightarrow> int \<Rightarrow> int \<Rightarrow> int \<Rightarrow> mem option" where
  "template_span_with_mask_N_general d dp da s sp sa m mp n w =
     map_option fst
       (do_while_dec_opt (span_with_mask_N_general_px da s sa m n) w (d, dp, sp, mp))"

text \<open>
  The mask painters, taking \<open>(dp, da, sp, sa, mp, n, w)\<close>, and
  \<^verbatim>\<open>fz_get_span_mask_painter\<close>. Without the grey plotters the mixed-alpha cases of one
  channel \<^verbatim>\<open>goto fallback\<close>, the \<^verbatim>\<open>default\<close> label.
\<close>

type_synonym span_mask_painter =
  "mem \<Rightarrow> int \<Rightarrow> int \<Rightarrow> mem \<Rightarrow> int \<Rightarrow> int \<Rightarrow> mem \<Rightarrow> int \<Rightarrow> int \<Rightarrow> int \<Rightarrow> mem option"

definition paint_span_with_mask_0_da_sa :: span_mask_painter where
  "paint_span_with_mask_0_da_sa d dp da s sp sa m mp n w =
     template_span_with_mask_N_general d dp 1 s sp 1 m mp 0 w"

definition paint_span_with_mask_0_da :: span_mask_painter where
  "paint_span_with_mask_0_da d dp da s sp sa m mp n w =
     template_span_with_mask_N_general d dp 1 s sp 0 m mp 0 w"

definition paint_span_with_mask_1_da_sa :: span_mask_painter where
  "paint_span_with_mask_1_da_sa d dp da s sp sa m mp n w =
     template_span_with_mask_1_general d dp 1 s sp 1 m mp w"

definition paint_span_with_mask_1 :: span_mask_painter where
  "paint_span_with_mask_1 d dp da s sp sa m mp n w =
     template_span_with_mask_1_general d dp 0 s sp 0 m mp w"

definition paint_span_with_mask_1_da :: span_mask_painter where
  "paint_span_with_mask_1_da d dp da s sp sa m mp n w =
     template_span_with_mask_1_general d dp 1 s sp 0 m mp w"

definition paint_span_with_mask_1_sa :: span_mask_painter where
  "paint_span_with_mask_1_sa d dp da s sp sa m mp n w =
     template_span_with_mask_1_general d dp 0 s sp 1 m mp w"

definition paint_span_with_mask_3_da_sa :: "bool \<Rightarrow> span_mask_painter" where
  "paint_span_with_mask_3_da_sa be d dp da s sp sa m mp n w =
     template_span_with_mask_3_general be d dp 1 s sp 1 m mp w"

definition paint_span_with_mask_3_da :: "bool \<Rightarrow> span_mask_painter" where
  "paint_span_with_mask_3_da be d dp da s sp sa m mp n w =
     template_span_with_mask_3_general be d dp 1 s sp 0 m mp w"

definition paint_span_with_mask_3_sa :: "bool \<Rightarrow> span_mask_painter" where
  "paint_span_with_mask_3_sa be d dp da s sp sa m mp n w =
     template_span_with_mask_3_general be d dp 0 s sp 1 m mp w"

definition paint_span_with_mask_3 :: "bool \<Rightarrow> span_mask_painter" where
  "paint_span_with_mask_3 be d dp da s sp sa m mp n w =
     template_span_with_mask_3_general be d dp 0 s sp 0 m mp w"

definition paint_span_with_mask_4_da_sa :: span_mask_painter where
  "paint_span_with_mask_4_da_sa d dp da s sp sa m mp n w =
     template_span_with_mask_4_general d dp 1 s sp 1 m mp w"

definition paint_span_with_mask_4_da :: span_mask_painter where
  "paint_span_with_mask_4_da d dp da s sp sa m mp n w =
     template_span_with_mask_4_general d dp 1 s sp 0 m mp w"

definition paint_span_with_mask_4_sa :: span_mask_painter where
  "paint_span_with_mask_4_sa d dp da s sp sa m mp n w =
     template_span_with_mask_4_general d dp 0 s sp 1 m mp w"

definition paint_span_with_mask_4 :: span_mask_painter where
  "paint_span_with_mask_4 d dp da s sp sa m mp n w =
     template_span_with_mask_4_general d dp 0 s sp 0 m mp w"

definition paint_span_with_mask_N_da_sa :: span_mask_painter where
  "paint_span_with_mask_N_da_sa d dp da s sp sa m mp n w =
     template_span_with_mask_N_general d dp 1 s sp 1 m mp n w"

definition paint_span_with_mask_N_da :: span_mask_painter where
  "paint_span_with_mask_N_da d dp da s sp sa m mp n w =
     template_span_with_mask_N_general d dp 1 s sp 0 m mp n w"

definition paint_span_with_mask_N_sa :: span_mask_painter where
  "paint_span_with_mask_N_sa d dp da s sp sa m mp n w =
     template_span_with_mask_N_general d dp 0 s sp 1 m mp n w"

definition paint_span_with_mask_N :: span_mask_painter where
  "paint_span_with_mask_N d dp da s sp sa m mp n w =
     template_span_with_mask_N_general d dp 0 s sp 0 m mp n w"

definition span_mask_fallback :: "config \<Rightarrow> int \<Rightarrow> int \<Rightarrow> span_mask_painter option" where
  "span_mask_fallback cfg da sa =
     (if plotters_n cfg then
        Some (if da \<noteq> 0 then (if sa \<noteq> 0 then paint_span_with_mask_N_da_sa
                                else paint_span_with_mask_N_da)
              else (if sa \<noteq> 0 then paint_span_with_mask_N_sa else paint_span_with_mask_N))
      else None)"

definition fz_get_span_mask_painter :: "config \<Rightarrow> int \<Rightarrow> int \<Rightarrow> int \<Rightarrow> span_mask_painter option" where
  "fz_get_span_mask_painter cfg da sa n =
     (let be = isbigendian cfg in
      if n = 0 then
        (if da = 0 then None
         else if sa \<noteq> 0 then Some paint_span_with_mask_0_da_sa
         else Some paint_span_with_mask_0_da)
      else if n = 1 then
        (if plotters_g cfg then
           Some (if da \<noteq> 0 then (if sa \<noteq> 0 then paint_span_with_mask_1_da_sa
                                   else paint_span_with_mask_1_da)
                 else (if sa \<noteq> 0 then paint_span_with_mask_1_sa else paint_span_with_mask_1))
         else if da \<noteq> 0 \<and> sa \<noteq> 0 then Some paint_span_with_mask_1_da_sa
         else if da = 0 \<and> sa = 0 then Some paint_span_with_mask_1
         else span_mask_fallback cfg da sa)
      else if n = 3 \<and> plotters_rgb cfg then
        Some (if da \<noteq> 0 then (if sa \<noteq> 0 then paint_span_with_mask_3_da_sa be
                                else paint_span_with_mask_3_da be)
              else (if sa \<noteq> 0 then paint_span_with_mask_3_sa be else paint_span_with_mask_3 be))
      else if n = 4 \<and> plotters_cmyk cfg then
        Some (if da \<noteq> 0 then (if sa \<noteq> 0 then paint_span_with_mask_4_da_sa
                                else paint_span_with_mask_4_da)
              else (if sa \<noteq> 0 then paint_span_with_mask_4_sa else paint_span_with_mask_4))
      else span_mask_fallback cfg da sa)"

section \<open>Span over destination\<close>

text \<open>
  More statements of the span kernels, as above:
  \<^item> \<open>blend_alpha\<close>:
    \<^verbatim>\<open>if (da) { *dp = FZ_BLEND((sa ? *sp : 255), *dp, masa); dp++; } if (sa) sp++;\<close>
  \<^item> \<open>over_alpha_span\<close>:
    \<^verbatim>\<open>if (da) { *dp = (sa ? *sp + FZ_COMBINE(*dp, t) : 255); dp++; } if (sa) sp++;\<close>
\<close>

definition blend_alpha :: "mem \<Rightarrow> int \<Rightarrow> int \<Rightarrow> int \<Rightarrow> span_state \<Rightarrow> span_state" where
  "blend_alpha s da sa masa =
     (\<lambda>(d, dp, sp).
        let (d, dp) = (if da \<noteq> 0
                       then (store d dp (FZ_BLEND (if sa \<noteq> 0 then load s sp else 255)
                                           (load d dp) masa), dp + 1)
                       else (d, dp));
            sp = (if sa \<noteq> 0 then sp + 1 else sp)
        in (d, dp, sp))"

definition over_alpha_span :: "mem \<Rightarrow> int \<Rightarrow> int \<Rightarrow> int \<Rightarrow> span_state \<Rightarrow> span_state" where
  "over_alpha_span s da sa t =
     (\<lambda>(d, dp, sp).
        let (d, dp) = (if da \<noteq> 0
                       then (store d dp (if sa \<noteq> 0 then load s sp + FZ_COMBINE (load d dp) t
                                         else 255), dp + 1)
                       else (d, dp));
            sp = (if sa \<noteq> 0 then sp + 1 else sp)
        in (d, dp, sp))"

text \<open>
  The kernels with a constant alpha: \<^verbatim>\<open>template_span_1_with_alpha_general\<close>, its 3 and
  4 channel copies and \<^verbatim>\<open>template_span_N_with_alpha_general\<close>. The argument \<open>alpha\<close>
  of the pixel bodies is the value after \<^verbatim>\<open>if (sa) alpha = FZ_EXPAND(alpha);\<close>.
\<close>

definition span_1_with_alpha_general_px :: "int \<Rightarrow> mem \<Rightarrow> int \<Rightarrow> int \<Rightarrow> span_state \<Rightarrow> span_state" where
  "span_1_with_alpha_general_px da s sa alpha =
     (\<lambda>(d, dp, sp).
        let masa = (if sa \<noteq> 0 then FZ_COMBINE (load s (sp + 1)) alpha else alpha);
            st = blend_byte s masa (d, dp, sp)
        in blend_alpha s da sa masa st)"

definition template_span_1_with_alpha_general ::
  "mem \<Rightarrow> int \<Rightarrow> int \<Rightarrow> mem \<Rightarrow> int \<Rightarrow> int \<Rightarrow> int \<Rightarrow> int \<Rightarrow> mem option" where
  "template_span_1_with_alpha_general d dp da s sp sa w alpha =
     (let alpha = (if sa \<noteq> 0 then FZ_EXPAND alpha else alpha) in
      map_option fst (do_while_dec (span_1_with_alpha_general_px da s sa alpha) w (d, dp, sp)))"

definition span_3_with_alpha_general_px :: "int \<Rightarrow> mem \<Rightarrow> int \<Rightarrow> int \<Rightarrow> span_state \<Rightarrow> span_state" where
  "span_3_with_alpha_general_px da s sa alpha =
     (\<lambda>(d, dp, sp).
        let masa = (if sa \<noteq> 0 then FZ_COMBINE (load s (sp + 3)) alpha else alpha);
            st = blend_byte s masa (d, dp, sp);
            st = blend_byte s masa st;
            st = blend_byte s masa st
        in blend_alpha s da sa masa st)"

definition template_span_3_with_alpha_general ::
  "mem \<Rightarrow> int \<Rightarrow> int \<Rightarrow> mem \<Rightarrow> int \<Rightarrow> int \<Rightarrow> int \<Rightarrow> int \<Rightarrow> mem option" where
  "template_span_3_with_alpha_general d dp da s sp sa w alpha =
     (let alpha = (if sa \<noteq> 0 then FZ_EXPAND alpha else alpha) in
      map_option fst (do_while_dec (span_3_with_alpha_general_px da s sa alpha) w (d, dp, sp)))"

definition span_4_with_alpha_general_px :: "int \<Rightarrow> mem \<Rightarrow> int \<Rightarrow> int \<Rightarrow> span_state \<Rightarrow> span_state" where
  "span_4_with_alpha_general_px da s sa alpha =
     (\<lambda>(d, dp, sp).
        let masa = (if sa \<noteq> 0 then FZ_COMBINE (load s (sp + 4)) alpha else alpha);
            st = blend_byte s masa (d, dp, sp);
            st = blend_byte s masa st;
            st = blend_byte s masa st;
            st = blend_byte s masa st
        in blend_alpha s da sa masa st)"

definition template_span_4_with_alpha_general ::
  "mem \<Rightarrow> int \<Rightarrow> int \<Rightarrow> mem \<Rightarrow> int \<Rightarrow> int \<Rightarrow> int \<Rightarrow> int \<Rightarrow> mem option" where
  "template_span_4_with_alpha_general d dp da s sp sa w alpha =
     (let alpha = (if sa \<noteq> 0 then FZ_EXPAND alpha else alpha) in
      map_option fst (do_while_dec (span_4_with_alpha_general_px da s sa alpha) w (d, dp, sp)))"

definition span_N_with_alpha_general_px ::
  "int \<Rightarrow> mem \<Rightarrow> int \<Rightarrow> int \<Rightarrow> int \<Rightarrow> span_state \<Rightarrow> span_state option" where
  "span_N_with_alpha_general_px da s sa n1 alpha =
     (\<lambda>(d, dp, sp).
        let masa = (if sa \<noteq> 0 then FZ_COMBINE (load s (sp + n1)) alpha else alpha);
            k = n1
        in map_option (blend_alpha s da sa masa) (while_dec k (blend_byte s masa) (d, dp, sp)))"

definition template_span_N_with_alpha_general ::
  "mem \<Rightarrow> int \<Rightarrow> int \<Rightarrow> mem \<Rightarrow> int \<Rightarrow> int \<Rightarrow> int \<Rightarrow> int \<Rightarrow> int \<Rightarrow> mem option" where
  "template_span_N_with_alpha_general d dp da s sp sa n1 w alpha =
     (let alpha = (if sa \<noteq> 0 then FZ_EXPAND alpha else alpha) in
      map_option fst
        (do_while_dec_opt (span_N_with_alpha_general_px da s sa n1 alpha) w (d, dp, sp)))"

text \<open>
  The kernels without a constant alpha: \<^verbatim>\<open>template_span_1_general\<close>, its 3 and 4
  channel copies and \<^verbatim>\<open>template_span_N_general\<close>.
\<close>

definition span_1_general_px :: "int \<Rightarrow> mem \<Rightarrow> int \<Rightarrow> span_state \<Rightarrow> span_state" where
  "span_1_general_px da s sa =
     (\<lambda>(d, dp, sp).
        let t = (if sa \<noteq> 0 then FZ_EXPAND (load s (sp + 1)) else 256) in
        if t = 0 then (d, dp + (1 + da), sp + (1 + sa))
        else
          (let t = 256 - t in
           if t = 0 then
             (let st = copy_byte s (d, dp, sp) in copy_alpha s da sa st)
           else
             (let st = over_byte s t (d, dp, sp) in over_alpha_span s da sa t st)))"

definition template_span_1_general ::
  "mem \<Rightarrow> int \<Rightarrow> int \<Rightarrow> mem \<Rightarrow> int \<Rightarrow> int \<Rightarrow> int \<Rightarrow> mem option" where
  "template_span_1_general d dp da s sp sa w =
     map_option fst (do_while_dec (span_1_general_px da s sa) w (d, dp, sp))"

definition span_3_general_px :: "bool \<Rightarrow> int \<Rightarrow> mem \<Rightarrow> int \<Rightarrow> span_state \<Rightarrow> span_state" where
  "span_3_general_px be da s sa =
     (\<lambda>(d, dp, sp).
        let t = (if sa \<noteq> 0 then FZ_EXPAND (load s (sp + 3)) else 256) in
        if t = 0 then (d, dp + (3 + da), sp + (3 + sa))
        else
          (let t = 256 - t in
           if t = 0 then
             (let d = (if da \<noteq> 0 \<and> sa \<noteq> 0 then store32 be d dp (load32 be s sp)
                       else
                         (let d = store d (dp + 0) (load s (sp + 0));
                              d = store d (dp + 1) (load s (sp + 1));
                              d = store d (dp + 2) (load s (sp + 2))
                          in if da \<noteq> 0
                             then store d (dp + 3) (if sa \<noteq> 0 then load s (sp + 3) else 255)
                             else d))
              in (d, dp + (3 + da), sp + (3 + sa)))
           else
             (let st = over_byte s t (d, dp, sp);
                  st = over_byte s t st;
                  st = over_byte s t st
              in over_alpha_span s da sa t st)))"

definition template_span_3_general ::
  "bool \<Rightarrow> mem \<Rightarrow> int \<Rightarrow> int \<Rightarrow> mem \<Rightarrow> int \<Rightarrow> int \<Rightarrow> int \<Rightarrow> mem option" where
  "template_span_3_general be d dp da s sp sa w =
     map_option fst (do_while_dec (span_3_general_px be da s sa) w (d, dp, sp))"

definition span_4_general_px :: "int \<Rightarrow> mem \<Rightarrow> int \<Rightarrow> span_state \<Rightarrow> span_state" where
  "span_4_general_px da s sa =
     (\<lambda>(d, dp, sp).
        let t = (if sa \<noteq> 0 then FZ_EXPAND (load s (sp + 4)) else 256) in
        if t = 0 then (d, dp + (4 + da), sp + (4 + sa))
        else
          (let t = 256 - t in
           if t = 0 then
             (let d = store d (dp + 0) (load s (sp + 0));
                  d = store d (dp + 1) (load s (sp + 1));
                  d = store d (dp + 2) (load s (sp + 2));
                  d = store d (dp + 3) (load s (sp + 3));
                  d = (if da \<noteq> 0
                       then store d (dp + 4) (if sa \<noteq> 0 then load s (sp + 4) else 255)
                       else d)
              in (d, dp + (4 + da), sp + (4 + sa)))
           else
             (let st = over_byte s t (d, dp, sp);
                  st = over_byte s t st;
                  st = over_byte s t st;
                  st = over_byte s t st
              in over_alpha_span s da sa t st)))"

definition template_span_4_general ::
  "mem \<Rightarrow> int \<Rightarrow> int \<Rightarrow> mem \<Rightarrow> int \<Rightarrow> int \<Rightarrow> int \<Rightarrow> mem option" where
  "template_span_4_general d dp da s sp sa w =
     map_option fst (do_while_dec (span_4_general_px da s sa) w (d, dp, sp))"

definition span_N_general_px :: "int \<Rightarrow> mem \<Rightarrow> int \<Rightarrow> int \<Rightarrow> span_state \<Rightarrow> span_state option" where
  "span_N_general_px da s sa n1 =
     (\<lambda>(d, dp, sp).
        let t = (if sa \<noteq> 0 then FZ_EXPAND (load s (sp + n1)) else 256) in
        if t = 0 then Some (d, dp + (n1 + da), sp + (n1 + sa))
        else
          (let t = 256 - t in
           if t = 0 then
             (let k = n1 in
              map_option (copy_alpha s da sa) (while_dec k (copy_byte s) (d, dp, sp)))
           else
             (let k = n1 in
              map_option (over_alpha_span s da sa t) (while_dec k (over_byte s t) (d, dp, sp)))))"

definition template_span_N_general ::
  "mem \<Rightarrow> int \<Rightarrow> int \<Rightarrow> mem \<Rightarrow> int \<Rightarrow> int \<Rightarrow> int \<Rightarrow> int \<Rightarrow> mem option" where
  "template_span_N_general d dp da s sp sa n1 w =
     map_option fst (do_while_dec_opt (span_N_general_px da s sa n1) w (d, dp, sp))"

text \<open>
  The span painters, taking \<open>(dp, da, sp, sa, n, w, alpha)\<close>. The two painters for a
  destination that is alpha only have their loops written out in the source.
\<close>

type_synonym span_painter =
  "mem \<Rightarrow> int \<Rightarrow> int \<Rightarrow> mem \<Rightarrow> int \<Rightarrow> int \<Rightarrow> int \<Rightarrow> int \<Rightarrow> int \<Rightarrow> mem option"

definition paint_span_0_da_sa :: span_painter where
  "paint_span_0_da_sa d dp da s sp sa n w alpha =
     map_option fst (do_while_dec
       (\<lambda>(d, dp, sp).
          let s' = load s sp; sp = sp + 1;
              t = FZ_EXPAND (255 - s');
              d = store d dp (s' + FZ_COMBINE (load d dp) t);
              dp = dp + 1
          in (d, dp, sp)) w (d, dp, sp))"

definition paint_span_0_da_sa_alpha :: span_painter where
  "paint_span_0_da_sa_alpha d dp da s sp sa n w alpha =
     (let alpha = FZ_EXPAND alpha in
      map_option fst (do_while_dec
        (\<lambda>(d, dp, sp).
           let masa = FZ_COMBINE (load s (sp + 0)) alpha;
               d = store d dp (FZ_BLEND (load s sp) (load d dp) masa);
               dp = dp + 1;
               sp = sp + 1
           in (d, dp, sp)) w (d, dp, sp)))"

definition paint_span_1_sa :: span_painter where
  "paint_span_1_sa d dp da s sp sa n w alpha = template_span_1_general d dp 0 s sp 1 w"

definition paint_span_1_sa_alpha :: span_painter where
  "paint_span_1_sa_alpha d dp da s sp sa n w alpha =
     template_span_1_with_alpha_general d dp 0 s sp 1 w alpha"

definition paint_span_1_da_sa :: span_painter where
  "paint_span_1_da_sa d dp da s sp sa n w alpha = template_span_1_general d dp 1 s sp 1 w"

definition paint_span_1_da_sa_alpha :: span_painter where
  "paint_span_1_da_sa_alpha d dp da s sp sa n w alpha =
     template_span_1_with_alpha_general d dp 1 s sp 1 w alpha"

definition paint_span_1_da :: span_painter where
  "paint_span_1_da d dp da s sp sa n w alpha = template_span_1_general d dp 1 s sp 0 w"

definition paint_span_1_da_alpha :: span_painter where
  "paint_span_1_da_alpha d dp da s sp sa n w alpha =
     template_span_1_with_alpha_general d dp 1 s sp 0 w alpha"

definition paint_span_1 :: span_painter where
  "paint_span_1 d dp da s sp sa n w alpha = template_span_1_general d dp 0 s sp 0 w"

definition paint_span_1_alpha :: span_painter where
  "paint_span_1_alpha d dp da s sp sa n w alpha =
     template_span_1_with_alpha_general d dp 0 s sp 0 w alpha"

definition paint_span_3_da_sa :: "bool \<Rightarrow> span_painter" where
  "paint_span_3_da_sa be d dp da s sp sa n w alpha = template_span_3_general be d dp 1 s sp 1 w"

definition paint_span_3_da_sa_alpha :: span_painter where
  "paint_span_3_da_sa_alpha d dp da s sp sa n w alpha =
     template_span_3_with_alpha_general d dp 1 s sp 1 w alpha"

definition paint_span_3_da :: "bool \<Rightarrow> span_painter" where
  "paint_span_3_da be d dp da s sp sa n w alpha = template_span_3_general be d dp 1 s sp 0 w"

definition paint_span_3_da_alpha :: span_painter where
  "paint_span_3_da_alpha d dp da s sp sa n w alpha =
     template_span_3_with_alpha_general d dp 1 s sp 0 w alpha"

definition paint_span_3_sa :: "bool \<Rightarrow> span_painter" where
  "paint_span_3_sa be d dp da s sp sa n w alpha = template_span_3_general be d dp 0 s sp 1 w"

definition paint_span_3_sa_alpha :: span_painter where
  "paint_span_3_sa_alpha d dp da s sp sa n w alpha =
     template_span_3_with_alpha_general d dp 0 s sp 1 w alpha"

definition paint_span_3 :: "bool \<Rightarrow> span_painter" where
  "paint_span_3 be d dp da s sp sa n w alpha = template_span_3_general be d dp 0 s sp 0 w"

definition paint_span_3_alpha :: span_painter where
  "paint_span_3_alpha d dp da s sp sa n w alpha =
     template_span_3_with_alpha_general d dp 0 s sp 0 w alpha"

definition paint_span_4_da_sa :: span_painter where
  "paint_span_4_da_sa d dp da s sp sa n w alpha = template_span_4_general d dp 1 s sp 1 w"

definition paint_span_4_da_sa_alpha :: span_painter where
  "paint_span_4_da_sa_alpha d dp da s sp sa n w alpha =
     template_span_4_with_alpha_general d dp 1 s sp 1 w alpha"

definition paint_span_4_da :: span_painter where
  "paint_span_4_da d dp da s sp sa n w alpha = template_span_4_general d dp 1 s sp 0 w"

definition paint_span_4_da_alpha :: span_painter where
  "paint_span_4_da_alpha d dp da s sp sa n w alpha =
     template_span_4_with_alpha_general d dp 1 s sp 0 w alpha"

definition paint_span_4_sa :: span_painter where
  "paint_span_4_sa d dp da s sp sa n w alpha = template_span_4_general d dp 0 s sp 1 w"

definition paint_span_4_sa_alpha :: span_painter where
  "paint_span_4_sa_alpha d dp da s sp sa n w alpha =
     template_span_4_with_alpha_general d dp 0 s sp 1 w alpha"

definition paint_span_4 :: span_painter where
  "paint_span_4 d dp da s sp sa n w alpha = template_span_4_general d dp 0 s sp 0 w"

definition paint_span_4_alpha :: span_painter where
  "paint_span_4_alpha d dp da s sp sa n w alpha =
     template_span_4_with_alpha_general d dp 0 s sp 0 w alpha"

definition paint_span_N_da_sa :: span_painter where
  "paint_span_N_da_sa d dp da s sp sa n w alpha = template_span_N_general d dp 1 s sp 1 n w"

definition paint_span_N_da_sa_alpha :: span_painter where
  "paint_span_N_da_sa_alpha d dp da s sp sa n w alpha =
     template_span_N_with_alpha_general d dp 1 s sp 1 n w alpha"

definition paint_span_N_da :: span_painter where
  "paint_span_N_da d dp da s sp sa n w alpha = template_span_N_general d dp 1 s sp 0 n w"

definition paint_span_N_da_alpha :: span_painter where
  "paint_span_N_da_alpha d dp da s sp sa n w alpha =
     template_span_N_with_alpha_general d dp 1 s sp 0 n w alpha"

definition paint_span_N_sa :: span_painter where
  "paint_span_N_sa d dp da s sp sa n w alpha = template_span_N_general d dp 0 s sp 1 n w"

definition paint_span_N_sa_alpha :: span_painter where
  "paint_span_N_sa_alpha d dp da s sp sa n w alpha =
     template_span_N_with_alpha_general d dp 0 s sp 1 n w alpha"

definition paint_span_N :: span_painter where
  "paint_span_N d dp da s sp sa n w alpha = template_span_N_general d dp 0 s sp 0 n w"

definition paint_span_N_alpha :: span_painter where
  "paint_span_N_alpha d dp da s sp sa n w alpha =
     template_span_N_with_alpha_general d dp 0 s sp 0 n w alpha"

text \<open>
  \<^verbatim>\<open>fz_get_span_painter\<close>. Every leaf of its \<^verbatim>\<open>switch\<close> is
  \<^verbatim>\<open>if (alpha == 255) return p; else if (alpha > 0) return p_alpha;\<close> and otherwise
  leaves the switch to \<^verbatim>\<open>return NULL\<close>: that is \<open>by_alpha\<close>.
\<close>

definition by_alpha :: "int \<Rightarrow> span_painter \<Rightarrow> span_painter \<Rightarrow> span_painter option" where
  "by_alpha alpha p p_alpha =
     (if alpha = 255 then Some p else if alpha > 0 then Some p_alpha else None)"

definition span_fallback :: "config \<Rightarrow> int \<Rightarrow> int \<Rightarrow> int \<Rightarrow> span_painter option" where
  "span_fallback cfg da sa alpha =
     (if plotters_n cfg then
        (if da \<noteq> 0 then
           (if sa \<noteq> 0 then by_alpha alpha paint_span_N_da_sa paint_span_N_da_sa_alpha
            else by_alpha alpha paint_span_N_da paint_span_N_da_alpha)
         else
           (if sa \<noteq> 0 then by_alpha alpha paint_span_N_sa paint_span_N_sa_alpha
            else by_alpha alpha paint_span_N paint_span_N_alpha))
      else None)"

definition fz_get_span_painter :: "config \<Rightarrow> int \<Rightarrow> int \<Rightarrow> int \<Rightarrow> int \<Rightarrow> span_painter option" where
  "fz_get_span_painter cfg da sa n alpha =
     (let be = isbigendian cfg in
      if n = 0 then by_alpha alpha paint_span_0_da_sa paint_span_0_da_sa_alpha
      else if n = 1 then
        (if sa \<noteq> 0 then
           (if da \<noteq> 0 then by_alpha alpha paint_span_1_da_sa paint_span_1_da_sa_alpha
            else by_alpha alpha paint_span_1_sa paint_span_1_sa_alpha)
         else if plotters_g cfg then
           (if da \<noteq> 0 then by_alpha alpha paint_span_1_da paint_span_1_da_alpha
            else by_alpha alpha paint_span_1 paint_span_1_alpha)
         else span_fallback cfg da sa alpha)
      else if n = 3 \<and> plotters_rgb cfg then
        (if da \<noteq> 0 then
           (if sa \<noteq> 0 then by_alpha alpha (paint_span_3_da_sa be) paint_span_3_da_sa_alpha
            else by_alpha alpha (paint_span_3_da be) paint_span_3_da_alpha)
         else
           (if sa \<noteq> 0 then by_alpha alpha (paint_span_3_sa be) paint_span_3_sa_alpha
            else by_alpha alpha (paint_span_3 be) paint_span_3_alpha))
      else if n = 4 \<and> plotters_cmyk cfg then
        (if da \<noteq> 0 then
           (if sa \<noteq> 0 then by_alpha alpha paint_span_4_da_sa paint_span_4_da_sa_alpha
            else by_alpha alpha paint_span_4_da paint_span_4_da_alpha)
         else
           (if sa \<noteq> 0 then by_alpha alpha paint_span_4_sa paint_span_4_sa_alpha
            else by_alpha alpha paint_span_4 paint_span_4_alpha))
      else span_fallback cfg da sa alpha)"

section \<open>Glyph run-length decoding\<close>

text \<open>
  A glyph carries one byte array \<^verbatim>\<open>data\<close> (\<open>gdata\<close> below): a table of native \<^verbatim>\<open>int\<close> row offsets, then
  the run streams. The array is finite, and a read outside it is the result \<open>None\<close>
  (the C code would read past the glyph). The header byte and the lengths decoded from it
  are never negative and are naturals; the counters taken from the caller (\<open>w\<close>, \<open>h\<close>,
  \<open>skip_x\<close>, \<open>skip_y\<close>) are C ints.
\<close>

definition read_u8 :: "byte list \<Rightarrow> int \<Rightarrow> nat option" where
  "read_u8 bs i = (if 0 \<le> i \<and> i < int (length bs) then Some (unat (bs ! nat i)) else None)"

definition read_int :: "bool \<Rightarrow> byte list \<Rightarrow> int \<Rightarrow> int option" where
  "read_int be bs i =
     (if 0 \<le> i \<and> i + 3 < int (length bs)
      then Some (sint (load32 be (mem_of bs) i))
      else None)"

text \<open>
  The three labelled blocks of the emit loop. Each clips \<open>len\<close> to the remaining width
  \<open>ww\<close> and advances \<open>ddp\<close>; the Solid and Intermediate blocks write with a
  \<^verbatim>\<open>do ... while (--len)\<close> loop.
\<close>

definition transparent_run :: "int \<Rightarrow> int \<Rightarrow> int \<Rightarrow> int \<times> int" where
  "transparent_run len ww ddp =
     (let len = (if len > ww then ww else len);
          ww = ww - len;
          ddp = ddp + len
      in (ww, ddp))"

definition solid_run :: "int \<Rightarrow> int \<Rightarrow> mem \<Rightarrow> int \<Rightarrow> (int \<times> mem \<times> int) option" where
  "solid_run len ww d ddp =
     (let len = (if len > ww then ww else len);
          ww = ww - len
      in map_option (\<lambda>(d, ddp). (ww, d, ddp))
           (do_while_dec (\<lambda>(d, ddp). (store d ddp 0xFF, ddp + 1)) len (d, ddp)))"

function intermediate_loop ::
  "byte list \<Rightarrow> int \<Rightarrow> int \<Rightarrow> mem \<Rightarrow> int \<Rightarrow> (int \<times> mem \<times> int) option" where
  "intermediate_loop gdata len runp d ddp =
     (if len < 1 then None
      else
        (let v = load d ddp in
         case read_u8 gdata runp of
           None \<Rightarrow> None
         | Some a \<Rightarrow>
             (let runp = runp + 1;
                  d = (if v = 0 then store d ddp (int a)
                       else (let a = FZ_EXPAND (int a) in store d ddp (FZ_BLEND 0xFF v a)));
                  ddp = ddp + 1
              in if len - 1 = 0 then Some (runp, d, ddp)
                 else intermediate_loop gdata (len - 1) runp d ddp)))"
  by pat_completeness auto
termination
  by (relation "measure (\<lambda>(gdata, len, runp, d, ddp). nat len)") auto

declare intermediate_loop.simps [simp del]

definition intermediate_run ::
  "byte list \<Rightarrow> int \<Rightarrow> int \<Rightarrow> int \<Rightarrow> mem \<Rightarrow> int \<Rightarrow> (int \<times> int \<times> mem \<times> int) option" where
  "intermediate_run gdata len ww runp d ddp =
     (let len = (if len > ww then ww else len);
          ww = ww - len
      in map_option (\<lambda>(runp, d, ddp). (ww, runp, d, ddp))
           (intermediate_loop gdata len runp d ddp))"

text \<open>
  What the Intermediate block leaves in one destination byte, from the byte found there
  and the coverage byte of the run (the body of its loop, as a function).
\<close>

definition mask_px :: "byte \<Rightarrow> byte \<Rightarrow> byte" where
  "mask_px old a =
     (if old = 0 then a else word_of_int (FZ_BLEND 0xFF (uint old) (FZ_EXPAND (uint a))))"

text \<open>
  The emit loop \<^verbatim>\<open>while (ww > 0)\<close> of \<^verbatim>\<open>fz_paint_glyph_mask\<close>, on the state
  \<open>(runp, ext, ww, eol, destination, ddp)\<close>, where \<open>ext\<close> is the source's
  \<^verbatim>\<open>extend\<close>. After the switch comes
  \<^verbatim>\<open>if (eol) break;\<close>, then the loop test.
\<close>

function glyph_mask_emit ::
  "byte list \<Rightarrow> int \<Rightarrow> nat \<Rightarrow> int \<Rightarrow> nat \<Rightarrow> mem \<Rightarrow> int \<Rightarrow> mem option" where
  "glyph_mask_emit gdata runp ext ww eol d ddp =
     (if ww > 0 then
        (case read_u8 gdata runp of
           None \<Rightarrow> None
         | Some v \<Rightarrow>
             (let runp = runp + 1 in
              if v AND 3 = 0 then
                (let ext = drop_bit 2 v in
                 if eol \<noteq> 0 then Some d
                 else glyph_mask_emit gdata runp ext ww eol d ddp)
              else if v AND 3 = 1 then
                (let len = drop_bit 2 v + 1 + push_bit 6 ext;
                     ext = 0;
                     (ww, ddp) = transparent_run (int len) ww ddp in
                 if eol \<noteq> 0 then Some d
                 else glyph_mask_emit gdata runp ext ww eol d ddp)
              else if v AND 3 = 2 then
                (let eol = v AND 4;
                     len = drop_bit 3 v + 1 + push_bit 5 ext;
                     ext = 0 in
                 case solid_run (int len) ww d ddp of
                   None \<Rightarrow> None
                 | Some (ww, d, ddp) \<Rightarrow>
                     if eol \<noteq> 0 then Some d
                     else glyph_mask_emit gdata runp ext ww eol d ddp)
              else
                (let eol = v AND 4;
                     len = drop_bit 3 v + 1 + push_bit 5 ext;
                     ext = 0 in
                 case intermediate_run gdata (int len) ww runp d ddp of
                   None \<Rightarrow> None
                 | Some (ww, runp, d, ddp) \<Rightarrow>
                     if eol \<noteq> 0 then Some d
                     else glyph_mask_emit gdata runp ext ww eol d ddp)))
      else Some d)"
  by pat_completeness auto
termination
proof -
  have mono: "intermediate_loop gdata len runp d ddp = Some (runp', d', ddp') \<Longrightarrow> runp \<le> runp'"
    for gdata len runp d ddp runp' d' ddp'
  proof (induction gdata len runp d ddp rule: intermediate_loop.induct)
    case (1 gdata len runp d ddp)
    show ?case
    proof (cases "read_u8 gdata runp")
      case None
      with "1.prems" show ?thesis
        by (subst (asm) intermediate_loop.simps) (simp split: if_splits)
    next
      case (Some a)
      show ?thesis
      proof (cases "len - 1 = 0")
        case True
        with Some "1.prems" show ?thesis
          by (subst (asm) intermediate_loop.simps) (simp split: if_splits add: Let_def)
      next
        case False
        from "1.prems" have l: "\<not> len < 1"
          by (subst (asm) intermediate_loop.simps) (simp split: if_splits)
        from "1.prems" False Some l have "runp + 1 \<le> runp'"
          by (subst (asm) intermediate_loop.simps)
             (simp add: Let_def "1.IH" [OF l refl Some refl refl refl False])
        then show ?thesis by simp
      qed
    qed
  qed
  show ?thesis
    by (relation "measure (\<lambda>(gdata, runp, ext, ww, eol, d, ddp). nat (int (length gdata) - runp))")
       (auto simp: read_u8_def intermediate_run_def Let_def split: if_splits dest!: mono)
qed

declare glyph_mask_emit.simps [simp del]

text \<open>
  The skip loop \<^verbatim>\<open>while (skip_xx)\<close>. A run longer than what is left to skip jumps into
  the matching block of the emit loop (\<^verbatim>\<open>goto transparent_run\<close> and so on) and goes on
  there; a run that is used up is followed by \<^verbatim>\<open>if (eol) { ww = 0; break; }\<close> and
  \<^verbatim>\<open>skip_xx -= len\<close>. Leaving the loop leads to the emit loop.
\<close>

function glyph_mask_skip ::
  "byte list \<Rightarrow> int \<Rightarrow> nat \<Rightarrow> int \<Rightarrow> int \<Rightarrow> nat \<Rightarrow> mem \<Rightarrow> int \<Rightarrow> mem option" where
  "glyph_mask_skip gdata runp ext ww skip_xx eol d ddp =
     (if skip_xx \<noteq> 0 then
        (case read_u8 gdata runp of
           None \<Rightarrow> None
         | Some v \<Rightarrow>
             (let runp = runp + 1 in
              if v AND 3 = 0 then
                (let ext = drop_bit 2 v;
                     len = 0 in
                 if eol \<noteq> 0 then glyph_mask_emit gdata runp ext 0 eol d ddp
                 else glyph_mask_skip gdata runp ext ww (skip_xx - len) eol d ddp)
              else if v AND 3 = 1 then
                (let len = int (drop_bit 2 v + 1 + push_bit 6 ext);
                     ext = 0 in
                 if len > skip_xx then
                   (let len = len - skip_xx;
                        (ww, ddp) = transparent_run len ww ddp in
                    if eol \<noteq> 0 then Some d
                    else glyph_mask_emit gdata runp ext ww eol d ddp)
                 else if eol \<noteq> 0 then glyph_mask_emit gdata runp ext 0 eol d ddp
                 else glyph_mask_skip gdata runp ext ww (skip_xx - len) eol d ddp)
              else if v AND 3 = 2 then
                (let eol = v AND 4;
                     len = int (drop_bit 3 v + 1 + push_bit 5 ext);
                     ext = 0 in
                 if len > skip_xx then
                   (let len = len - skip_xx in
                    case solid_run len ww d ddp of
                      None \<Rightarrow> None
                    | Some (ww, d, ddp) \<Rightarrow>
                        if eol \<noteq> 0 then Some d
                        else glyph_mask_emit gdata runp ext ww eol d ddp)
                 else if eol \<noteq> 0 then glyph_mask_emit gdata runp ext 0 eol d ddp
                 else glyph_mask_skip gdata runp ext ww (skip_xx - len) eol d ddp)
              else
                (let eol = v AND 4;
                     len = int (drop_bit 3 v + 1 + push_bit 5 ext);
                     ext = 0 in
                 if len > skip_xx then
                   (let runp = runp + skip_xx;
                        len = len - skip_xx in
                    case intermediate_run gdata len ww runp d ddp of
                      None \<Rightarrow> None
                    | Some (ww, runp, d, ddp) \<Rightarrow>
                        if eol \<noteq> 0 then Some d
                        else glyph_mask_emit gdata runp ext ww eol d ddp)
                 else
                   (let runp = runp + len in
                    if eol \<noteq> 0 then glyph_mask_emit gdata runp ext 0 eol d ddp
                    else glyph_mask_skip gdata runp ext ww (skip_xx - len) eol d ddp))))
      else glyph_mask_emit gdata runp ext ww eol d ddp)"
  by pat_completeness auto
termination
  by (relation "measure (\<lambda>(gdata, runp, ext, ww, skip_xx, eol, d, ddp). nat (int (length gdata) - runp))")
     (auto simp: read_u8_def split: if_splits)

declare glyph_mask_skip.simps [simp del]

text \<open>
  \<^verbatim>\<open>fz_paint_glyph_mask\<close>: the row loop \<^verbatim>\<open>while (h--)\<close>. Each row reads its offset from
  the table at the front of the glyph data; a negative offset is a row without coverage.
  Entered with a negative \<open>h\<close> the loop does not end: \<open>None\<close>. The glyph is passed as
  its data array, \<open>be\<close> is the byte order in which the offsets are stored.
\<close>

function fz_paint_glyph_mask ::
  "bool \<Rightarrow> int \<Rightarrow> mem \<Rightarrow> int \<Rightarrow> int \<Rightarrow> byte list \<Rightarrow> int \<Rightarrow> int \<Rightarrow> int \<Rightarrow> int \<Rightarrow> mem option" where
  "fz_paint_glyph_mask be span d dp da gdata w h skip_x skip_y =
     (if h = 0 then Some d
      else if h < 0 then None
      else
        (let h = h - 1;
             ddp = dp in
         case read_int be gdata (4 * skip_y) of
           None \<Rightarrow> None
         | Some offset \<Rightarrow>
             (let skip_y = skip_y + 1 in
              case (if offset \<ge> 0 then glyph_mask_skip gdata offset 0 w skip_x 0 d ddp
                    else Some d) of
                None \<Rightarrow> None
              | Some d \<Rightarrow> fz_paint_glyph_mask be span d (dp + span) da gdata w h skip_x skip_y)))"
  by pat_completeness auto
termination
  by (relation "measure (\<lambda>(be, span, d, dp, da, gdata, w, h, skip_x, skip_y). nat h)") auto

declare fz_paint_glyph_mask.simps [simp del]

section \<open>Pixmap-level painting\<close>

text \<open>
  The fields of \<^verbatim>\<open>fz_pixmap\<close> the painters use. The sample buffer of a pixmap is its
  own store, addressed from 0; \<open>px_colorspace\<close> is the colourspace pointer, \<open>None\<close> for
  \<^verbatim>\<open>NULL\<close>.
\<close>

datatype fz_colorspace = Colorspace nat

record fz_pixmap =
  px_x :: int
  px_y :: int
  px_w :: int
  px_h :: int
  px_n :: int
  px_alpha :: int
  px_stride :: int
  px_samples :: mem
  px_colorspace :: "fz_colorspace option"

record fz_irect =
  x0 :: int
  y0 :: int
  x1 :: int
  y1 :: int

text \<open>
  Modelled from the spec: \<^verbatim>\<open>fz_pixmap_bbox_no_ctx\<close> and \<^verbatim>\<open>fz_intersect_irect\<close> are
  defined in other files. The spec has the bounds of a buffer run from its origin
  \<open>(x, y)\<close> over \<open>width\<close> and \<open>height\<close>, and an empty intersection be a no-op, which the
  callers test as \<^verbatim>\<open>w == 0 || h == 0\<close>: the intersection of rectangles that do not meet
  is the empty rectangle with all four coordinates 0.
\<close>

definition fz_pixmap_bbox_no_ctx :: "fz_pixmap \<Rightarrow> fz_irect" where
  "fz_pixmap_bbox_no_ctx pix =
     \<lparr>x0 = px_x pix, y0 = px_y pix, x1 = px_x pix + px_w pix, y1 = px_y pix + px_h pix\<rparr>"

definition fz_intersect_irect :: "fz_irect \<Rightarrow> fz_irect \<Rightarrow> fz_irect" where
  "fz_intersect_irect a b =
     (let r = \<lparr>x0 = max (x0 a) (x0 b), y0 = max (y0 a) (y0 b),
                x1 = min (x1 a) (x1 b), y1 = min (y1 a) (y1 b)\<rparr>
      in if x1 r < x0 r \<or> y1 r < y0 r then \<lparr>x0 = 0, y0 = 0, x1 = 0, y1 = 0\<rparr> else r)"

text \<open>
  What a call of a pixmap-level painter comes to: it returns, with the destination
  samples it leaves; or an \<^verbatim>\<open>assert\<close> fails and the program aborts there, with the
  destination samples as they are at that point; or one of the loops does not end.
  An \<^verbatim>\<open>assert(c)\<close> is a test only in a build without \<^verbatim>\<open>NDEBUG\<close>: it is modelled as
  \<open>if \<not> ndebug cfg \<and> \<not> c then Assertion_failed ... else ...\<close>, and with \<^verbatim>\<open>NDEBUG\<close> the
  statements after it run whatever \<open>c\<close> is.
\<close>

datatype paint_result = Returned mem | Assertion_failed mem | Runaway

text \<open>The destination samples a call leaves when it returns.\<close>

definition returned :: "paint_result \<Rightarrow> mem option" where
  "returned r = (case r of Returned d \<Rightarrow> Some d | Assertion_failed d \<Rightarrow> None | Runaway \<Rightarrow> None)"

text \<open>
  The pointer of device pixel \<open>(x, y)\<close> in a pixmap:
  \<^verbatim>\<open>samples + (unsigned int)((y - pix->y) * pix->stride + (x - pix->x) * pix->n)\<close>.
\<close>

definition sample_offset :: "fz_pixmap \<Rightarrow> int \<Rightarrow> int \<Rightarrow> int" where
  "sample_offset pix x y =
     ((y - px_y pix) * px_stride pix + (x - px_x pix) * px_n pix) mod 2 ^ 32"

text \<open>The row loop \<^verbatim>\<open>while (h--)\<close> of \<^verbatim>\<open>fz_paint_pixmap\<close> and \<^verbatim>\<open>fz_paint_pixmap_with_bbox\<close>.\<close>

function paint_pixmap_rows ::
  "span_painter \<Rightarrow> fz_pixmap \<Rightarrow> fz_pixmap \<Rightarrow> mem \<Rightarrow> int \<Rightarrow> int \<Rightarrow> int \<Rightarrow> int \<Rightarrow>
   int \<Rightarrow> int \<Rightarrow> int \<Rightarrow> int \<Rightarrow> paint_result" where
  "paint_pixmap_rows fn dst src d dp da sp sa n w alpha h =
     (if h = 0 then Returned d
      else if h < 0 then Runaway
      else
        (case fn d dp da (px_samples src) sp sa n w alpha of
           None \<Rightarrow> Runaway
         | Some d \<Rightarrow>
             paint_pixmap_rows fn dst src d (dp + px_stride dst) da (sp + px_stride src) sa
               n w alpha (h - 1)))"
  by pat_completeness auto
termination
  by (relation "measure (\<lambda>(fn, dst, src, d, dp, da, sp, sa, n, w, alpha, h). nat h)") auto

declare paint_pixmap_rows.simps [simp del]

definition paint_pixmap_in :: "config \<Rightarrow> fz_pixmap \<Rightarrow> fz_pixmap \<Rightarrow> int \<Rightarrow> fz_irect \<Rightarrow> paint_result" where
  "paint_pixmap_in cfg dst src alpha bbox =
     (let x = x0 bbox;
          y = y0 bbox;
          w = x1 bbox - x0 bbox;
          h = y1 bbox - y0 bbox
      in if w = 0 \<or> h = 0 then Returned (px_samples dst)
         else
           (let n = px_n src;
                sp = sample_offset src x y;
                sa = px_alpha src;
                dp = sample_offset dst x y;
                da = px_alpha dst;
                n = n - sa;
                fn = fz_get_span_painter cfg da sa n alpha
            in if \<not> ndebug cfg \<and> \<not> (fn \<noteq> None) then Assertion_failed (px_samples dst)
               else
                 (case fn of
                    None \<Rightarrow> Returned (px_samples dst)
                  | Some fn \<Rightarrow>
                      paint_pixmap_rows fn dst src (px_samples dst) dp da sp sa n w alpha h)))"

text \<open>
  \<^verbatim>\<open>fz_paint_pixmap_with_bbox\<close> and \<^verbatim>\<open>fz_paint_pixmap\<close>: the shape assert, the
  intersection of the bounds, then the common rest (\<open>paint_pixmap_in\<close>), which the two
  functions repeat literally: pointers, selection of the painter with
  \<^verbatim>\<open>assert(fn); if (fn == NULL) return;\<close>, row loop.
\<close>

definition fz_paint_pixmap_with_bbox ::
  "config \<Rightarrow> fz_pixmap \<Rightarrow> fz_pixmap \<Rightarrow> int \<Rightarrow> fz_irect \<Rightarrow> paint_result" where
  "fz_paint_pixmap_with_bbox cfg dst src alpha bbox =
     (if \<not> ndebug cfg \<and> \<not> (px_n dst - px_alpha dst = px_n src - px_alpha src)
      then Assertion_failed (px_samples dst)
      else
        (let bbox2 = fz_pixmap_bbox_no_ctx dst;
             bbox = fz_intersect_irect bbox bbox2;
             bbox2 = fz_pixmap_bbox_no_ctx src;
             bbox = fz_intersect_irect bbox bbox2
         in paint_pixmap_in cfg dst src alpha bbox))"

definition fz_paint_pixmap :: "config \<Rightarrow> fz_pixmap \<Rightarrow> fz_pixmap \<Rightarrow> int \<Rightarrow> paint_result" where
  "fz_paint_pixmap cfg dst src alpha =
     (if \<not> ndebug cfg \<and> \<not> (px_n dst - px_alpha dst = px_n src - px_alpha src)
      then Assertion_failed (px_samples dst)
      else
        (let bbox = fz_pixmap_bbox_no_ctx dst;
             bbox2 = fz_pixmap_bbox_no_ctx src;
             bbox = fz_intersect_irect bbox bbox2
         in paint_pixmap_in cfg dst src alpha bbox))"

text \<open>
  \<^verbatim>\<open>fz_paint_pixmap_with_mask\<close>. Here a missing painter is not asserted: the function
  returns.
\<close>

function paint_pixmap_with_mask_rows ::
  "span_mask_painter \<Rightarrow> fz_pixmap \<Rightarrow> fz_pixmap \<Rightarrow> fz_pixmap \<Rightarrow> mem \<Rightarrow> int \<Rightarrow> int \<Rightarrow>
   int \<Rightarrow> int \<Rightarrow> int \<Rightarrow> int \<Rightarrow> int \<Rightarrow> int \<Rightarrow> paint_result" where
  "paint_pixmap_with_mask_rows fn dst src msk d dp da sp sa mp n w h =
     (if h = 0 then Returned d
      else if h < 0 then Runaway
      else
        (case fn d dp da (px_samples src) sp sa (px_samples msk) mp n w of
           None \<Rightarrow> Runaway
         | Some d \<Rightarrow>
             paint_pixmap_with_mask_rows fn dst src msk d (dp + px_stride dst) da
               (sp + px_stride src) sa (mp + px_stride msk) n w (h - 1)))"
  by pat_completeness auto
termination
  by (relation "measure (\<lambda>(fn, dst, src, msk, d, dp, da, sp, sa, mp, n, w, h). nat h)") auto

declare paint_pixmap_with_mask_rows.simps [simp del]

definition fz_paint_pixmap_with_mask ::
  "config \<Rightarrow> fz_pixmap \<Rightarrow> fz_pixmap \<Rightarrow> fz_pixmap \<Rightarrow> paint_result" where
  "fz_paint_pixmap_with_mask cfg dst src msk =
     (if \<not> ndebug cfg \<and> \<not> (px_n dst = px_n src) then Assertion_failed (px_samples dst)
      else if \<not> ndebug cfg \<and> \<not> (px_n msk = 1) then Assertion_failed (px_samples dst)
      else
        (let bbox = fz_pixmap_bbox_no_ctx dst;
             bbox2 = fz_pixmap_bbox_no_ctx src;
             bbox = fz_intersect_irect bbox bbox2;
             bbox2 = fz_pixmap_bbox_no_ctx msk;
             bbox = fz_intersect_irect bbox bbox2;
             x = x0 bbox;
             y = y0 bbox;
             w = x1 bbox - x0 bbox;
             h = y1 bbox - y0 bbox
         in if w = 0 \<or> h = 0 then Returned (px_samples dst)
            else
              (let n = px_n src;
                   sp = sample_offset src x y;
                   sa = px_alpha src;
                   mp = sample_offset msk x y;
                   dp = sample_offset dst x y;
                   da = px_alpha dst;
                   n = n - sa
               in case fz_get_span_mask_painter cfg da sa n of
                    None \<Rightarrow> Returned (px_samples dst)
                  | Some fn \<Rightarrow>
                      paint_pixmap_with_mask_rows fn dst src msk (px_samples dst)
                        dp da sp sa mp n w h)))"

section \<open>Glyph painting\<close>

text \<open>
  The colour modes of glyph painting are generated from \<^verbatim>\<open>paint-glyph.h\<close>, which is not
  among the sources at hand: sixteen functions \<^verbatim>\<open>fz_paint_glyph_solid_1\<close>, ...,
  \<^verbatim>\<open>fz_paint_glyph_alpha_N_da\<close>. They are a parameter of the model, one field each,
  taking \<open>(colorbv, span, dp, glyph, w, h, skip_x, skip_y)\<close> on the destination store,
  the \<open>N\<close> variants with \<open>n\<close> after \<open>colorbv\<close>.
\<close>

type_synonym glyph_painter =
  "mem \<Rightarrow> int \<Rightarrow> mem \<Rightarrow> int \<Rightarrow> byte list \<Rightarrow> int \<Rightarrow> int \<Rightarrow> int \<Rightarrow> int \<Rightarrow> mem option"

type_synonym glyph_painter_N =
  "mem \<Rightarrow> int \<Rightarrow> int \<Rightarrow> mem \<Rightarrow> int \<Rightarrow> byte list \<Rightarrow> int \<Rightarrow> int \<Rightarrow> int \<Rightarrow> int \<Rightarrow> mem option"

record glyph_painters =
  fz_paint_glyph_solid_1 :: glyph_painter
  fz_paint_glyph_solid_1_da :: glyph_painter
  fz_paint_glyph_solid_3 :: glyph_painter
  fz_paint_glyph_solid_3_da :: glyph_painter
  fz_paint_glyph_solid_4 :: glyph_painter
  fz_paint_glyph_solid_4_da :: glyph_painter
  fz_paint_glyph_solid_N :: glyph_painter_N
  fz_paint_glyph_solid_N_da :: glyph_painter_N
  fz_paint_glyph_alpha_1 :: glyph_painter
  fz_paint_glyph_alpha_1_da :: glyph_painter
  fz_paint_glyph_alpha_3 :: glyph_painter
  fz_paint_glyph_alpha_3_da :: glyph_painter
  fz_paint_glyph_alpha_4 :: glyph_painter
  fz_paint_glyph_alpha_4_da :: glyph_painter
  fz_paint_glyph_alpha_N :: glyph_painter_N
  fz_paint_glyph_alpha_N_da :: glyph_painter_N

text \<open>
  \<^verbatim>\<open>fz_paint_glyph_alpha\<close> and \<^verbatim>\<open>fz_paint_glyph_solid\<close>: a \<^verbatim>\<open>switch\<close> on \<open>n\<close>. In a
  build without the generic plotters the \<^verbatim>\<open>default\<close> case is empty.
\<close>

definition fz_paint_glyph_alpha ::
  "config \<Rightarrow> glyph_painters \<Rightarrow> mem \<Rightarrow> int \<Rightarrow> int \<Rightarrow> mem \<Rightarrow> int \<Rightarrow> int \<Rightarrow> byte list \<Rightarrow>
   int \<Rightarrow> int \<Rightarrow> int \<Rightarrow> int \<Rightarrow> mem option" where
  "fz_paint_glyph_alpha cfg gp colorbv n span d dp da glyph w h skip_x skip_y =
     (let fallback =
        (if plotters_n cfg then
           (if da \<noteq> 0
            then fz_paint_glyph_alpha_N_da gp colorbv n span d dp glyph w h skip_x skip_y
            else fz_paint_glyph_alpha_N gp colorbv n span d dp glyph w h skip_x skip_y)
         else Some d)
      in
      if n = 1 then
        (if da \<noteq> 0 then
           (if plotters_g cfg
            then fz_paint_glyph_alpha_1_da gp colorbv span d dp glyph w h skip_x skip_y
            else fallback)
         else fz_paint_glyph_alpha_1 gp colorbv span d dp glyph w h skip_x skip_y)
      else if n = 3 \<and> plotters_rgb cfg then
        (if da \<noteq> 0
         then fz_paint_glyph_alpha_3_da gp colorbv span d dp glyph w h skip_x skip_y
         else fz_paint_glyph_alpha_3 gp colorbv span d dp glyph w h skip_x skip_y)
      else if n = 4 \<and> plotters_cmyk cfg then
        (if da \<noteq> 0
         then fz_paint_glyph_alpha_4_da gp colorbv span d dp glyph w h skip_x skip_y
         else fz_paint_glyph_alpha_4 gp colorbv span d dp glyph w h skip_x skip_y)
      else fallback)"

definition fz_paint_glyph_solid ::
  "config \<Rightarrow> glyph_painters \<Rightarrow> mem \<Rightarrow> int \<Rightarrow> int \<Rightarrow> mem \<Rightarrow> int \<Rightarrow> int \<Rightarrow> byte list \<Rightarrow>
   int \<Rightarrow> int \<Rightarrow> int \<Rightarrow> int \<Rightarrow> mem option" where
  "fz_paint_glyph_solid cfg gp colorbv n span d dp da glyph w h skip_x skip_y =
     (let fallback =
        (if plotters_n cfg then
           (if da \<noteq> 0
            then fz_paint_glyph_solid_N_da gp colorbv n span d dp glyph w h skip_x skip_y
            else fz_paint_glyph_solid_N gp colorbv n span d dp glyph w h skip_x skip_y)
         else Some d)
      in
      if n = 1 then
        (if da \<noteq> 0 then
           (if plotters_g cfg
            then fz_paint_glyph_solid_1_da gp colorbv span d dp glyph w h skip_x skip_y
            else fallback)
         else fz_paint_glyph_solid_1 gp colorbv span d dp glyph w h skip_x skip_y)
      else if n = 3 \<and> plotters_rgb cfg then
        (if da \<noteq> 0
         then fz_paint_glyph_solid_3_da gp colorbv span d dp glyph w h skip_x skip_y
         else fz_paint_glyph_solid_3 gp colorbv span d dp glyph w h skip_x skip_y)
      else if n = 4 \<and> plotters_cmyk cfg then
        (if da \<noteq> 0
         then fz_paint_glyph_solid_4_da gp colorbv span d dp glyph w h skip_x skip_y
         else fz_paint_glyph_solid_4 gp colorbv span d dp glyph w h skip_x skip_y)
      else fallback)"

text \<open>
  \<^verbatim>\<open>fz_paint_glyph\<close>. The destination pointer \<open>dp\<close> points into the samples of \<open>dst\<close>,
  which are the store the painters work on.
\<close>

definition of_painted :: "mem option \<Rightarrow> paint_result" where
  "of_painted r = (case r of None \<Rightarrow> Runaway | Some d \<Rightarrow> Returned d)"

definition fz_paint_glyph ::
  "config \<Rightarrow> glyph_painters \<Rightarrow> mem \<Rightarrow> fz_pixmap \<Rightarrow> int \<Rightarrow> byte list \<Rightarrow>
   int \<Rightarrow> int \<Rightarrow> int \<Rightarrow> int \<Rightarrow> paint_result" where
  "fz_paint_glyph cfg gp colorbv dst dp glyph w h skip_x skip_y =
     (let n = px_n dst - px_alpha dst in
      if px_colorspace dst \<noteq> None then
        (if \<not> ndebug cfg \<and> \<not> n > 0 then Assertion_failed (px_samples dst)
         else if load colorbv n = 255 then
           of_painted (fz_paint_glyph_solid cfg gp colorbv n (px_stride dst) (px_samples dst) dp
                         (px_alpha dst) glyph w h skip_x skip_y)
         else if load colorbv n \<noteq> 0 then
           of_painted (fz_paint_glyph_alpha cfg gp colorbv n (px_stride dst) (px_samples dst) dp
                         (px_alpha dst) glyph w h skip_x skip_y)
         else Returned (px_samples dst))
      else
        (if \<not> ndebug cfg \<and> \<not> (px_alpha dst \<noteq> 0 \<and> px_n dst = 1 \<and> px_colorspace dst = None)
         then Assertion_failed (px_samples dst)
         else of_painted (fz_paint_glyph_mask (isbigendian cfg) (px_stride dst) (px_samples dst) dp
                            (px_alpha dst) glyph w h skip_x skip_y)))"

section \<open>Verified properties\<close>

subsection \<open>Loops\<close>

lemma do_while_dec_one: "do_while_dec body 1 s = Some (body s)"
  by (simp add: do_while_dec.simps)

lemma do_while_dec_more: "1 < w \<Longrightarrow> do_while_dec body w s = do_while_dec body (w - 1) (body s)"
  by (subst do_while_dec.simps) (simp add: Let_def)

lemma do_while_dec_none: "w < 1 \<Longrightarrow> do_while_dec body w s = None"
  by (simp add: do_while_dec.simps)

text \<open>For \<open>w \<ge> 1\<close> the loop returns, having run its body \<open>w\<close> times.\<close>

lemma do_while_dec_funpow: "1 \<le> w \<Longrightarrow> do_while_dec body w s = Some ((body ^^ nat w) s)"
proof (induction body w s rule: do_while_dec.induct)
  case (1 body w s)
  show ?case
  proof (cases "w = 1")
    case True
    then show ?thesis by (simp add: do_while_dec_one)
  next
    case False
    with "1.prems" have w: "1 < w" by simp
    then have n: "nat w = Suc (nat (w - 1))" by simp
    from w have "do_while_dec body w s = do_while_dec body (w - 1) (body s)"
      by (rule do_while_dec_more)
    also from w "1.prems" have "\<dots> = Some ((body ^^ nat (w - 1)) (body s))"
      by (intro "1.IH") auto
    finally show ?thesis
      by (simp only: n funpow_Suc_right o_apply)
  qed
qed

lemma funpow_invariant:
  assumes "I 0 s" and "\<And>i s. i < k \<Longrightarrow> I i s \<Longrightarrow> I (Suc i) (body s)"
  shows "I k ((body ^^ k) s)"
  using assms
proof (induction k)
  case 0
  then show ?case by simp
next
  case (Suc k)
  then show ?case by simp
qed

text \<open>
  The proof rule for the pixel loops: an invariant indexed by the number of pixels done.
\<close>

lemma do_while_dec_rule:
  assumes w: "1 \<le> w" and init: "I 0 s"
    and step: "\<And>i s. 0 \<le> i \<Longrightarrow> i < w \<Longrightarrow> I i s \<Longrightarrow> I (i + 1) (body s)"
  shows "\<exists>s'. do_while_dec body w s = Some s' \<and> I w s'"
proof -
  have "(\<lambda>i. I (int i)) (nat w) ((body ^^ nat w) s)"
  proof (rule funpow_invariant)
    show "I (int 0) s" using init by simp
  next
    fix i s
    assume "i < nat w" and "I (int i) s"
    then have "I (int i + 1) (body s)"
      by (intro step) auto
    then show "I (int (Suc i)) (body s)"
      by (simp add: add.commute)
  qed
  with w show ?thesis
    by (simp add: do_while_dec_funpow)
qed

lemma for_k_done: "\<not> k < hi \<Longrightarrow> for_k k hi body s = (k, s)"
  by (simp add: for_k.simps)

lemma for_k_step: "k < hi \<Longrightarrow> for_k k hi body s = for_k (k + 1) hi body (body k s)"
  by (subst for_k.simps) simp

subsection \<open>Worked examples\<close>

text \<open>
  C3. The painter selected for a 1-channel destination without alpha is
  \<open>paint_span_with_color_1\<close>, in every build configuration. Applied to the destination row
  \<open>[50, 50, 50, 50]\<close> with colour byte 100, colour alpha 255 and mask row
  \<open>[0, 128, 255, 0]\<close> it returns the row \<open>[50, 75, 100, 50]\<close>: pixels 0 and 3 are skipped,
  pixel 2 is overwritten, and pixel 1 is \<open>blend(100, 50, expand(128))\<close> with
  \<open>expand(128) = 129\<close> and \<open>50 + ((100 - 50) * 129 >> 8) = 75\<close>.
\<close>

theorem C3_span_with_color_worked_example:
  "fz_get_span_color_painter cfg 1 0 (mem_of [100, 255]) = Some paint_span_with_color_1
   \<and> map_option (\<lambda>d. bytes d 0 4)
        (paint_span_with_color_1 (mem_of [50, 50, 50, 50]) 0 (mem_of [0, 128, 255, 0]) 0
           1 4 (mem_of [100, 255]) 0)
      = Some [50, 75, 100, 50]
   \<and> FZ_EXPAND 128 = 129
   \<and> FZ_BLEND 100 50 129 = 75"
proof -
  have "fz_get_span_color_painter cfg 1 0 (mem_of [100, 255]) = Some paint_span_with_color_1"
    by (simp add: fz_get_span_color_painter_def)
  moreover have "map_option (\<lambda>d. bytes d 0 4)
        (paint_span_with_color_1 (mem_of [50, 50, 50, 50]) 0 (mem_of [0, 128, 255, 0]) 0
           1 4 (mem_of [100, 255]) 0)
      = Some [50, 75, 100, 50]"
    by code_simp
  moreover have "FZ_EXPAND 128 = 129" and "FZ_BLEND 100 50 129 = 75"
    by (simp_all add: FZ_EXPAND_def FZ_BLEND_def FZ_COMBINE_def)
  ultimately show ?thesis by simp
qed

text \<open>
  C4. One glyph row of width 6, \<open>skip_x = 0\<close>, decoded in mask mode from the run stream
  Transparent(len 2) = byte 5, Solid(len 3, end of line) = byte 22, into an all-zero
  accumulator row, gives \<open>[0, 0, 255, 255, 255, 0]\<close>: first for the row decoder alone,
  then for \<open>fz_paint_glyph_mask\<close> on a one-row glyph whose offset table (one entry, 4)
  precedes the runs, in either byte order.
\<close>

theorem C4_glyph_mask_run_decode_example:
  "map_option (\<lambda>d. bytes d 0 6)
      (glyph_mask_skip [5, 22] 0 0 6 0 0 (mem_of [0, 0, 0, 0, 0, 0]) 0)
     = Some [0, 0, 255, 255, 255, 0]
   \<and> map_option (\<lambda>d. bytes d 0 6)
      (fz_paint_glyph_mask False 6 (mem_of [0, 0, 0, 0, 0, 0]) 0 1 [4, 0, 0, 0, 5, 22] 6 1 0 0)
     = Some [0, 0, 255, 255, 255, 0]
   \<and> map_option (\<lambda>d. bytes d 0 6)
      (fz_paint_glyph_mask True 6 (mem_of [0, 0, 0, 0, 0, 0]) 0 1 [0, 0, 0, 4, 5, 22] 6 1 0 0)
     = Some [0, 0, 255, 255, 255, 0]"
  by code_simp

subsection \<open>Glyph runs in mask mode\<close>

lemma read_u8_Some: "0 \<le> i \<Longrightarrow> i < int (length bs) \<Longrightarrow> read_u8 bs i = Some (unat (bs ! nat i))"
  by (simp add: read_u8_def)

lemma intermediate_loop_step:
  assumes "0 \<le> runp" "runp < int (length gdata)" "1 \<le> len"
  shows "intermediate_loop gdata len runp d ddp =
     (let d1 = d(ddp := mask_px (d ddp) (gdata ! nat runp)) in
      if len = 1 then Some (runp + 1, d1, ddp + 1)
      else intermediate_loop gdata (len - 1) (runp + 1) d1 (ddp + 1))"
  using assms
  by (subst intermediate_loop.simps)
     (simp add: read_u8_Some Let_def mask_px_def load_def store_def uint_0_iff)

lemma intermediate_loop_spec:
  assumes "1 \<le> len" "0 \<le> runp" "runp + len \<le> int (length gdata)"
  shows "\<exists>d'. intermediate_loop gdata len runp d ddp = Some (runp + len, d', ddp + len) \<and>
        (\<forall>i. 0 \<le> i \<and> i < len \<longrightarrow> d' (ddp + i) = mask_px (d (ddp + i)) (gdata ! nat (runp + i))) \<and>
        (\<forall>a. a < ddp \<or> ddp + len \<le> a \<longrightarrow> d' a = d a)"
  using assms
proof (induction "nat len" arbitrary: len runp d ddp)
  case 0
  then show ?case by simp
next
  case (Suc k)
  let ?d1 = "d(ddp := mask_px (d ddp) (gdata ! nat runp))"
  from Suc.prems have b: "0 \<le> runp" "runp < int (length gdata)" "1 \<le> len" by auto
  show ?case
  proof (cases "len = 1")
    case True
    have z: "i = 0" if "0 \<le> i" "i < 1" for i :: int using that by auto
    from True b show ?thesis
      by (auto simp: intermediate_loop_step Let_def dest!: z)
  next
    case False
    with Suc.hyps Suc.prems have k: "k = nat (len - 1)" and p: "1 \<le> len - 1" "0 \<le> runp + 1"
      "runp + 1 + (len - 1) \<le> int (length gdata)" by auto
    from Suc.hyps(1) [OF k p, of ?d1 "ddp + 1"]
    obtain d' where r: "intermediate_loop gdata (len - 1) (runp + 1) ?d1 (ddp + 1)
          = Some (runp + 1 + (len - 1), d', ddp + 1 + (len - 1))"
      and px: "\<And>i. 0 \<le> i \<Longrightarrow> i < len - 1 \<Longrightarrow>
          d' (ddp + 1 + i) = mask_px (?d1 (ddp + 1 + i)) (gdata ! nat (runp + 1 + i))"
      and fr: "\<And>a. a < ddp + 1 \<or> ddp + 1 + (len - 1) \<le> a \<Longrightarrow> d' a = ?d1 a"
      by blast
    have "intermediate_loop gdata len runp d ddp = Some (runp + len, d', ddp + len)"
      using b False r by (simp add: intermediate_loop_step Let_def)
    moreover have "d' (ddp + i) = mask_px (d (ddp + i)) (gdata ! nat (runp + i))"
      if i: "0 \<le> i" "i < len" for i
    proof (cases "i = 0")
      case True
      then show ?thesis using fr [of ddp] by simp
    next
      case False
      with i have "0 \<le> i - 1" "i - 1 < len - 1" by auto
      from px [OF this] False show ?thesis by (simp add: algebra_simps)
    qed
    moreover have "d' a = d a" if "a < ddp \<or> ddp + len \<le> a" for a
      using fr [of a] that b by auto
    ultimately show ?thesis by blast
  qed
qed

text \<open>The result of the Intermediate loop, written out.\<close>

lemma intermediate_loop_eq:
  assumes "1 \<le> len" "0 \<le> runp" "runp + len \<le> int (length gdata)"
  shows "intermediate_loop gdata len runp d ddp =
     Some (runp + len,
           (\<lambda>a. if ddp \<le> a \<and> a < ddp + len
                then mask_px (d a) (gdata ! nat (runp + (a - ddp))) else d a),
           ddp + len)"
proof -
  from intermediate_loop_spec [OF assms, of d ddp]
  obtain d' where r: "intermediate_loop gdata len runp d ddp = Some (runp + len, d', ddp + len)"
    and px: "\<And>i. 0 \<le> i \<Longrightarrow> i < len \<Longrightarrow>
       d' (ddp + i) = mask_px (d (ddp + i)) (gdata ! nat (runp + i))"
    and fr: "\<And>a. a < ddp \<or> ddp + len \<le> a \<Longrightarrow> d' a = d a"
    by blast
  have "d' a = (if ddp \<le> a \<and> a < ddp + len
                then mask_px (d a) (gdata ! nat (runp + (a - ddp))) else d a)" for a
  proof (cases "ddp \<le> a \<and> a < ddp + len")
    case True
    then have "0 \<le> a - ddp" "a - ddp < len" by auto
    from px [OF this] True show ?thesis by simp
  next
    case False
    then show ?thesis using fr [of a] by auto
  qed
  then have "d' = (\<lambda>a. if ddp \<le> a \<and> a < ddp + len
                then mask_px (d a) (gdata ! nat (runp + (a - ddp))) else d a)"
    by (rule ext)
  with r show ?thesis by simp
qed

lemma solid_fill_funpow:
  "((\<lambda>(d, ddp). (store d ddp 0xFF, ddp + 1)) ^^ k) (d, ddp) =
     ((\<lambda>a. if ddp \<le> a \<and> a < ddp + int k then 0xFF else d a), ddp + int k)"
proof (induction k)
  case 0
  then show ?case by (auto simp: fun_eq_iff)
next
  case (Suc k)
  then show ?case by (auto simp: store_def fun_eq_iff)
qed

lemma solid_run_eq:
  assumes "1 \<le> len" "1 \<le> ww"
  shows "solid_run len ww d ddp =
     Some (ww - min len ww,
           (\<lambda>a. if ddp \<le> a \<and> a < ddp + min len ww then 0xFF else d a),
           ddp + min len ww)"
proof -
  have m: "(if len > ww then ww else len) = min len ww" by simp
  from assms have "1 \<le> min len ww" by simp
  then show ?thesis
    unfolding solid_run_def Let_def m
    by (simp add: do_while_dec_funpow solid_fill_funpow)
qed

lemma intermediate_run_eq:
  assumes "1 \<le> len" "1 \<le> ww" "0 \<le> runp" "runp + min len ww \<le> int (length gdata)"
  shows "intermediate_run gdata len ww runp d ddp =
     Some (ww - min len ww, runp + min len ww,
           (\<lambda>a. if ddp \<le> a \<and> a < ddp + min len ww
                then mask_px (d a) (gdata ! nat (runp + (a - ddp))) else d a),
           ddp + min len ww)"
proof -
  have m: "(if len > ww then ww else len) = min len ww" by simp
  from assms have "1 \<le> min len ww" by simp
  from intermediate_loop_eq [OF this assms(3,4)] show ?thesis
    unfolding intermediate_run_def Let_def m by simp
qed


lemma glyph_mask_emit_done: "\<not> 0 < ww \<Longrightarrow> glyph_mask_emit gdata runp ext ww eol d ddp = Some d"
  by (simp add: glyph_mask_emit.simps)

lemma emit_eol_run:
  fixes v ext :: nat
  assumes hdr: "read_u8 gdata runp = Some v" and kind: "v AND 3 = 2 \<or> v AND 3 = 3"
    and eol: "v AND 4 \<noteq> 0"
    and len: "len = int (drop_bit 3 v + 1 + push_bit 5 ext)"
    and ww: "0 < ww"
    and inb: "v AND 3 = 3 \<longrightarrow> runp + 1 + min len ww \<le> int (length gdata)"
  shows "glyph_mask_emit gdata runp ext ww e d ddp =
     Some (\<lambda>a. if ddp \<le> a \<and> a < ddp + min len ww
               then (if v AND 3 = 2 then 0xFF
                     else mask_px (d a) (gdata ! nat (runp + 1 + (a - ddp))))
               else d a)"
proof -
  from hdr have r0: "0 \<le> runp" by (simp add: read_u8_def split: if_splits)
  have l1: "1 \<le> len" using len by simp
  from ww have w1: "1 \<le> ww" by simp
  from kind show ?thesis
  proof
    assume k: "v AND 3 = 2"
    show ?thesis
      using k eol ww hdr
      by (subst glyph_mask_emit.simps)
         (simp add: Let_def solid_run_eq len cong: if_cong)
  next
    assume k: "v AND 3 = 3"
    with inb have b: "runp + 1 + min len ww \<le> int (length gdata)" by simp
    from r0 have r1: "0 \<le> runp + 1" by simp
    show ?thesis
      using k eol ww hdr b r1
      by (subst glyph_mask_emit.simps)
         (simp add: Let_def intermediate_run_eq len cong: if_cong)
  qed
qed

lemma skip_into_eol_run:
  fixes v ext :: nat
  assumes hdr: "read_u8 gdata runp = Some v" and kind: "v AND 3 = 2 \<or> v AND 3 = 3"
    and eol: "v AND 4 \<noteq> 0"
    and len: "len = int (drop_bit 3 v + 1 + push_bit 5 ext)"
    and ww: "0 < ww"
    and sk: "0 < skip_xx" "skip_xx < len"
    and inb: "v AND 3 = 3 \<longrightarrow> runp + 1 + skip_xx + min (len - skip_xx) ww \<le> int (length gdata)"
  shows "glyph_mask_skip gdata runp ext ww skip_xx e d ddp =
     Some (\<lambda>a. if ddp \<le> a \<and> a < ddp + min (len - skip_xx) ww
               then (if v AND 3 = 2 then 0xFF
                     else mask_px (d a) (gdata ! nat (runp + 1 + skip_xx + (a - ddp))))
               else d a)"
proof -
  from hdr have r0: "0 \<le> runp" by (simp add: read_u8_def split: if_splits)
  have l1: "1 \<le> len - skip_xx" using sk by simp
  from ww have w1: "1 \<le> ww" by simp
  from kind show ?thesis
  proof
    assume k: "v AND 3 = 2"
    show ?thesis
      using k eol sk hdr ww
      by (subst glyph_mask_skip.simps)
         (simp add: Let_def solid_run_eq len cong: if_cong)
  next
    assume k: "v AND 3 = 3"
    with inb have b: "runp + 1 + skip_xx + min (len - skip_xx) ww \<le> int (length gdata)" by simp
    from r0 sk have r1: "0 \<le> runp + 1 + skip_xx" by simp
    show ?thesis
      using k eol sk hdr b r1 ww
      by (subst glyph_mask_skip.simps)
         (simp add: Let_def intermediate_run_eq len cong: if_cong)
  qed
qed

lemma skip_over_eol_run:
  fixes v ext :: nat
  assumes hdr: "read_u8 gdata runp = Some v" and kind: "v AND 3 = 2 \<or> v AND 3 = 3"
    and eol: "v AND 4 \<noteq> 0"
    and len: "len = int (drop_bit 3 v + 1 + push_bit 5 ext)"
    and sk: "skip_xx \<noteq> 0" "len \<le> skip_xx"
  shows "glyph_mask_skip gdata runp ext ww skip_xx e d ddp = Some d"
  using kind
proof
  assume k: "v AND 3 = 2"
  show ?thesis
    using k eol sk hdr
    by (subst glyph_mask_skip.simps)
       (simp add: Let_def len glyph_mask_emit_done)
next
  assume k: "v AND 3 = 3"
  show ?thesis
    using k eol sk hdr
    by (subst glyph_mask_skip.simps)
       (simp add: Let_def len glyph_mask_emit_done)
qed


lemma read_u8_prefix:
  assumes "read_u8 gdata i = Some v" and "i < int k" and "k \<le> length gdata"
  shows "read_u8 (take k gdata @ rest) i = Some v"
  using assms by (auto simp: read_u8_def nth_append split: if_splits)

lemma emit_eol_run_prefix:
  fixes v ext :: nat
  assumes hdr: "read_u8 gdata runp = Some v" and kind: "v AND 3 = 2 \<or> v AND 3 = 3"
    and eol: "v AND 4 \<noteq> 0"
    and len: "len = int (drop_bit 3 v + 1 + push_bit 5 ext)"
    and ww: "0 < ww"
    and inb: "v AND 3 = 3 \<longrightarrow> runp + 1 + min len ww \<le> int (length gdata)"
    and k: "k = nat (runp + 1 + (if v AND 3 = 3 then min len ww else 0))"
  shows "glyph_mask_emit (take k gdata @ rest) runp ext ww e d ddp =
         glyph_mask_emit gdata runp ext ww e d ddp"
proof -
  let ?g = "take k gdata @ rest"
  from hdr have r0: "0 \<le> runp" "runp < int (length gdata)"
    by (simp_all add: read_u8_def split: if_splits)
  have l1: "1 \<le> len" using len by simp
  with ww have m0: "0 \<le> min len ww" by simp
  from r0 inb k m0 have kl: "k \<le> length gdata" by (auto split: if_splits)
  from r0 k m0 have rk: "runp < int k" by (auto split: if_splits)
  have hdr': "read_u8 ?g runp = Some v"
    using hdr rk kl by (rule read_u8_prefix)
  have inb': "v AND 3 = 3 \<longrightarrow> runp + 1 + min len ww \<le> int (length ?g)"
    using k kl r0 m0 by auto
  have same: "?g ! nat (runp + 1 + (a - ddp)) = gdata ! nat (runp + 1 + (a - ddp))"
    if "v AND 3 = 3" "ddp \<le> a" "a < ddp + min len ww" for a
  proof -
    from that k r0 have "nat (runp + 1 + (a - ddp)) < k" by auto
    with kl show ?thesis by (simp add: nth_append)
  qed
  have "(\<lambda>a. if ddp \<le> a \<and> a < ddp + min len ww
               then (if v AND 3 = 2 then 0xFF
                     else mask_px (d a) (?g ! nat (runp + 1 + (a - ddp))))
               else d a)
      = (\<lambda>a. if ddp \<le> a \<and> a < ddp + min len ww
               then (if v AND 3 = 2 then 0xFF
                     else mask_px (d a) (gdata ! nat (runp + 1 + (a - ddp))))
               else d a)"
    using kind same by (auto simp: fun_eq_iff)
  then show ?thesis
    by (simp only: emit_eol_run [OF hdr' kind eol len ww inb']
          emit_eol_run [OF hdr kind eol len ww inb])
qed

text \<open>
  C6. Let the decoder meet the header \<open>v\<close> of a Solid or Intermediate run whose
  end-of-line flag is set, of declared length \<open>len\<close>, with \<open>ww > 0\<close> columns left.
  (a) In the emit loop the row's result is that run's own writes over \<open>min len ww\<close>
  columns and nothing else: every byte from column \<open>ddp + min len ww\<close> on keeps its
  value, whatever \<open>ww\<close> is left, and the result is the same for every continuation
  \<open>rest\<close> of the stream after the run. The same holds when the skip loop reaches the
  run with \<open>skip_xx < len\<close> and emits its remaining part. (For an Intermediate run the
  coverage bytes are assumed to lie inside the glyph data.)
  (b) When the skip loop uses the run up (\<open>len \<le> skip_all\<close>), the row returns the
  destination as it was.
\<close>

theorem C6_end_of_line_stops_row:
  fixes v ext :: nat
  assumes "read_u8 gdata runp = Some v" and "v AND 3 = 2 \<or> v AND 3 = 3"
    and "v AND 4 \<noteq> 0"
    and "len = int (drop_bit 3 v + 1 + push_bit 5 ext)"
    and "0 < ww"
  shows
    "((v AND 3 = 3 \<longrightarrow> runp + 1 + min len ww \<le> int (length gdata)) \<longrightarrow>
        (\<exists>r. glyph_mask_emit gdata runp ext ww eol d ddp = Some r
           \<and> r = (\<lambda>a. if ddp \<le> a \<and> a < ddp + min len ww
                        then (if v AND 3 = 2 then 0xFF
                              else mask_px (d a) (gdata ! nat (runp + 1 + (a - ddp))))
                        else d a)
           \<and> (\<forall>a. a < ddp \<or> ddp + min len ww \<le> a \<longrightarrow> r a = d a)
           \<and> (\<forall>rest. glyph_mask_emit
                  (take (nat (runp + 1 + (if v AND 3 = 3 then min len ww else 0))) gdata @ rest)
                  runp ext ww eol d ddp = Some r)))
     \<and> (0 < skip_xx \<and> skip_xx < len
          \<and> (v AND 3 = 3 \<longrightarrow>
                runp + 1 + skip_xx + min (len - skip_xx) ww \<le> int (length gdata)) \<longrightarrow>
        (\<exists>r. glyph_mask_skip gdata runp ext ww skip_xx eol d ddp = Some r
           \<and> r = (\<lambda>a. if ddp \<le> a \<and> a < ddp + min (len - skip_xx) ww
                        then (if v AND 3 = 2 then 0xFF
                              else mask_px (d a) (gdata ! nat (runp + 1 + skip_xx + (a - ddp))))
                        else d a)
           \<and> (\<forall>a. a < ddp \<or> ddp + min (len - skip_xx) ww \<le> a \<longrightarrow> r a = d a)))
     \<and> (skip_all \<noteq> 0 \<and> len \<le> skip_all \<longrightarrow>
          glyph_mask_skip gdata runp ext ww skip_all eol d ddp = Some d)"
proof (intro conjI impI)
  assume inb: "v AND 3 = 3 \<longrightarrow> runp + 1 + min len ww \<le> int (length gdata)"
  show "\<exists>r. glyph_mask_emit gdata runp ext ww eol d ddp = Some r
           \<and> r = (\<lambda>a. if ddp \<le> a \<and> a < ddp + min len ww
                        then (if v AND 3 = 2 then 0xFF
                              else mask_px (d a) (gdata ! nat (runp + 1 + (a - ddp))))
                        else d a)
           \<and> (\<forall>a. a < ddp \<or> ddp + min len ww \<le> a \<longrightarrow> r a = d a)
           \<and> (\<forall>rest. glyph_mask_emit
                  (take (nat (runp + 1 + (if v AND 3 = 3 then min len ww else 0))) gdata @ rest)
                  runp ext ww eol d ddp = Some r)"
    using emit_eol_run [OF assms inb, of eol d ddp]
      emit_eol_run_prefix [OF assms inb refl, of _ eol d ddp]
    by auto
next
  assume a: "0 < skip_xx \<and> skip_xx < len
          \<and> (v AND 3 = 3 \<longrightarrow>
                runp + 1 + skip_xx + min (len - skip_xx) ww \<le> int (length gdata))"
  then have sk: "0 < skip_xx" "skip_xx < len"
    and inb: "v AND 3 = 3 \<longrightarrow>
                runp + 1 + skip_xx + min (len - skip_xx) ww \<le> int (length gdata)"
    by simp_all
  show "\<exists>r. glyph_mask_skip gdata runp ext ww skip_xx eol d ddp = Some r
           \<and> r = (\<lambda>a. if ddp \<le> a \<and> a < ddp + min (len - skip_xx) ww
                        then (if v AND 3 = 2 then 0xFF
                              else mask_px (d a) (gdata ! nat (runp + 1 + skip_xx + (a - ddp))))
                        else d a)
           \<and> (\<forall>a. a < ddp \<or> ddp + min (len - skip_xx) ww \<le> a \<longrightarrow> r a = d a)"
    using skip_into_eol_run [OF assms sk inb, of eol d ddp] by auto
next
  assume "skip_all \<noteq> 0 \<and> len \<le> skip_all"
  then have sk: "skip_all \<noteq> 0" "len \<le> skip_all" by simp_all
  show "glyph_mask_skip gdata runp ext ww skip_all eol d ddp = Some d"
    by (rule skip_over_eol_run [OF assms(1-4) sk])
qed


theorem C6_witness:
  "read_u8 [22, 9, 9] 0 = Some 22
   \<and> ((22::nat) AND 3 = 2 \<or> (22::nat) AND 3 = 3) \<and> (22::nat) AND 4 \<noteq> 0
   \<and> (3::int) = int (drop_bit 3 22 + 1 + push_bit 5 0) \<and> (0::int) < 6
   \<and> map_option (\<lambda>r. bytes r 0 6)
         (glyph_mask_emit [22, 9, 9] 0 0 6 0 (mem_of [1, 2, 3, 4, 5, 6]) 0)
       = Some [255, 255, 255, 4, 5, 6]
   \<and> map_option (\<lambda>r. bytes r 0 6)
         (glyph_mask_skip [22, 9, 9] 0 0 6 1 0 (mem_of [1, 2, 3, 4, 5, 6]) 0)
       = Some [255, 255, 3, 4, 5, 6]
   \<and> glyph_mask_skip [22, 9, 9] 0 0 6 3 0 (mem_of [1, 2, 3, 4, 5, 6]) 0
       = Some (mem_of [1, 2, 3, 4, 5, 6])
   \<and> read_u8 [23, 10, 20, 30, 9] 0 = Some 23
   \<and> ((23::nat) AND 3 = 2 \<or> (23::nat) AND 3 = 3) \<and> (23::nat) AND 4 \<noteq> 0
   \<and> (3::int) = int (drop_bit 3 23 + 1 + push_bit 5 0)
   \<and> map_option (\<lambda>r. bytes r 0 6)
         (glyph_mask_emit [23, 10, 20, 30, 9] 0 0 6 0 (mem_of [0, 7, 0, 4, 5, 6]) 0)
       = Some [10, 26, 30, 4, 5, 6]
   \<and> map_option (\<lambda>r. bytes r 0 6)
         (glyph_mask_skip [23, 10, 20, 30, 9] 0 0 6 1 0 (mem_of [0, 7, 0, 4, 5, 6]) 0)
       = Some [20, 36, 0, 4, 5, 6]
   \<and> glyph_mask_skip [23, 10, 20, 30, 9] 0 0 6 5 0 (mem_of [0, 7, 0, 4, 5, 6]) 0
       = Some (mem_of [0, 7, 0, 4, 5, 6])"
proof -
  have s: "read_u8 [22, 9, 9] 0 = Some 22" "(22::nat) AND 3 = 2 \<or> (22::nat) AND 3 = 3"
    "(22::nat) AND 4 \<noteq> 0" "(3::int) = int (drop_bit 3 22 + 1 + push_bit 5 0)" "(0::int) < 6"
    by (simp_all add: read_u8_def)
  have i: "read_u8 [23, 10, 20, 30, 9] 0 = Some 23" "(23::nat) AND 3 = 2 \<or> (23::nat) AND 3 = 3"
    "(23::nat) AND 4 \<noteq> 0" "(3::int) = int (drop_bit 3 23 + 1 + push_bit 5 0)" "(0::int) < 6"
    by (simp_all add: read_u8_def)
  note S = C6_end_of_line_stops_row [OF s, of 0 "mem_of [1, 2, 3, 4, 5, 6]" 0 1 3]
  note I = C6_end_of_line_stops_row [OF i, of 0 "mem_of [0, 7, 0, 4, 5, 6]" 0 1 5]
  have ev: "bytes (\<lambda>a. if 0 \<le> a \<and> a < k then f a else g a) 0 6
      = map (\<lambda>j. if int j < k then f (int j) else g (int j)) [0, 1, 2, 3, 4, 5]" for k f g
    by (simp add: bytes_def upt_rec)
  have s1: "map_option (\<lambda>r. bytes r 0 6)
         (glyph_mask_emit [22, 9, 9] 0 0 6 0 (mem_of [1, 2, 3, 4, 5, 6]) 0)
       = Some [255, 255, 255, 4, 5, 6]"
    using S by (auto simp: ev mem_of_def)
  have s2: "map_option (\<lambda>r. bytes r 0 6)
         (glyph_mask_skip [22, 9, 9] 0 0 6 1 0 (mem_of [1, 2, 3, 4, 5, 6]) 0)
       = Some [255, 255, 3, 4, 5, 6]"
    using S by (auto simp: ev mem_of_def)
  have s3: "glyph_mask_skip [22, 9, 9] 0 0 6 3 0 (mem_of [1, 2, 3, 4, 5, 6]) 0
       = Some (mem_of [1, 2, 3, 4, 5, 6])"
    using S by simp
  have i1: "map_option (\<lambda>r. bytes r 0 6)
         (glyph_mask_emit [23, 10, 20, 30, 9] 0 0 6 0 (mem_of [0, 7, 0, 4, 5, 6]) 0)
       = Some [10, 26, 30, 4, 5, 6]"
    using I by (auto simp: ev mem_of_def mask_px_def FZ_BLEND_def FZ_COMBINE_def FZ_EXPAND_def)
  have i2: "map_option (\<lambda>r. bytes r 0 6)
         (glyph_mask_skip [23, 10, 20, 30, 9] 0 0 6 1 0 (mem_of [0, 7, 0, 4, 5, 6]) 0)
       = Some [20, 36, 0, 4, 5, 6]"
    using I by (auto simp: ev mem_of_def mask_px_def FZ_BLEND_def FZ_COMBINE_def FZ_EXPAND_def)
  have i3: "glyph_mask_skip [23, 10, 20, 30, 9] 0 0 6 5 0 (mem_of [0, 7, 0, 4, 5, 6]) 0
       = Some (mem_of [0, 7, 0, 4, 5, 6])"
    using I by simp
  from s i s1 s2 s3 i1 i2 i3 show ?thesis by blast
qed

text \<open>The loops write at no address below \<open>ddp\<close>.\<close>

lemma intermediate_loop_frame:
  "intermediate_loop gdata len runp d ddp = Some (runp', d', ddp') \<Longrightarrow>
     ddp \<le> ddp' \<and> (\<forall>a. a < ddp \<longrightarrow> d' a = d a)"
proof (induction gdata len runp d ddp rule: intermediate_loop.induct)
  case (1 gdata len runp d ddp)
  from "1.prems" have l: "\<not> len < 1"
    by (subst (asm) intermediate_loop.simps) (simp split: if_splits)
  from "1.prems" l obtain c where hdr: "read_u8 gdata runp = Some c"
    by (subst (asm) intermediate_loop.simps) (auto simp: Let_def split: option.splits)
  define d1 where "d1 = (if load d ddp = 0 then store d ddp (int c)
          else let a = FZ_EXPAND (int c) in store d ddp (FZ_BLEND 255 (load d ddp) a))"
  have d1: "d1 a = d a" if "a < ddp" for a
    using that by (simp add: d1_def store_def Let_def)
  show ?case
  proof (cases "len - 1 = 0")
    case True
    with "1.prems" l hdr have "ddp' = ddp + 1" "d' = d1"
      by (subst (asm) intermediate_loop.simps; simp add: Let_def d1_def)+
    with d1 show ?thesis by simp
  next
    case False
    from "1.prems" l hdr False
    have r: "intermediate_loop gdata (len - 1) (runp + 1) d1 (ddp + 1) = Some (runp', d', ddp')"
      by (subst (asm) intermediate_loop.simps) (simp add: Let_def d1_def)
    from "1.IH" [OF l refl hdr refl d1_def refl False r]
    have "ddp + 1 \<le> ddp'" "\<forall>a. a < ddp + 1 \<longrightarrow> d' a = d1 a" by simp_all
    with d1 show ?thesis by auto
  qed
qed

lemma intermediate_run_frame:
  "intermediate_run gdata len ww runp d ddp = Some (ww', runp', d', ddp') \<Longrightarrow>
     ddp \<le> ddp' \<and> (\<forall>a. a < ddp \<longrightarrow> d' a = d a)"
  by (auto simp: intermediate_run_def Let_def dest!: intermediate_loop_frame split: if_splits)

lemma solid_run_frame:
  assumes "solid_run len ww d ddp = Some (ww', d', ddp')"
  shows "ddp \<le> ddp' \<and> (\<forall>a. a < ddp \<longrightarrow> d' a = d a)"
proof -
  define l where "l = (if len > ww then ww else len)"
  have l1: "1 \<le> l"
  proof (rule ccontr)
    assume "\<not> 1 \<le> l"
    then have "l < 1" by simp
    with assms show False
      by (simp add: solid_run_def Let_def l_def [symmetric] do_while_dec_none)
  qed
  from assms l1 show ?thesis
    by (auto simp: solid_run_def Let_def l_def [symmetric] do_while_dec_funpow solid_fill_funpow)
qed

lemma glyph_mask_emit_frame:
  "glyph_mask_emit gdata runp ext ww eol d ddp = Some d' \<Longrightarrow> a < ddp \<Longrightarrow> d' a = d a"
proof (induction gdata runp ext ww eol d ddp rule: glyph_mask_emit.induct)
  case (1 gdata runp ext ww eol d ddp)
  show ?case
  proof (cases "0 < ww")
    case False
    with "1.prems" show ?thesis by (simp add: glyph_mask_emit_done)
  next
    case True
    from "1.prems"(1) True obtain v where hdr: "read_u8 gdata runp = Some v"
      by (subst (asm) glyph_mask_emit.simps) (auto split: option.splits)
    consider (ext) "v AND 3 = 0" | (tr) "v AND 3 \<noteq> 0" "v AND 3 = 1"
      | (so) "v AND 3 \<noteq> 0" "v AND 3 \<noteq> 1" "v AND 3 = 2"
      | (im) "v AND 3 \<noteq> 0" "v AND 3 \<noteq> 1" "v AND 3 \<noteq> 2"
      by blast
    then show ?thesis
    proof cases
      case ext
      show ?thesis
      proof (cases "eol \<noteq> 0")
        case True
        with "1.prems"(1) \<open>0 < ww\<close> hdr ext show ?thesis
          by (subst (asm) glyph_mask_emit.simps) (simp add: Let_def)
      next
        case False
        with "1.prems"(1) \<open>0 < ww\<close> hdr ext
        have r: "glyph_mask_emit gdata (runp + 1) (drop_bit 2 v) ww eol d ddp = Some d'"
          by (subst (asm) glyph_mask_emit.simps) (simp add: Let_def)
        from "1.IH"(1) [OF \<open>0 < ww\<close> hdr refl ext refl False r "1.prems"(2)]
        show ?thesis .
      qed
    next
      case tr
      define len where "len = drop_bit 2 v + 1 + push_bit 6 ext"
      define t where "t = transparent_run (int len) ww ddp"
      have t: "(fst t, snd t) = t" by simp
      have ge: "ddp \<le> snd t" using \<open>0 < ww\<close>
        by (simp add: t_def transparent_run_def Let_def len_def)
      show ?thesis
      proof (cases "eol \<noteq> 0")
        case True
        with "1.prems"(1) \<open>0 < ww\<close> hdr tr show ?thesis
          by (subst (asm) glyph_mask_emit.simps) (simp add: Let_def split: prod.splits)
      next
        case False
        with "1.prems"(1) \<open>0 < ww\<close> hdr tr
        have r: "glyph_mask_emit gdata (runp + 1) 0 (fst t) eol d (snd t) = Some d'"
          by (subst (asm) glyph_mask_emit.simps)
             (simp add: Let_def t_def len_def split: prod.splits)
        from ge "1.prems"(2) have a: "a < snd t" by simp
        from "1.IH"(2) [OF \<open>0 < ww\<close> hdr refl tr len_def refl t_def t False r a]
        show ?thesis .
      qed
    next
      case so
      define len where "len = drop_bit 3 v + 1 + push_bit 5 ext"
      from "1.prems"(1) \<open>0 < ww\<close> hdr so obtain ww1 d1 ddp1 where
        s: "solid_run (int len) ww d ddp = Some (ww1, d1, ddp1)"
        by (subst (asm) glyph_mask_emit.simps)
           (auto simp: Let_def len_def split: option.splits)
      from solid_run_frame [OF s] "1.prems"(2) have f: "a < ddp1" "d1 a = d a" by auto
      show ?thesis
      proof (cases "v AND 4 \<noteq> 0")
        case True
        with "1.prems"(1) \<open>0 < ww\<close> hdr so s have "d' = d1"
          by (subst (asm) glyph_mask_emit.simps) (simp add: Let_def len_def)
        with f show ?thesis by simp
      next
        case False
        with "1.prems"(1) \<open>0 < ww\<close> hdr so s
        have r: "glyph_mask_emit gdata (runp + 1) 0 ww1 (v AND 4) d1 ddp1 = Some d'"
          by (subst (asm) glyph_mask_emit.simps) (simp add: Let_def len_def)
        from "1.IH"(3) [OF \<open>0 < ww\<close> hdr refl so refl len_def refl s refl refl False r f(1)] f
        show ?thesis by simp
      qed
    next
      case im
      define len where "len = drop_bit 3 v + 1 + push_bit 5 ext"
      from "1.prems"(1) \<open>0 < ww\<close> hdr im obtain ww1 runp1 d1 ddp1 where
        s: "intermediate_run gdata (int len) ww (runp + 1) d ddp = Some (ww1, runp1, d1, ddp1)"
        by (subst (asm) glyph_mask_emit.simps)
           (auto simp: Let_def len_def split: option.splits)
      from intermediate_run_frame [OF s] "1.prems"(2) have f: "a < ddp1" "d1 a = d a" by auto
      show ?thesis
      proof (cases "v AND 4 \<noteq> 0")
        case True
        with "1.prems"(1) \<open>0 < ww\<close> hdr im s have "d' = d1"
          by (subst (asm) glyph_mask_emit.simps) (simp add: Let_def len_def)
        with f show ?thesis by simp
      next
        case False
        with "1.prems"(1) \<open>0 < ww\<close> hdr im s
        have r: "glyph_mask_emit gdata runp1 0 ww1 (v AND 4) d1 ddp1 = Some d'"
          by (subst (asm) glyph_mask_emit.simps) (simp add: Let_def len_def)
        from "1.IH"(4) [OF \<open>0 < ww\<close> hdr refl im refl len_def refl s refl refl refl False r f(1)] f
        show ?thesis by simp
      qed
    qed
  qed
qed


lemma glyph_mask_skip_zero:
  "glyph_mask_skip gdata runp ext ww 0 eol d ddp = glyph_mask_emit gdata runp ext ww eol d ddp"
  by (subst glyph_mask_skip.simps) simp

lemma fz_paint_glyph_mask_row:
  assumes "read_int be gdata (4 * skip_y) = Some offset" and "0 \<le> offset" and "0 < h"
  shows "fz_paint_glyph_mask be span d dp da gdata w h skip_x skip_y =
     Option.bind (glyph_mask_skip gdata offset 0 w skip_x 0 d dp)
       (\<lambda>d. fz_paint_glyph_mask be span d (dp + span) da gdata w (h - 1) skip_x (skip_y + 1))"
  using assms
  by (subst fz_paint_glyph_mask.simps) (simp add: Let_def split: option.splits)

lemma fz_paint_glyph_mask_done: "fz_paint_glyph_mask be span d dp da gdata w 0 skip_x skip_y = Some d"
  by (simp add: fz_paint_glyph_mask.simps)

lemma skip_into_intermediate_run:
  fixes v ext :: nat
  assumes hdr: "read_u8 gdata runp = Some v" and kind: "v AND 3 = 3"
    and len: "len = int (drop_bit 3 v + 1 + push_bit 5 ext)"
    and ww: "0 < ww"
    and sk: "0 \<le> skip_xx" "skip_xx < len"
    and m: "m = min (len - skip_xx) ww"
    and inb: "runp + 1 + skip_xx + m \<le> int (length gdata)"
  shows "glyph_mask_skip gdata runp ext ww skip_xx e d ddp =
     (let r = (\<lambda>a. if ddp \<le> a \<and> a < ddp + m
                    then mask_px (d a) (gdata ! nat (runp + 1 + skip_xx + (a - ddp)))
                    else d a)
      in if v AND 4 \<noteq> 0 then Some r
         else glyph_mask_emit gdata (runp + 1 + skip_xx + m) 0 (ww - m) 0 r (ddp + m))"
proof -
  from hdr have r0: "0 \<le> runp" by (simp add: read_u8_def split: if_splits)
  have l1: "1 \<le> len - skip_xx" using sk by simp
  from ww have w1: "1 \<le> ww" by simp
  from r0 sk have r1: "0 \<le> runp + 1 + skip_xx" by simp
  from inb m have b: "runp + 1 + skip_xx + min (len - skip_xx) ww \<le> int (length gdata)" by simp
  show ?thesis
  proof (cases "skip_xx = 0")
    case True
    from r0 have r1': "0 \<le> runp + 1" by simp
    from b True have b': "runp + 1 + min len ww \<le> int (length gdata)" by simp
    from True m have m0: "m = min len ww" by simp
    have "glyph_mask_emit gdata runp ext ww e d ddp =
       (let r = (\<lambda>a. if ddp \<le> a \<and> a < ddp + min len ww
                    then mask_px (d a) (gdata ! nat (runp + 1 + (a - ddp)))
                    else d a)
        in if v AND 4 \<noteq> 0 then Some r
           else glyph_mask_emit gdata (runp + 1 + min len ww) 0 (ww - min len ww) 0 r
                  (ddp + min len ww))"
      using kind ww hdr b' r1'
      by (subst glyph_mask_emit.simps)
         (simp add: Let_def intermediate_run_eq len cong: if_cong)
    then show ?thesis
      unfolding True m0 by (simp add: glyph_mask_skip_zero Let_def cong: if_cong)
  next
    case False
    with sk have s0: "skip_xx \<noteq> 0" "0 < skip_xx" "skip_xx < len" by simp_all
    show ?thesis
      using kind hdr s0 b r1 ww
      unfolding m
      by (subst glyph_mask_skip.simps)
         (simp add: Let_def intermediate_run_eq len cong: if_cong)
  qed
qed

text \<open>
  C5. Let the mask-mode decoder meet the header \<open>v\<close> of an Intermediate run of declared
  length \<open>len\<close>, with \<open>ww > 0\<close> columns left and \<open>skip_xx < len\<close> columns still to skip
  (\<open>skip_xx = 0\<close> in the emit loop), the run's coverage bytes lying inside the glyph data.
  The run is emitted over \<open>m = min (len - skip_xx) ww\<close> positions, and \<open>r\<close> is the
  destination in which each of these positions holds the coverage byte itself when the
  byte found there was 0, and \<open>blend(0xFF, existing, expand(coverage))\<close> otherwise, that
  is \<open>existing + (((0xFF - existing) * expand(coverage)) >> 8)\<close>, every other byte
  being as before. Then the skip loop, the emit loop and \<open>fz_paint_glyph_mask\<close> on a row
  that starts with this run return \<open>r\<close> when the run carries the end-of-line flag, and
  otherwise go on decoding after the run from \<open>r\<close>; and whatever they return has, at
  each position of the run, the byte of \<open>r\<close>. So does \<open>fz_paint_glyph\<close> on a
  destination without colourspace (mask mode) and a glyph of one row.
\<close>

theorem C5_intermediate_run_first_paint_or_blend:
  fixes v ext :: nat
  assumes "read_u8 gdata runp = Some v" and "v AND 3 = 3"
    and "len = int (drop_bit 3 v + 1 + push_bit 5 ext)"
    and "0 < ww"
    and "0 \<le> skip_xx" and "skip_xx < len"
    and "m = min (len - skip_xx) ww"
    and "runp + 1 + skip_xx + m \<le> int (length gdata)"
    and "r = (\<lambda>a. if ddp \<le> a \<and> a < ddp + m
                  then (if d a = 0 then gdata ! nat (runp + 1 + skip_xx + (a - ddp))
                        else word_of_int
                               (FZ_BLEND 0xFF (uint (d a))
                                  (FZ_EXPAND (uint (gdata ! nat (runp + 1 + skip_xx + (a - ddp)))))))
                  else d a)"
  shows
    "glyph_mask_skip gdata runp ext ww skip_xx eol d ddp =
       (if v AND 4 \<noteq> 0 then Some r
        else glyph_mask_emit gdata (runp + 1 + skip_xx + m) 0 (ww - m) 0 r (ddp + m))
     \<and> (skip_xx = 0 \<longrightarrow>
          glyph_mask_emit gdata runp ext ww eol d ddp =
            (if v AND 4 \<noteq> 0 then Some r
             else glyph_mask_emit gdata (runp + 1 + m) 0 (ww - m) 0 r (ddp + m)))
     \<and> (ext = 0 \<and> read_int be gdata (4 * skip_y) = Some runp \<and> 0 < h \<longrightarrow>
          fz_paint_glyph_mask be span d ddp da gdata ww h skip_xx skip_y =
            Option.bind
              (if v AND 4 \<noteq> 0 then Some r
               else glyph_mask_emit gdata (runp + 1 + skip_xx + m) 0 (ww - m) 0 r (ddp + m))
              (\<lambda>d. fz_paint_glyph_mask be span d (ddp + span) da gdata ww (h - 1) skip_xx
                      (skip_y + 1)))
     \<and> (\<forall>d'. glyph_mask_skip gdata runp ext ww skip_xx eol d ddp = Some d'
               \<or> (skip_xx = 0 \<and> glyph_mask_emit gdata runp ext ww eol d ddp = Some d')
               \<or> (ext = 0 \<and> read_int be gdata (4 * skip_y) = Some runp
                    \<and> fz_paint_glyph_mask be span d ddp da gdata ww 1 skip_xx skip_y = Some d') \<longrightarrow>
             (\<forall>a. ddp \<le> a \<and> a < ddp + m \<longrightarrow> d' a = r a))
     \<and> (ext = 0 \<and> read_int (isbigendian cfg) gdata (4 * skip_y) = Some runp
          \<and> px_colorspace dst = None \<and> px_alpha dst \<noteq> 0 \<and> px_n dst = 1
          \<and> px_samples dst = d \<longrightarrow>
          fz_paint_glyph cfg gp colorbv dst ddp gdata ww 1 skip_xx skip_y =
            of_painted
              (if v AND 4 \<noteq> 0 then Some r
               else glyph_mask_emit gdata (runp + 1 + skip_xx + m) 0 (ww - m) 0 r (ddp + m)))
     \<and> (\<forall>e c. FZ_BLEND 0xFF e (FZ_EXPAND c) = e + ((0xFF - e) * FZ_EXPAND c) div 2 ^ 8)"
proof -
  let ?cont = "if v AND 4 \<noteq> 0 then Some r
        else glyph_mask_emit gdata (runp + 1 + skip_xx + m) 0 (ww - m) 0 r (ddp + m)"
  from assms(1) have r0: "0 \<le> runp" by (simp add: read_u8_def split: if_splits)
  have r: "r = (\<lambda>a. if ddp \<le> a \<and> a < ddp + m
                    then mask_px (d a) (gdata ! nat (runp + 1 + skip_xx + (a - ddp)))
                    else d a)"
    by (simp add: assms(9) mask_px_def fun_eq_iff uint_0_iff)
  have A: "glyph_mask_skip gdata runp ext ww skip_xx e d ddp = ?cont" for e
    by (simp add: skip_into_intermediate_run [OF assms(1-8)] Let_def r)
  have B: "glyph_mask_emit gdata runp ext ww eol d ddp = ?cont" if "skip_xx = 0"
    using A [of eol] that by (simp add: glyph_mask_skip_zero)
  have C: "fz_paint_glyph_mask be span d ddp da gdata ww h skip_xx skip_y =
            Option.bind ?cont
              (\<lambda>d. fz_paint_glyph_mask be span d (ddp + span) da gdata ww (h - 1) skip_xx
                      (skip_y + 1))"
    if "ext = 0" "read_int be gdata (4 * skip_y) = Some runp" "0 < h" for h be span da
    using A [of 0] that by (simp add: fz_paint_glyph_mask_row [OF that(2) r0 that(3)])
  have D: "d' a = r a" if c: "?cont = Some d'" and a: "ddp \<le> a" "a < ddp + m" for d' a
  proof (cases "v AND 4 \<noteq> 0")
    case True
    with c show ?thesis by simp
  next
    case False
    with c have "glyph_mask_emit gdata (runp + 1 + skip_xx + m) 0 (ww - m) 0 r (ddp + m) = Some d'"
      by simp
    from glyph_mask_emit_frame [OF this a(2)] show ?thesis .
  qed
  have E: "?cont = Some d'"
    if "glyph_mask_skip gdata runp ext ww skip_xx eol d ddp = Some d'
               \<or> (skip_xx = 0 \<and> glyph_mask_emit gdata runp ext ww eol d ddp = Some d')
               \<or> (ext = 0 \<and> read_int be gdata (4 * skip_y) = Some runp
                    \<and> fz_paint_glyph_mask be span d ddp da gdata ww 1 skip_xx skip_y = Some d')"
    for d'
    using that
  proof (elim disjE conjE)
    assume "glyph_mask_skip gdata runp ext ww skip_xx eol d ddp = Some d'"
    with A [of eol] show ?thesis by simp
  next
    assume "skip_xx = 0" "glyph_mask_emit gdata runp ext ww eol d ddp = Some d'"
    with B show ?thesis by simp
  next
    assume h: "ext = 0" "read_int be gdata (4 * skip_y) = Some runp"
      and p: "fz_paint_glyph_mask be span d ddp da gdata ww 1 skip_xx skip_y = Some d'"
    from C [OF h, of 1 span da] p show ?thesis
      by (cases ?cont) (simp_all add: fz_paint_glyph_mask_done)
  qed
  have G: "fz_paint_glyph cfg gp colorbv dst ddp gdata ww 1 skip_xx skip_y = of_painted ?cont"
    if g: "ext = 0" "read_int (isbigendian cfg) gdata (4 * skip_y) = Some runp"
      "px_colorspace dst = None" "px_alpha dst \<noteq> 0" "px_n dst = 1" "px_samples dst = d"
  proof -
    have "fz_paint_glyph_mask (isbigendian cfg) (px_stride dst) d ddp (px_alpha dst) gdata ww 1
            skip_xx skip_y = ?cont"
      using C [OF g(1,2), of 1 "px_stride dst" "px_alpha dst"]
      by (cases ?cont) (simp_all add: fz_paint_glyph_mask_done)
    with g show ?thesis
      by (simp add: fz_paint_glyph_def Let_def)
  qed
  have F: "FZ_BLEND 0xFF e (FZ_EXPAND c) = e + ((0xFF - e) * FZ_EXPAND c) div 2 ^ 8" for e c
    by (simp add: FZ_BLEND_def FZ_COMBINE_def)
  show ?thesis
  proof (intro conjI allI impI)
    show "glyph_mask_skip gdata runp ext ww skip_xx eol d ddp = ?cont" by (rule A)
  next
    assume "skip_xx = 0"
    then show "glyph_mask_emit gdata runp ext ww eol d ddp =
            (if v AND 4 \<noteq> 0 then Some r
             else glyph_mask_emit gdata (runp + 1 + m) 0 (ww - m) 0 r (ddp + m))"
      using B by simp
  next
    assume "ext = 0 \<and> read_int be gdata (4 * skip_y) = Some runp \<and> 0 < h"
    then show "fz_paint_glyph_mask be span d ddp da gdata ww h skip_xx skip_y =
            Option.bind ?cont
              (\<lambda>d. fz_paint_glyph_mask be span d (ddp + span) da gdata ww (h - 1) skip_xx
                      (skip_y + 1))"
      using C by simp
  next
    assume "ext = 0 \<and> read_int (isbigendian cfg) gdata (4 * skip_y) = Some runp
          \<and> px_colorspace dst = None \<and> px_alpha dst \<noteq> 0 \<and> px_n dst = 1
          \<and> px_samples dst = d"
    then show "fz_paint_glyph cfg gp colorbv dst ddp gdata ww 1 skip_xx skip_y = of_painted ?cont"
      using G by simp
  next
    fix d' a
    assume "glyph_mask_skip gdata runp ext ww skip_xx eol d ddp = Some d'
               \<or> (skip_xx = 0 \<and> glyph_mask_emit gdata runp ext ww eol d ddp = Some d')
               \<or> (ext = 0 \<and> read_int be gdata (4 * skip_y) = Some runp
                    \<and> fz_paint_glyph_mask be span d ddp da gdata ww 1 skip_xx skip_y = Some d')"
      and "ddp \<le> a \<and> a < ddp + m"
    then show "d' a = r a" using D [OF E] by simp
  next
    fix e c
    show "FZ_BLEND 0xFF e (FZ_EXPAND c) = e + ((0xFF - e) * FZ_EXPAND c) div 2 ^ 8" by (rule F)
  qed
qed


theorem C5_witness:
  "read_u8 [4, 0, 0, 0, 19, 10, 20, 30, 22] 4 = Some 19
   \<and> (19::nat) AND 3 = 3
   \<and> (3::int) = int (drop_bit 3 19 + 1 + push_bit 5 0)
   \<and> (0::int) < 6 \<and> (0::int) \<le> 0 \<and> (0::int) < 3
   \<and> (3::int) = min (3 - 0) 6
   \<and> 4 + 1 + 0 + 3 \<le> int (length [4, 0, 0, 0, 19, 10, 20, 30, 22 :: byte])
   \<and> read_int False [4, 0, 0, 0, 19, 10, 20, 30, 22] (4 * 0) = Some 4
   \<and> map_option (\<lambda>r. bytes r 0 6)
         (glyph_mask_emit [4, 0, 0, 0, 19, 10, 20, 30, 22] 4 0 6 0 (mem_of [0, 7, 0, 4, 5, 6]) 0)
       = Some [10, 26, 30, 255, 255, 255]
   \<and> map_option (\<lambda>r. bytes r 0 6)
         (fz_paint_glyph_mask False 6 (mem_of [0, 7, 0, 4, 5, 6]) 0 1
            [4, 0, 0, 0, 19, 10, 20, 30, 22] 6 1 0 0)
       = Some [10, 26, 30, 255, 255, 255]
   \<and> read_u8 [4, 0, 0, 0, 23, 10, 20, 30, 9] 4 = Some 23
   \<and> (23::nat) AND 3 = 3
   \<and> (3::int) = int (drop_bit 3 23 + 1 + push_bit 5 0)
   \<and> (0::int) \<le> 1 \<and> (1::int) < 3
   \<and> (2::int) = min (3 - 1) 6
   \<and> 4 + 1 + 1 + 2 \<le> int (length [4, 0, 0, 0, 23, 10, 20, 30, 9 :: byte])
   \<and> read_int False [4, 0, 0, 0, 23, 10, 20, 30, 9] (4 * 0) = Some 4
   \<and> map_option (\<lambda>r. bytes r 0 6)
         (glyph_mask_skip [4, 0, 0, 0, 23, 10, 20, 30, 9] 4 0 6 1 0 (mem_of [0, 7, 0, 4, 5, 6]) 0)
       = Some [20, 36, 0, 4, 5, 6]
   \<and> map_option (\<lambda>r. bytes r 0 6)
       (returned (fz_paint_glyph
        \<lparr>plotters_g = True, plotters_rgb = True, plotters_cmyk = True, plotters_n = True,
          arch_unaligned_ok = False, isbigendian = False, ndebug = False\<rparr>
        (glyph_painters.make
          (\<lambda>c sp d dp g w h sx sy. None) (\<lambda>c sp d dp g w h sx sy. None)
          (\<lambda>c sp d dp g w h sx sy. None) (\<lambda>c sp d dp g w h sx sy. None)
          (\<lambda>c sp d dp g w h sx sy. None) (\<lambda>c sp d dp g w h sx sy. None)
          (\<lambda>c n sp d dp g w h sx sy. None) (\<lambda>c n sp d dp g w h sx sy. None)
          (\<lambda>c sp d dp g w h sx sy. None) (\<lambda>c sp d dp g w h sx sy. None)
          (\<lambda>c sp d dp g w h sx sy. None) (\<lambda>c sp d dp g w h sx sy. None)
          (\<lambda>c sp d dp g w h sx sy. None) (\<lambda>c sp d dp g w h sx sy. None)
          (\<lambda>c n sp d dp g w h sx sy. None) (\<lambda>c n sp d dp g w h sx sy. None))
        (mem_of [])
        \<lparr>px_x = 0, px_y = 0, px_w = 6, px_h = 1, px_n = 1, px_alpha = 1, px_stride = 6,
          px_samples = mem_of [0, 7, 0, 4, 5, 6], px_colorspace = None\<rparr>
        0 [4, 0, 0, 0, 23, 10, 20, 30, 9] 6 1 1 0))
       = Some [20, 36, 0, 4, 5, 6]"
proof -
  let ?G = "[4, 0, 0, 0, 19, 10, 20, 30, 22 :: byte]"
  let ?H = "[4, 0, 0, 0, 23, 10, 20, 30, 9 :: byte]"
  let ?D = "mem_of [0, 7, 0, 4, 5, 6]"
  let ?cfg = "\<lparr>plotters_g = True, plotters_rgb = True, plotters_cmyk = True, plotters_n = True,
          arch_unaligned_ok = False, isbigendian = False, ndebug = False\<rparr>"
  let ?dst = "\<lparr>px_x = 0, px_y = 0, px_w = 6, px_h = 1, px_n = 1, px_alpha = 1, px_stride = 6,
          px_samples = mem_of [0, 7, 0, 4, 5, 6], px_colorspace = None\<rparr>"
  have a: "read_u8 ?G 4 = Some 19" "(19::nat) AND 3 = 3"
    "(3::int) = int (drop_bit 3 19 + 1 + push_bit 5 0)"
    "(0::int) < 6" "(0::int) \<le> 0" "(0::int) < 3" "(3::int) = min (3 - 0) 6"
    "4 + 1 + 0 + 3 \<le> int (length ?G)"
    by (simp_all add: read_u8_def)
  have ri: "read_int False ?G (4 * 0) = Some 4"
    by code_simp
  have b: "read_u8 ?H 4 = Some 23" "(23::nat) AND 3 = 3"
    "(3::int) = int (drop_bit 3 23 + 1 + push_bit 5 0)"
    "(0::int) < 6" "(0::int) \<le> 1" "(1::int) < 3" "(2::int) = min (3 - 1) 6"
    "4 + 1 + 1 + 2 \<le> int (length ?H)"
    by (simp_all add: read_u8_def)
  have rj: "read_int False ?H (4 * 0) = Some 4"
    by code_simp
  note A = C5_intermediate_run_first_paint_or_blend
    [OF a refl, where d = ?D and ddp = 0 and eol = 0 and be = False and skip_y = 0 and h = 1
       and span = 6 and da = 1]
  note B = C5_intermediate_run_first_paint_or_blend
    [OF b refl, where d = ?D and ddp = 0 and eol = 0 and cfg = ?cfg and dst = ?dst
       and skip_y = 0]
  have s: "read_u8 ?G 8 = Some 22" "(22::nat) AND 3 = 2 \<or> (22::nat) AND 3 = 3"
    "(22::nat) AND 4 \<noteq> 0" "(3::int) = int (drop_bit 3 22 + 1 + push_bit 5 0)" "(0::int) < 3"
    "(22::nat) AND 3 = 3 \<longrightarrow> 8 + 1 + min 3 3 \<le> int (length ?G)"
    by (simp_all add: read_u8_def)
  note S = emit_eol_run [OF s]
  have ev: "bytes f 0 6 = map (\<lambda>j. f (int j)) [0, 1, 2, 3, 4, 5]" for f
    by (simp add: bytes_def upt_rec)
  have a1: "map_option (\<lambda>r. bytes r 0 6) (glyph_mask_emit ?G 4 0 6 0 ?D 0)
       = Some [10, 26, 30, 255, 255, 255]"
    using A [THEN conjunct2, THEN conjunct1]
    by (simp add: S ev mem_of_def FZ_BLEND_def FZ_COMBINE_def FZ_EXPAND_def)
  have a2: "map_option (\<lambda>r. bytes r 0 6) (fz_paint_glyph_mask False 6 ?D 0 1 ?G 6 1 0 0)
       = Some [10, 26, 30, 255, 255, 255]"
    using A [THEN conjunct2, THEN conjunct2, THEN conjunct1] ri
    by (simp add: S ev mem_of_def FZ_BLEND_def FZ_COMBINE_def FZ_EXPAND_def
          fz_paint_glyph_mask_done)
  have b1: "map_option (\<lambda>r. bytes r 0 6) (glyph_mask_skip ?H 4 0 6 1 0 ?D 0)
       = Some [20, 36, 0, 4, 5, 6]"
    using B [THEN conjunct1]
    by (simp add: ev mem_of_def FZ_BLEND_def FZ_COMBINE_def FZ_EXPAND_def)
  have b2: "map_option (\<lambda>r. bytes r 0 6)
       (returned (fz_paint_glyph ?cfg
        (glyph_painters.make
          (\<lambda>c sp d dp g w h sx sy. None) (\<lambda>c sp d dp g w h sx sy. None)
          (\<lambda>c sp d dp g w h sx sy. None) (\<lambda>c sp d dp g w h sx sy. None)
          (\<lambda>c sp d dp g w h sx sy. None) (\<lambda>c sp d dp g w h sx sy. None)
          (\<lambda>c n sp d dp g w h sx sy. None) (\<lambda>c n sp d dp g w h sx sy. None)
          (\<lambda>c sp d dp g w h sx sy. None) (\<lambda>c sp d dp g w h sx sy. None)
          (\<lambda>c sp d dp g w h sx sy. None) (\<lambda>c sp d dp g w h sx sy. None)
          (\<lambda>c sp d dp g w h sx sy. None) (\<lambda>c sp d dp g w h sx sy. None)
          (\<lambda>c n sp d dp g w h sx sy. None) (\<lambda>c n sp d dp g w h sx sy. None))
        (mem_of []) ?dst 0 ?H 6 1 1 0))
       = Some [20, 36, 0, 4, 5, 6]"
    using B [THEN conjunct2, THEN conjunct2, THEN conjunct2, THEN conjunct2, THEN conjunct1] rj
    by (simp add: ev mem_of_def FZ_BLEND_def FZ_COMBINE_def FZ_EXPAND_def of_painted_def
          returned_def)
  from a ri b rj a1 a2 b1 b2 show ?thesis by blast
qed

subsection \<open>Solid colour fill: the kernels at odds with the specification\<close>

text \<open>
  C1. For a destination of four colour channels plus alpha, \<open>fz_get_solid_color_painter\<close>
  selects \<open>paint_solid_color_4_da\<close> in a build with the CMYK plotters and
  \<open>paint_solid_color_N_da\<close> (called with \<open>n = 5\<close>) in a build with only the generic
  ones. On one all-zero pixel and the colour \<open>[10, 20, 30, 40]\<close> with alpha 255 the
  first writes \<open>[10, 20, 30, 40, 255]\<close> and the second \<open>[0, 1, 2, 3, 19]\<close>: the generic
  painter takes its weight from \<open>color[1]\<close>, a colour byte, not from the alpha byte
  \<open>color[4]\<close>. With colour alpha 128 and \<open>color[1] = 128\<close> the two still differ in the
  alpha byte as soon as the byte after the pixel is not the pixel's alpha byte: the
  specialised kernel blends \<open>dp[5]\<close> where the generic one blends \<open>dp[4]\<close>.
  The span-with-mask painters for one colour channel and a source with alpha differ in
  the same way between a build with the grey plotters (\<open>paint_span_with_mask_1_sa\<close>)
  and one with the generic plotters only (\<open>paint_span_with_mask_N_sa\<close>): on two
  opaque source pixels under full coverage the first writes \<open>[10, 255]\<close>, the second
  \<open>[10, 20]\<close>, since the one-channel template steps over the source alpha only when the
  destination has alpha too.
\<close>

theorem C1_solid_color_4_da_differs_from_N_da:
  "fz_get_solid_color_painter (cfg\<lparr>plotters_cmyk := True\<rparr>) 5 color 1
     = Some (paint_solid_color_4_da (cfg\<lparr>plotters_cmyk := True\<rparr>))
   \<and> fz_get_solid_color_painter (cfg\<lparr>plotters_cmyk := False, plotters_n := True\<rparr>) 5 color 1
     = Some paint_solid_color_N_da
   \<and> map_option (\<lambda>d. bytes d 0 5)
        (paint_solid_color_4_da cfg (mem_of [0, 0, 0, 0, 0]) 0 5 1 (mem_of [10, 20, 30, 40, 255]) 1)
     = Some [10, 20, 30, 40, 255]
   \<and> map_option (\<lambda>d. bytes d 0 5)
        (paint_solid_color_N_da (mem_of [0, 0, 0, 0, 0]) 0 5 1 (mem_of [10, 20, 30, 40, 255]) 1)
     = Some [0, 1, 2, 3, 19]
   \<and> map_option (\<lambda>d. bytes d 0 5)
        (paint_solid_color_4_da cfg (mem_of [0, 0, 0, 0, 0, 200]) 0 5 1 (mem_of [10, 128, 30, 40, 128]) 1)
     = Some [5, 64, 15, 20, 227]
   \<and> map_option (\<lambda>d. bytes d 0 5)
        (paint_solid_color_N_da (mem_of [0, 0, 0, 0, 0, 200]) 0 5 1 (mem_of [10, 128, 30, 40, 128]) 1)
     = Some [5, 64, 15, 20, 128]
   \<and> fz_get_span_mask_painter (cfg\<lparr>plotters_g := True\<rparr>) 0 1 1 = Some paint_span_with_mask_1_sa
   \<and> fz_get_span_mask_painter (cfg\<lparr>plotters_g := False, plotters_n := True\<rparr>) 0 1 1
     = Some paint_span_with_mask_N_sa
   \<and> map_option (\<lambda>d. bytes d 0 2)
        (paint_span_with_mask_1_sa (mem_of [0, 0]) 0 0 (mem_of [10, 255, 20, 255]) 0 1
           (mem_of [255, 255]) 0 1 2)
     = Some [10, 255]
   \<and> map_option (\<lambda>d. bytes d 0 2)
        (paint_span_with_mask_N_sa (mem_of [0, 0]) 0 0 (mem_of [10, 255, 20, 255]) 0 1
           (mem_of [255, 255]) 0 1 2)
     = Some [10, 20]"
proof -
  have "fz_get_solid_color_painter (cfg\<lparr>plotters_cmyk := True\<rparr>) 5 color 1
     = Some (paint_solid_color_4_da (cfg\<lparr>plotters_cmyk := True\<rparr>))"
    by (simp add: fz_get_solid_color_painter_def)
  moreover have "fz_get_solid_color_painter (cfg\<lparr>plotters_cmyk := False, plotters_n := True\<rparr>) 5 color 1
     = Some paint_solid_color_N_da"
    by (simp add: fz_get_solid_color_painter_def)
  moreover have "map_option (\<lambda>d. bytes d 0 5)
        (paint_solid_color_4_da cfg (mem_of [0, 0, 0, 0, 0]) 0 5 1 (mem_of [10, 20, 30, 40, 255]) 1)
     = Some [10, 20, 30, 40, 255]"
    by (simp add: paint_solid_color_4_da_def template_solid_color_4_da_def
        solid_color_4_da_opaque_def do_while_dec_one Let_def load_def store_def mem_of_def
        bytes_def upt_rec FZ_EXPAND_def)
  moreover have "map_option (\<lambda>d. bytes d 0 5)
        (paint_solid_color_N_da (mem_of [0, 0, 0, 0, 0]) 0 5 1 (mem_of [10, 20, 30, 40, 255]) 1)
     = Some [0, 1, 2, 3, 19]"
    by code_simp
  moreover have "map_option (\<lambda>d. bytes d 0 5)
        (paint_solid_color_4_da cfg (mem_of [0, 0, 0, 0, 0, 200]) 0 5 1 (mem_of [10, 128, 30, 40, 128]) 1)
     = Some [5, 64, 15, 20, 227]"
    by (simp add: paint_solid_color_4_da_def template_solid_color_4_da_def
        solid_color_4_da_blend_def do_while_dec_one Let_def load_def store_def mem_of_def
        bytes_def upt_rec FZ_EXPAND_def FZ_BLEND_def FZ_COMBINE_def)
  moreover have "map_option (\<lambda>d. bytes d 0 5)
        (paint_solid_color_N_da (mem_of [0, 0, 0, 0, 0, 200]) 0 5 1 (mem_of [10, 128, 30, 40, 128]) 1)
     = Some [5, 64, 15, 20, 128]"
    by code_simp
  moreover have "fz_get_span_mask_painter (cfg\<lparr>plotters_g := True\<rparr>) 0 1 1
      = Some paint_span_with_mask_1_sa"
    by (simp add: fz_get_span_mask_painter_def)
  moreover have "fz_get_span_mask_painter (cfg\<lparr>plotters_g := False, plotters_n := True\<rparr>) 0 1 1
      = Some paint_span_with_mask_N_sa"
    by (simp add: fz_get_span_mask_painter_def span_mask_fallback_def)
  moreover have "map_option (\<lambda>d. bytes d 0 2)
        (paint_span_with_mask_1_sa (mem_of [0, 0]) 0 0 (mem_of [10, 255, 20, 255]) 0 1
           (mem_of [255, 255]) 0 1 2)
     = Some [10, 255]"
    by code_simp
  moreover have "map_option (\<lambda>d. bytes d 0 2)
        (paint_span_with_mask_N_sa (mem_of [0, 0]) 0 0 (mem_of [10, 255, 20, 255]) 0 1
           (mem_of [255, 255]) 0 1 2)
     = Some [10, 20]"
    by code_simp
  ultimately show ?thesis by (intro conjI)
qed

text \<open>
  C2. In a build with the generic plotters, a destination of two colour channels plus
  alpha gets \<open>paint_solid_color_N_da\<close>. With the colour \<open>[10, 20]\<close>, alpha byte 255, one
  all-zero pixel becomes \<open>[0, 1, 19]\<close>, not \<open>[10, 20, 255]\<close>: the weight is
  \<open>expand(color[1]) = 20\<close>, so the painter blends where it should overwrite.
\<close>

theorem C2_solid_color_N_da_full_alpha_not_overwrite:
  "fz_get_solid_color_painter (cfg\<lparr>plotters_n := True\<rparr>) 3 (mem_of [10, 20, 255]) 1
     = Some paint_solid_color_N_da
   \<and> load (mem_of [10, 20, 255]) (3 - 1) = 255
   \<and> map_option (\<lambda>d. bytes d 0 3)
        (paint_solid_color_N_da (mem_of [0, 0, 0]) 0 3 1 (mem_of [10, 20, 255]) 1)
     = Some [0, 1, 19]"
proof -
  have "fz_get_solid_color_painter (cfg\<lparr>plotters_n := True\<rparr>) 3 (mem_of [10, 20, 255]) 1
     = Some paint_solid_color_N_da"
    by (simp add: fz_get_solid_color_painter_def)
  moreover have "load (mem_of [10, 20, 255]) (3 - 1) = 255"
    by (simp add: load_def mem_of_def)
  moreover have "map_option (\<lambda>d. bytes d 0 3)
        (paint_solid_color_N_da (mem_of [0, 0, 0]) 0 3 1 (mem_of [10, 20, 255]) 1)
     = Some [0, 1, 19]"
    by code_simp
  ultimately show ?thesis by blast
qed

text \<open>
  C8. \<open>paint_solid_color_4_da\<close> with a colour alpha of 128, on one pixel at address 0:
  two destinations that agree on the five bytes of the pixel and differ only in the byte
  after it give different alpha bytes. The partial-alpha branch reads \<open>dp[5]\<close>, the first
  byte of the next pixel, for the pixel's alpha.
\<close>

theorem C8_solid_color_4_da_reads_past_pixel:
  "bytes (mem_of [0, 0, 0, 0, 0, 0]) 0 5 = bytes (mem_of [0, 0, 0, 0, 0, 200]) 0 5
   \<and> map_option (\<lambda>d. bytes d 0 5)
        (paint_solid_color_4_da cfg (mem_of [0, 0, 0, 0, 0, 0]) 0 5 1 (mem_of [10, 128, 30, 40, 128]) 1)
     = Some [5, 64, 15, 20, 128]
   \<and> map_option (\<lambda>d. bytes d 0 5)
        (paint_solid_color_4_da cfg (mem_of [0, 0, 0, 0, 0, 200]) 0 5 1 (mem_of [10, 128, 30, 40, 128]) 1)
     = Some [5, 64, 15, 20, 227]"
  by (simp add: paint_solid_color_4_da_def template_solid_color_4_da_def
      solid_color_4_da_blend_def do_while_dec_one Let_def load_def store_def mem_of_def
      bytes_def upt_rec FZ_EXPAND_def FZ_BLEND_def FZ_COMBINE_def)

subsection \<open>Pixmap-level entry points and glyph dispatch\<close>

lemma paint_pixmap_rows_no_assert:
  "paint_pixmap_rows fn dst src d dp da sp sa n w alpha h \<noteq> Assertion_failed m"
proof (induction fn dst src d dp da sp sa n w alpha h rule: paint_pixmap_rows.induct)
  case (1 fn dst src d dp da sp sa n w alpha h)
  show ?case
  proof (cases "h = 0 \<or> h < 0")
    case True
    then show ?thesis by (subst paint_pixmap_rows.simps) auto
  next
    case False
    then have h: "\<not> h = 0" "\<not> h < 0" by simp_all
    show ?thesis
    proof (cases "fn d dp da (px_samples src) sp sa n w alpha")
      case None
      with h show ?thesis by (subst paint_pixmap_rows.simps) simp
    next
      case (Some d')
      from "1.IH" [OF h Some] Some h show ?thesis
        by (subst paint_pixmap_rows.simps) simp
    qed
  qed
qed

lemma paint_pixmap_with_mask_rows_no_assert:
  "paint_pixmap_with_mask_rows fn dst src msk d dp da sp sa mp n w h \<noteq> Assertion_failed m"
proof (induction fn dst src msk d dp da sp sa mp n w h rule: paint_pixmap_with_mask_rows.induct)
  case (1 fn dst src msk d dp da sp sa mp n w h)
  show ?case
  proof (cases "h = 0 \<or> h < 0")
    case True
    then show ?thesis by (subst paint_pixmap_with_mask_rows.simps) auto
  next
    case False
    then have h: "\<not> h = 0" "\<not> h < 0" by simp_all
    show ?thesis
    proof (cases "fn d dp da (px_samples src) sp sa (px_samples msk) mp n w")
      case None
      with h show ?thesis by (subst paint_pixmap_with_mask_rows.simps) simp
    next
      case (Some d')
      from "1.IH" [OF h Some] Some h show ?thesis
        by (subst paint_pixmap_with_mask_rows.simps) simp
    qed
  qed
qed

lemma paint_pixmap_in_assert:
  "paint_pixmap_in cfg dst src alpha bbox = Assertion_failed m \<Longrightarrow>
     \<not> ndebug cfg \<and> m = px_samples dst"
  by (auto simp: paint_pixmap_in_def Let_def paint_pixmap_rows_no_assert
        split: if_splits option.splits)

text \<open>
  The shape checks of the pixmap-level entry points are \<^verbatim>\<open>assert\<close>s and nothing else.
  In a build with \<^verbatim>\<open>NDEBUG\<close> they are gone: \<open>fz_paint_pixmap\<close> given a destination of
  three colour channels and a source of one paints the source's two samples over the
  first two destination bytes and returns, and so does \<open>fz_paint_pixmap_with_mask\<close>.
\<close>

theorem C9_ndebug_paints_mismatched_shapes:
  "px_n \<lparr>px_x = 0, px_y = 0, px_w = 2, px_h = 1, px_n = 3, px_alpha = 0, px_stride = 6,
          px_samples = mem_of [1, 2, 3, 4, 5, 6], px_colorspace = Some (Colorspace 0)\<rparr>
     - px_alpha \<lparr>px_x = 0, px_y = 0, px_w = 2, px_h = 1, px_n = 3, px_alpha = 0, px_stride = 6,
          px_samples = mem_of [1, 2, 3, 4, 5, 6], px_colorspace = Some (Colorspace 0)\<rparr>
   \<noteq> px_n \<lparr>px_x = 0, px_y = 0, px_w = 2, px_h = 1, px_n = 1, px_alpha = 0, px_stride = 2,
          px_samples = mem_of [9, 9], px_colorspace = Some (Colorspace 1)\<rparr>
     - px_alpha \<lparr>px_x = 0, px_y = 0, px_w = 2, px_h = 1, px_n = 1, px_alpha = 0, px_stride = 2,
          px_samples = mem_of [9, 9], px_colorspace = Some (Colorspace 1)\<rparr>
   \<and> map_option (\<lambda>d. bytes d 0 6)
       (returned (fz_paint_pixmap
        \<lparr>plotters_g = True, plotters_rgb = True, plotters_cmyk = True, plotters_n = True,
          arch_unaligned_ok = False, isbigendian = False, ndebug = True\<rparr>
        \<lparr>px_x = 0, px_y = 0, px_w = 2, px_h = 1, px_n = 3, px_alpha = 0, px_stride = 6,
          px_samples = mem_of [1, 2, 3, 4, 5, 6], px_colorspace = Some (Colorspace 0)\<rparr>
        \<lparr>px_x = 0, px_y = 0, px_w = 2, px_h = 1, px_n = 1, px_alpha = 0, px_stride = 2,
          px_samples = mem_of [9, 9], px_colorspace = Some (Colorspace 1)\<rparr>
        255))
     = Some [9, 9, 3, 4, 5, 6]
   \<and> px_n \<lparr>px_x = 0, px_y = 0, px_w = 2, px_h = 1, px_n = 3, px_alpha = 0, px_stride = 6,
          px_samples = mem_of [1, 2, 3, 4, 5, 6], px_colorspace = Some (Colorspace 0)\<rparr>
     \<noteq> px_n \<lparr>px_x = 0, px_y = 0, px_w = 2, px_h = 1, px_n = 1, px_alpha = 0, px_stride = 2,
          px_samples = mem_of [9, 9], px_colorspace = Some (Colorspace 1)\<rparr>
   \<and> map_option (\<lambda>d. bytes d 0 6)
       (returned (fz_paint_pixmap_with_mask
        \<lparr>plotters_g = True, plotters_rgb = True, plotters_cmyk = True, plotters_n = True,
          arch_unaligned_ok = False, isbigendian = False, ndebug = True\<rparr>
        \<lparr>px_x = 0, px_y = 0, px_w = 2, px_h = 1, px_n = 3, px_alpha = 0, px_stride = 6,
          px_samples = mem_of [1, 2, 3, 4, 5, 6], px_colorspace = Some (Colorspace 0)\<rparr>
        \<lparr>px_x = 0, px_y = 0, px_w = 2, px_h = 1, px_n = 1, px_alpha = 0, px_stride = 2,
          px_samples = mem_of [9, 9], px_colorspace = Some (Colorspace 1)\<rparr>
        \<lparr>px_x = 0, px_y = 0, px_w = 2, px_h = 1, px_n = 1, px_alpha = 0, px_stride = 2,
          px_samples = mem_of [255, 255], px_colorspace = None\<rparr>))
     = Some [9, 9, 3, 4, 5, 6]"
  by code_simp

text \<open>
  C9. In a build without \<^verbatim>\<open>NDEBUG\<close>, \<open>fz_paint_pixmap\<close> called with pixmaps whose
  numbers of colour channels differ (\<open>dst.n - dst.alpha \<noteq> src.n - src.alpha\<close>) stops at
  its first assert: the program aborts and the destination samples are as they were.
  \<open>fz_paint_pixmap_with_mask\<close> called with \<open>dst.n \<noteq> src.n\<close> or \<open>msk.n \<noteq> 1\<close> does the
  same at one of its two asserts. Conversely, whenever one of the two functions fails at
  an assert, the build is one without \<^verbatim>\<open>NDEBUG\<close> and no destination byte has been
  written; for \<open>fz_paint_pixmap_with_mask\<close> the shapes are then incompatible.
\<close>

theorem C9_pixmap_painters_reject_shape_mismatch:
  "(\<not> ndebug cfg \<and> px_n dst - px_alpha dst \<noteq> px_n src - px_alpha src \<longrightarrow>
      fz_paint_pixmap cfg dst src alpha = Assertion_failed (px_samples dst))
   \<and> (\<not> ndebug cfg \<and> (px_n dst \<noteq> px_n src \<or> px_n msk \<noteq> 1) \<longrightarrow>
      fz_paint_pixmap_with_mask cfg dst src msk = Assertion_failed (px_samples dst))
   \<and> (\<forall>m. fz_paint_pixmap cfg dst src alpha = Assertion_failed m \<longrightarrow>
          \<not> ndebug cfg \<and> m = px_samples dst)
   \<and> (\<forall>m. fz_paint_pixmap_with_mask cfg dst src msk = Assertion_failed m \<longrightarrow>
          \<not> ndebug cfg \<and> m = px_samples dst \<and> (px_n dst \<noteq> px_n src \<or> px_n msk \<noteq> 1))"
proof (intro conjI allI impI)
  assume "\<not> ndebug cfg \<and> px_n dst - px_alpha dst \<noteq> px_n src - px_alpha src"
  then show "fz_paint_pixmap cfg dst src alpha = Assertion_failed (px_samples dst)"
    by (simp add: fz_paint_pixmap_def)
next
  assume "\<not> ndebug cfg \<and> (px_n dst \<noteq> px_n src \<or> px_n msk \<noteq> 1)"
  then show "fz_paint_pixmap_with_mask cfg dst src msk = Assertion_failed (px_samples dst)"
    by (auto simp: fz_paint_pixmap_with_mask_def)
next
  fix m
  assume a: "fz_paint_pixmap cfg dst src alpha = Assertion_failed m"
  then show "\<not> ndebug cfg" "m = px_samples dst"
    by (auto simp: fz_paint_pixmap_def Let_def split: if_splits dest: paint_pixmap_in_assert)
next
  fix m
  assume a: "fz_paint_pixmap_with_mask cfg dst src msk = Assertion_failed m"
  then show "\<not> ndebug cfg" "m = px_samples dst" "px_n dst \<noteq> px_n src \<or> px_n msk \<noteq> 1"
    by (auto simp: fz_paint_pixmap_with_mask_def Let_def paint_pixmap_with_mask_rows_no_assert
          split: if_splits option.splits)
qed

theorem C9_witness:
  "\<not> ndebug \<lparr>plotters_g = True, plotters_rgb = True, plotters_cmyk = True, plotters_n = True,
          arch_unaligned_ok = False, isbigendian = False, ndebug = False\<rparr>
   \<and> (3::int) - 0 \<noteq> 1 - 0
   \<and> fz_paint_pixmap
        \<lparr>plotters_g = True, plotters_rgb = True, plotters_cmyk = True, plotters_n = True,
          arch_unaligned_ok = False, isbigendian = False, ndebug = False\<rparr>
        \<lparr>px_x = 0, px_y = 0, px_w = 2, px_h = 1, px_n = 3, px_alpha = 0, px_stride = 6,
          px_samples = mem_of [1, 2, 3, 4, 5, 6], px_colorspace = Some (Colorspace 0)\<rparr>
        \<lparr>px_x = 0, px_y = 0, px_w = 2, px_h = 1, px_n = 1, px_alpha = 0, px_stride = 2,
          px_samples = mem_of [9, 9], px_colorspace = Some (Colorspace 1)\<rparr>
        255
      = Assertion_failed (mem_of [1, 2, 3, 4, 5, 6])
   \<and> (3::int) \<noteq> 1
   \<and> fz_paint_pixmap_with_mask
        \<lparr>plotters_g = True, plotters_rgb = True, plotters_cmyk = True, plotters_n = True,
          arch_unaligned_ok = False, isbigendian = False, ndebug = False\<rparr>
        \<lparr>px_x = 0, px_y = 0, px_w = 2, px_h = 1, px_n = 3, px_alpha = 0, px_stride = 6,
          px_samples = mem_of [1, 2, 3, 4, 5, 6], px_colorspace = Some (Colorspace 0)\<rparr>
        \<lparr>px_x = 0, px_y = 0, px_w = 2, px_h = 1, px_n = 1, px_alpha = 0, px_stride = 2,
          px_samples = mem_of [9, 9], px_colorspace = Some (Colorspace 1)\<rparr>
        \<lparr>px_x = 0, px_y = 0, px_w = 2, px_h = 1, px_n = 1, px_alpha = 0, px_stride = 2,
          px_samples = mem_of [255, 255], px_colorspace = None\<rparr>
      = Assertion_failed (mem_of [1, 2, 3, 4, 5, 6])"
  using C9_pixmap_painters_reject_shape_mismatch
    [of "\<lparr>plotters_g = True, plotters_rgb = True, plotters_cmyk = True, plotters_n = True,
          arch_unaligned_ok = False, isbigendian = False, ndebug = False\<rparr>"
        "\<lparr>px_x = 0, px_y = 0, px_w = 2, px_h = 1, px_n = 3, px_alpha = 0, px_stride = 6,
          px_samples = mem_of [1, 2, 3, 4, 5, 6], px_colorspace = Some (Colorspace 0)\<rparr>"
        "\<lparr>px_x = 0, px_y = 0, px_w = 2, px_h = 1, px_n = 1, px_alpha = 0, px_stride = 2,
          px_samples = mem_of [9, 9], px_colorspace = Some (Colorspace 1)\<rparr>"
        255
        "\<lparr>px_x = 0, px_y = 0, px_w = 2, px_h = 1, px_n = 1, px_alpha = 0, px_stride = 2,
          px_samples = mem_of [255, 255], px_colorspace = None\<rparr>"]
  by simp

text \<open>
  C10. For a destination with a colourspace and a colour whose alpha byte \<open>colorbv[n]\<close> is
  0, where \<open>n = dst.n - dst.alpha\<close>, \<open>fz_paint_glyph\<close> calls neither
  \<open>fz_paint_glyph_solid\<close> nor \<open>fz_paint_glyph_alpha\<close>, whatever the generated painters
  are: with \<open>n > 0\<close> it returns with the destination samples as they were (and with
  \<open>n \<le> 0\<close> its assert fails, the samples equally untouched, unless the build has
  \<^verbatim>\<open>NDEBUG\<close>, where it returns as for \<open>n > 0\<close>).
\<close>

theorem C10_paint_glyph_zero_alpha_no_write:
  assumes "px_colorspace dst \<noteq> None"
    and "load colorbv (px_n dst - px_alpha dst) = 0"
  shows "(px_n dst - px_alpha dst > 0 \<or> ndebug cfg \<longrightarrow>
            fz_paint_glyph cfg gp colorbv dst dp glyph w h skip_x skip_y
              = Returned (px_samples dst))
         \<and> (\<not> px_n dst - px_alpha dst > 0 \<and> \<not> ndebug cfg \<longrightarrow>
            fz_paint_glyph cfg gp colorbv dst dp glyph w h skip_x skip_y
              = Assertion_failed (px_samples dst))"
  using assms by (auto simp: fz_paint_glyph_def Let_def)

theorem C10_witness:
  "Some (Colorspace 0) \<noteq> None
   \<and> load (mem_of [10, 20, 30, 0]) (4 - 1) = 0
   \<and> (4::int) - 1 > 0
   \<and> fz_paint_glyph
        \<lparr>plotters_g = True, plotters_rgb = True, plotters_cmyk = True, plotters_n = True,
          arch_unaligned_ok = False, isbigendian = False, ndebug = False\<rparr>
        (glyph_painters.make
          (\<lambda>c sp d dp g w h sx sy. None) (\<lambda>c sp d dp g w h sx sy. None)
          (\<lambda>c sp d dp g w h sx sy. None) (\<lambda>c sp d dp g w h sx sy. None)
          (\<lambda>c sp d dp g w h sx sy. None) (\<lambda>c sp d dp g w h sx sy. None)
          (\<lambda>c n sp d dp g w h sx sy. None) (\<lambda>c n sp d dp g w h sx sy. None)
          (\<lambda>c sp d dp g w h sx sy. None) (\<lambda>c sp d dp g w h sx sy. None)
          (\<lambda>c sp d dp g w h sx sy. None) (\<lambda>c sp d dp g w h sx sy. None)
          (\<lambda>c sp d dp g w h sx sy. None) (\<lambda>c sp d dp g w h sx sy. None)
          (\<lambda>c n sp d dp g w h sx sy. None) (\<lambda>c n sp d dp g w h sx sy. None))
        (mem_of [10, 20, 30, 0])
        \<lparr>px_x = 0, px_y = 0, px_w = 2, px_h = 1, px_n = 4, px_alpha = 1, px_stride = 8,
          px_samples = mem_of [1, 2, 3, 4, 5, 6, 7, 8], px_colorspace = Some (Colorspace 0)\<rparr>
        0 [4, 0, 0, 0, 22] 2 1 0 0
      = Returned (mem_of [1, 2, 3, 4, 5, 6, 7, 8])"
  using C10_paint_glyph_zero_alpha_no_write
    [of "\<lparr>px_x = 0, px_y = 0, px_w = 2, px_h = 1, px_n = 4, px_alpha = 1, px_stride = 8,
          px_samples = mem_of [1, 2, 3, 4, 5, 6, 7, 8], px_colorspace = Some (Colorspace 0)\<rparr>"
        "mem_of [10, 20, 30, 0]"
        "\<lparr>plotters_g = True, plotters_rgb = True, plotters_cmyk = True, plotters_n = True,
          arch_unaligned_ok = False, isbigendian = False, ndebug = False\<rparr>"
        "glyph_painters.make
          (\<lambda>c sp d dp g w h sx sy. None) (\<lambda>c sp d dp g w h sx sy. None)
          (\<lambda>c sp d dp g w h sx sy. None) (\<lambda>c sp d dp g w h sx sy. None)
          (\<lambda>c sp d dp g w h sx sy. None) (\<lambda>c sp d dp g w h sx sy. None)
          (\<lambda>c n sp d dp g w h sx sy. None) (\<lambda>c n sp d dp g w h sx sy. None)
          (\<lambda>c sp d dp g w h sx sy. None) (\<lambda>c sp d dp g w h sx sy. None)
          (\<lambda>c sp d dp g w h sx sy. None) (\<lambda>c sp d dp g w h sx sy. None)
          (\<lambda>c sp d dp g w h sx sy. None) (\<lambda>c sp d dp g w h sx sy. None)
          (\<lambda>c n sp d dp g w h sx sy. None) (\<lambda>c n sp d dp g w h sx sy. None)"
        0 "[4, 0, 0, 0, 22]" 2 1 0 0]
  by (simp add: load_def mem_of_def)

subsection \<open>Arithmetic of the blend primitives\<close>

lemma load_bounds [simp]: "0 \<le> load m a" "load m a < 256" "load m a \<le> 255"
proof -
  have "uint (m a) < 2 ^ 8" using uint_bounded [of "m a"] by simp
  then show "load m a < 256" "load m a \<le> 255" by (simp_all add: load_def)
  show "0 \<le> load m a" by (simp add: load_def)
qed

lemma store_load_same [simp]: "store d a (load d a) = d"
  by (simp add: store_def load_def)

lemma FZ_BLEND_zero [simp]: "FZ_BLEND c x 0 = x"
  by (simp add: FZ_BLEND_def FZ_COMBINE_def)

lemma FZ_COMBINE_256 [simp]: "FZ_COMBINE x 256 = x"
  by (simp add: FZ_COMBINE_def)

lemma FZ_EXPAND_255 [simp]: "FZ_EXPAND 255 = 256"
  by (simp add: FZ_EXPAND_def)

lemma FZ_EXPAND_eq_0 [simp]: "0 \<le> x \<Longrightarrow> FZ_EXPAND x = 0 \<longleftrightarrow> x = 0"
proof -
  assume x: "0 \<le> x"
  then have "0 \<le> x div 128" by simp
  with x show ?thesis unfolding FZ_EXPAND_def by auto
qed

lemma FZ_EXPAND_ge: "0 \<le> x \<Longrightarrow> x \<le> FZ_EXPAND x"
  by (simp add: FZ_EXPAND_def)

lemma FZ_EXPAND_nonneg: "0 \<le> x \<Longrightarrow> 0 \<le> FZ_EXPAND x"
  by (simp add: FZ_EXPAND_def)

lemma FZ_EXPAND_eq_256: "0 \<le> x \<Longrightarrow> x \<le> 255 \<Longrightarrow> FZ_EXPAND x = 256 \<longleftrightarrow> x = 255"
  unfolding FZ_EXPAND_def by (cases "x < 128") auto

text \<open>A weight that is zero stays zero when its first factor shrinks.\<close>

lemma FZ_COMBINE_zero_mono:
  assumes "FZ_COMBINE b w = 0" and "0 \<le> a" and "a \<le> b" and "0 \<le> w"
  shows "FZ_COMBINE a w = 0"
proof -
  from assms have "0 \<le> b * w" by simp
  with assms(1) have "b * w < 256"
    unfolding FZ_COMBINE_def by (auto simp: zdiv_eq_0_iff)
  moreover from assms have "a * w \<le> b * w" by (simp add: mult_right_mono)
  moreover from assms have "0 \<le> a * w" by simp
  ultimately show ?thesis
    unfolding FZ_COMBINE_def by simp
qed

lemma for_k_id: "for_k k hi (\<lambda>k d. d) d = (if k < hi then hi else k, d)"
proof (induction k hi "\<lambda>(k::int) (d::'a). d" d rule: for_k.induct)
  case (1 k hi d)
  show ?case
  proof (cases "k < hi")
    case True
    then show ?thesis using 1 by (subst for_k.simps) auto
  next
    case False
    then show ?thesis by (simp add: for_k.simps)
  qed
qed

text \<open>
  A pixel loop whose body, at each of the \<open>w\<close> pixel positions, leaves the destination as
  it is and moves the pointers on, returns the destination unchanged.
\<close>

lemma do_while_dec_unchanged:
  assumes w: "1 \<le> w"
    and step: "\<And>i. 0 \<le> i \<Longrightarrow> i < w \<Longrightarrow> body (d, pos i) = (d, pos (i + 1))"
  shows "map_option fst (do_while_dec body w (d, pos 0)) = Some d"
proof -
  have "\<exists>s'. do_while_dec body w (d, pos 0) = Some s' \<and> s' = (d, pos w)"
    by (rule do_while_dec_rule [where I = "\<lambda>i st. st = (d, pos i)", OF w])
       (simp_all add: step)
  then show ?thesis by auto
qed

lemma do_while_dec_opt_unchanged:
  assumes w: "1 \<le> w"
    and step: "\<And>i. 0 \<le> i \<Longrightarrow> i < w \<Longrightarrow> body (d, pos i) = Some (d, pos (i + 1))"
  shows "map_option fst (do_while_dec_opt body w (d, pos 0)) = Some d"
proof -
  have "do_while_dec_opt body (w - j) (d, pos j) = Some (d, pos w)"
    if "0 \<le> j" "j < w" for j
    using that
  proof (induction "nat (w - j)" arbitrary: j)
    case 0
    then show ?case by simp
  next
    case (Suc k)
    show ?case
    proof (cases "w - j = 1")
      case True
      then have "j + 1 = w" by simp
      with Suc.prems True show ?thesis
        by (subst do_while_dec_opt.simps) (simp add: step)
    next
      case False
      with Suc.hyps(2) Suc.prems have k: "k = nat (w - (j + 1))" "0 \<le> j + 1" "j + 1 < w"
        by auto
      from Suc.hyps(1) [OF k] False Suc.prems show ?thesis
        by (subst do_while_dec_opt.simps) (simp add: step diff_diff_eq)
    qed
  qed
  from this [of 0] w show ?thesis by simp
qed

lemma while_dec_funpow: "0 \<le> k \<Longrightarrow> while_dec k body s = Some ((body ^^ nat k) s)"
proof (induction k body s rule: while_dec.induct)
  case (1 k body s)
  show ?case
  proof (cases "k = 0")
    case True
    then show ?thesis by (simp add: while_dec.simps)
  next
    case False
    with "1.prems" have k: "0 < k" by simp
    then have n: "nat k = Suc (nat (k - 1))" by simp
    from k have "while_dec k body s = while_dec (k - 1) body (body s)"
      by (subst while_dec.simps) simp
    also from k have "\<dots> = Some ((body ^^ nat (k - 1)) (body s))"
      by (intro "1.IH") auto
    finally show ?thesis
      by (simp only: n funpow_Suc_right o_apply)
  qed
qed

subsection \<open>Zero weight: span with solid colour\<close>

lemma span_with_color_N_general_zero:
  assumes w: "1 \<le> w"
    and z: "\<And>i. 0 \<le> i \<Longrightarrow> i < w \<Longrightarrow>
       FZ_COMBINE (FZ_EXPAND (load m (mp + i))) (FZ_EXPAND (load color (n - da))) = 0"
  shows "template_span_with_color_N_general d dp m mp n w color da = Some d"
proof -
  let ?sa = "FZ_EXPAND (load color (n - da))"
  show ?thesis
  proof (cases "?sa = 0")
    case True
    then show ?thesis by (simp add: template_span_with_color_N_general_def Let_def)
  next
    case sa0: False
    show ?thesis
    proof (cases "?sa = 256")
      case True
      have "map_option fst (do_while_dec (span_with_color_N_general_opaque m n color da (n - da)) w
              (d, (\<lambda>i. (dp + i * n, mp + i)) 0)) = Some d"
      proof (rule do_while_dec_unchanged [OF w])
        fix i :: int
        assume i: "0 \<le> i" "i < w"
        from z [OF i] True have "load m (mp + i) = 0" by simp
        then show "span_with_color_N_general_opaque m n color da (n - da) (d, dp + i * n, mp + i)
            = (d, dp + (i + 1) * n, mp + (i + 1))"
          by (simp add: span_with_color_N_general_opaque_def distrib_right)
      qed
      with True show ?thesis
        by (simp add: template_span_with_color_N_general_def Let_def)
    next
      case False
      have "map_option fst (do_while_dec (span_with_color_N_general_alpha m n color da (n - da) ?sa) w
              (d, (\<lambda>i. (dp + i * n, mp + i)) 0)) = Some d"
      proof (rule do_while_dec_unchanged [OF w])
        fix i :: int
        assume i: "0 \<le> i" "i < w"
        show "span_with_color_N_general_alpha m n color da (n - da) ?sa (d, dp + i * n, mp + i)
            = (d, dp + (i + 1) * n, mp + (i + 1))"
          by (simp add: span_with_color_N_general_alpha_def z [OF i] for_k_id distrib_right)
      qed
      with sa0 False show ?thesis
        by (simp add: template_span_with_color_N_general_def Let_def)
    qed
  qed
qed


lemma span_with_color_1_da_zero:
  assumes w: "1 \<le> w"
    and z: "\<And>i. 0 \<le> i \<Longrightarrow> i < w \<Longrightarrow>
       FZ_COMBINE (FZ_EXPAND (load m (mp + i))) (FZ_EXPAND (load color 1)) = 0"
  shows "template_span_with_color_1_da d dp m mp n w color da = Some d"
proof -
  let ?sa = "FZ_EXPAND (load color 1)"
  show ?thesis
  proof (cases "?sa = 256")
    case True
    have "map_option fst (do_while_dec (span_with_color_1_da_opaque m (load color 0)) w
            (d, (\<lambda>i. (dp + i * 2, mp + i)) 0)) = Some d"
    proof (rule do_while_dec_unchanged [OF w])
      fix i :: int
      assume i: "0 \<le> i" "i < w"
      from z [OF i] True have "load m (mp + i) = 0" by simp
      then show "span_with_color_1_da_opaque m (load color 0) (d, dp + i * 2, mp + i)
          = (d, dp + (i + 1) * 2, mp + (i + 1))"
        by (simp add: span_with_color_1_da_opaque_def)
    qed
    with True show ?thesis
      by (simp add: template_span_with_color_1_da_def Let_def)
  next
    case False
    have "map_option fst (do_while_dec (span_with_color_1_da_alpha m (load color 0) ?sa) w
            (d, (\<lambda>i. (dp + i * 2, mp + i)) 0)) = Some d"
    proof (rule do_while_dec_unchanged [OF w])
      fix i :: int
      assume i: "0 \<le> i" "i < w"
      show "span_with_color_1_da_alpha m (load color 0) ?sa (d, dp + i * 2, mp + i)
          = (d, dp + (i + 1) * 2, mp + (i + 1))"
        by (simp add: span_with_color_1_da_alpha_def z [OF i] Let_def)
    qed
    with False show ?thesis
      by (simp add: template_span_with_color_1_da_def Let_def)
  qed
qed

lemma span_with_color_3_da_zero:
  assumes w: "1 \<le> w"
    and z: "\<And>i. 0 \<le> i \<Longrightarrow> i < w \<Longrightarrow>
       FZ_COMBINE (FZ_EXPAND (load m (mp + i))) (FZ_EXPAND (load color 3)) = 0"
  shows "template_span_with_color_3_da cfg d dp m mp n w color da = Some d"
proof -
  let ?sa = "FZ_EXPAND (load color 3)"
  show ?thesis
  proof (cases "?sa = 0")
    case True
    then show ?thesis by (simp add: template_span_with_color_3_da_def Let_def)
  next
    case sa0: False
    show ?thesis
    proof (cases "?sa = 256")
      case True
      have "map_option fst (do_while_dec (span_with_color_3_da_opaque be m rgba rb ga) w
              (d, (\<lambda>i. (dp + i * 4, mp + i)) 0)) = Some d" for be rgba rb ga
      proof (rule do_while_dec_unchanged [OF w])
        fix i :: int
        assume i: "0 \<le> i" "i < w"
        from z [OF i] True have "load m (mp + i) = 0" by simp
        then show "span_with_color_3_da_opaque be m rgba rb ga (d, dp + i * 4, mp + i)
            = (d, dp + (i + 1) * 4, mp + (i + 1))"
          by (simp add: span_with_color_3_da_opaque_def)
      qed
      with True show ?thesis
        by (simp add: template_span_with_color_3_da_def Let_def)
    next
      case False
      have "map_option fst (do_while_dec (span_with_color_3_da_alpha be m rb ga ?sa) w
              (d, (\<lambda>i. (dp + i * 4, mp + i)) 0)) = Some d" for be rb ga
      proof (rule do_while_dec_unchanged [OF w])
        fix i :: int
        assume i: "0 \<le> i" "i < w"
        show "span_with_color_3_da_alpha be m rb ga ?sa (d, dp + i * 4, mp + i)
            = (d, dp + (i + 1) * 4, mp + (i + 1))"
          by (simp add: span_with_color_3_da_alpha_def z [OF i] Let_def)
      qed
      with sa0 False show ?thesis
        by (simp add: template_span_with_color_3_da_def Let_def)
    qed
  qed
qed

lemma span_with_color_4_da_blend_zero [simp]: "span_with_color_4_da_blend c m' y k 0 d dp = d"
  by (simp add: span_with_color_4_da_blend_def)

lemma span_with_color_4_da_zero:
  assumes w: "1 \<le> w"
    and z: "\<And>i. 0 \<le> i \<Longrightarrow> i < w \<Longrightarrow>
       FZ_COMBINE (FZ_EXPAND (load m (mp + i))) (FZ_EXPAND (load color 4)) = 0"
  shows "template_span_with_color_4_da d dp m mp n w color da = Some d"
proof -
  let ?sa = "FZ_EXPAND (load color 4)"
  show ?thesis
  proof (cases "?sa = 256")
    case True
    have "map_option fst (do_while_dec (span_with_color_4_da_opaque m c m' y k) w
            (d, (\<lambda>i. (dp + i * 5, mp + i)) 0)) = Some d" for c m' y k
    proof (rule do_while_dec_unchanged [OF w])
      fix i :: int
      assume i: "0 \<le> i" "i < w"
      from z [OF i] True have "load m (mp + i) = 0" by simp
      then show "span_with_color_4_da_opaque m c m' y k (d, dp + i * 5, mp + i)
          = (d, dp + (i + 1) * 5, mp + (i + 1))"
        by (simp add: span_with_color_4_da_opaque_def)
    qed
    with True show ?thesis
      by (simp add: template_span_with_color_4_da_def Let_def)
  next
    case False
    have "map_option fst (do_while_dec (span_with_color_4_da_alpha m c m' y k ?sa) w
            (d, (\<lambda>i. (dp + i * 5, mp + i)) 0)) = Some d" for c m' y k
    proof (rule do_while_dec_unchanged [OF w])
      fix i :: int
      assume i: "0 \<le> i" "i < w"
      show "span_with_color_4_da_alpha m c m' y k ?sa (d, dp + i * 5, mp + i)
          = (d, dp + (i + 1) * 5, mp + (i + 1))"
        by (simp add: span_with_color_4_da_alpha_def z [OF i] Let_def)
    qed
    with False show ?thesis
      by (simp add: template_span_with_color_4_da_def Let_def)
  qed
qed

text \<open>Every painter that \<open>fz_get_span_color_painter\<close> can return.\<close>

lemma span_color_painter_zero:
  assumes sel: "fz_get_span_color_painter cfg n da color = Some fn"
    and da: "da = 0 \<or> da = 1"
    and w: "1 \<le> w"
    and z: "\<And>i. 0 \<le> i \<Longrightarrow> i < w \<Longrightarrow>
       FZ_COMBINE (FZ_EXPAND (load m (mp + i))) (FZ_EXPAND (load color (n - da))) = 0"
  shows "fn d dp m mp n w color da = Some d"
proof -
  have N: "template_span_with_color_N_general d dp m mp n' w color da' = Some d"
    if "n' - da' = n - da" for n' da'
    using that by (intro span_with_color_N_general_zero [OF w]) (simp add: z)
  have c1: "template_span_with_color_1_da d dp m mp 2 w color 1 = Some d" if "n - da = 1"
    using that by (intro span_with_color_1_da_zero [OF w]) (use z in simp)
  have c3: "template_span_with_color_3_da cfg d dp m mp 4 w color 1 = Some d" if "n - da = 3"
    using that by (intro span_with_color_3_da_zero [OF w]) (use z in simp)
  have c4: "template_span_with_color_4_da d dp m mp 5 w color 1 = Some d" if "n - da = 4"
    using that by (intro span_with_color_4_da_zero [OF w]) (use z in simp)
  from sel da show ?thesis
    by (auto simp: fz_get_span_color_painter_def
        paint_span_with_color_0_da_def paint_span_with_color_1_def paint_span_with_color_1_da_def
        paint_span_with_color_3_def paint_span_with_color_3_da_def
        paint_span_with_color_4_def paint_span_with_color_4_da_def
        paint_span_with_color_N_def paint_span_with_color_N_da_def
        N c1 c3 c4 split: if_splits)
qed

subsection \<open>Zero weight: span with mask\<close>

lemma span_with_mask_1_general_zero:
  assumes w: "1 \<le> w"
    and z: "\<And>i. 0 \<le> i \<Longrightarrow> i < w \<Longrightarrow> load m (mp + i) = 0"
  shows "template_span_with_mask_1_general d dp da s sp sa m mp w = Some d"
proof -
  have "map_option fst (do_while_dec (span_with_mask_1_general_px da s sa m) w
          (d, (\<lambda>i. (dp + i * (1 + da), sp + i * (1 + sa), mp + i)) 0)) = Some d"
  proof (rule do_while_dec_unchanged [OF w])
    fix i :: int
    assume i: "0 \<le> i" "i < w"
    show "span_with_mask_1_general_px da s sa m (d, dp + i * (1 + da), sp + i * (1 + sa), mp + i)
        = (d, dp + (i + 1) * (1 + da), sp + (i + 1) * (1 + sa), mp + (i + 1))"
      by (simp add: span_with_mask_1_general_px_def z [OF i] distrib_right)
  qed
  then show ?thesis by (simp add: template_span_with_mask_1_general_def)
qed

lemma span_with_mask_3_general_zero:
  assumes w: "1 \<le> w"
    and z: "\<And>i. 0 \<le> i \<Longrightarrow> i < w \<Longrightarrow> load m (mp + i) = 0"
  shows "template_span_with_mask_3_general be d dp da s sp sa m mp w = Some d"
proof -
  have "map_option fst (do_while_dec (span_with_mask_3_general_px be da s sa m) w
          (d, (\<lambda>i. (dp + i * (3 + da), sp + i * (3 + sa), mp + i)) 0)) = Some d"
  proof (rule do_while_dec_unchanged [OF w])
    fix i :: int
    assume i: "0 \<le> i" "i < w"
    show "span_with_mask_3_general_px be da s sa m (d, dp + i * (3 + da), sp + i * (3 + sa), mp + i)
        = (d, dp + (i + 1) * (3 + da), sp + (i + 1) * (3 + sa), mp + (i + 1))"
      by (simp add: span_with_mask_3_general_px_def z [OF i] distrib_right)
  qed
  then show ?thesis by (simp add: template_span_with_mask_3_general_def)
qed

lemma span_with_mask_4_general_zero:
  assumes w: "1 \<le> w"
    and z: "\<And>i. 0 \<le> i \<Longrightarrow> i < w \<Longrightarrow> load m (mp + i) = 0"
  shows "template_span_with_mask_4_general d dp da s sp sa m mp w = Some d"
proof -
  have "map_option fst (do_while_dec (span_with_mask_4_general_px da s sa m) w
          (d, (\<lambda>i. (dp + i * (4 + da), sp + i * (4 + sa), mp + i)) 0)) = Some d"
  proof (rule do_while_dec_unchanged [OF w])
    fix i :: int
    assume i: "0 \<le> i" "i < w"
    show "span_with_mask_4_general_px da s sa m (d, dp + i * (4 + da), sp + i * (4 + sa), mp + i)
        = (d, dp + (i + 1) * (4 + da), sp + (i + 1) * (4 + sa), mp + (i + 1))"
      by (simp add: span_with_mask_4_general_px_def z [OF i] distrib_right)
  qed
  then show ?thesis by (simp add: template_span_with_mask_4_general_def)
qed

lemma span_with_mask_N_general_zero:
  assumes w: "1 \<le> w"
    and z: "\<And>i. 0 \<le> i \<Longrightarrow> i < w \<Longrightarrow> load m (mp + i) = 0"
  shows "template_span_with_mask_N_general d dp da s sp sa m mp n w = Some d"
proof -
  have "map_option fst (do_while_dec_opt (span_with_mask_N_general_px da s sa m n) w
          (d, (\<lambda>i. (dp + i * (n + da), sp + i * (n + sa), mp + i)) 0)) = Some d"
  proof (rule do_while_dec_opt_unchanged [OF w])
    fix i :: int
    assume i: "0 \<le> i" "i < w"
    show "span_with_mask_N_general_px da s sa m n (d, dp + i * (n + da), sp + i * (n + sa), mp + i)
        = Some (d, dp + (i + 1) * (n + da), sp + (i + 1) * (n + sa), mp + (i + 1))"
      by (simp add: span_with_mask_N_general_px_def z [OF i] distrib_right)
  qed
  then show ?thesis by (simp add: template_span_with_mask_N_general_def)
qed

text \<open>Every painter that \<open>fz_get_span_mask_painter\<close> can return.\<close>

lemma span_mask_painter_zero:
  assumes sel: "fz_get_span_mask_painter cfg da sa n = Some fn"
    and w: "1 \<le> w"
    and z: "\<And>i. 0 \<le> i \<Longrightarrow> i < w \<Longrightarrow> load m (mp + i) = 0"
  shows "fn d dp da s sp sa m mp n w = Some d"
proof -
  note t = span_with_mask_1_general_zero [OF w z] span_with_mask_3_general_zero [OF w z]
    span_with_mask_4_general_zero [OF w z] span_with_mask_N_general_zero [OF w z]
  from sel show ?thesis
    by (auto simp: fz_get_span_mask_painter_def span_mask_fallback_def Let_def
        paint_span_with_mask_0_da_sa_def paint_span_with_mask_0_da_def
        paint_span_with_mask_1_da_sa_def paint_span_with_mask_1_def
        paint_span_with_mask_1_da_def paint_span_with_mask_1_sa_def
        paint_span_with_mask_3_da_sa_def paint_span_with_mask_3_da_def
        paint_span_with_mask_3_sa_def paint_span_with_mask_3_def
        paint_span_with_mask_4_da_sa_def paint_span_with_mask_4_da_def
        paint_span_with_mask_4_sa_def paint_span_with_mask_4_def
        paint_span_with_mask_N_da_sa_def paint_span_with_mask_N_da_def
        paint_span_with_mask_N_sa_def paint_span_with_mask_N_def
        t split: if_splits)
qed

subsection \<open>Zero weight: span over destination\<close>

lemma blend_byte_zero [simp]: "blend_byte s 0 (d, dp, sp) = (d, dp + 1, sp + 1)"
  by (simp add: blend_byte_def)

lemma blend_alpha_zero [simp]:
  "blend_alpha s da sa 0 (d, dp, sp) =
     (d, if da \<noteq> 0 then dp + 1 else dp, if sa \<noteq> 0 then sp + 1 else sp)"
  by (simp add: blend_alpha_def)

lemma blend_byte_zero_funpow:
  "(blend_byte s 0 ^^ k) (d, dp, sp) = (d, dp + int k, sp + int k)"
  by (induction k) simp_all

lemma while_dec_blend_byte_zero:
  "0 \<le> n \<Longrightarrow> while_dec n (blend_byte s 0) (d, dp, sp) = Some (d, dp + n, sp + n)"
  by (simp add: while_dec_funpow blend_byte_zero_funpow)

lemma span_1_with_alpha_general_zero:
  assumes w: "1 \<le> w" and da: "da = 0 \<or> da = 1"
    and z: "\<And>i. 0 \<le> i \<Longrightarrow> i < w \<Longrightarrow>
       FZ_COMBINE (load s (sp + i * 2 + 1)) (FZ_EXPAND alpha) = 0"
  shows "template_span_1_with_alpha_general d dp da s sp 1 w alpha = Some d"
proof -
  have "map_option fst (do_while_dec (span_1_with_alpha_general_px da s 1 (FZ_EXPAND alpha)) w
          (d, (\<lambda>i. (dp + i * (1 + da), sp + i * 2)) 0)) = Some d"
  proof (rule do_while_dec_unchanged [OF w])
    fix i :: int
    assume i: "0 \<le> i" "i < w"
    from da show "span_1_with_alpha_general_px da s 1 (FZ_EXPAND alpha)
          (d, dp + i * (1 + da), sp + i * 2)
        = (d, dp + (i + 1) * (1 + da), sp + (i + 1) * 2)"
      by (auto simp: span_1_with_alpha_general_px_def z [OF i] distrib_right)
  qed
  then show ?thesis by (simp add: template_span_1_with_alpha_general_def)
qed

lemma span_3_with_alpha_general_zero:
  assumes w: "1 \<le> w" and da: "da = 0 \<or> da = 1"
    and z: "\<And>i. 0 \<le> i \<Longrightarrow> i < w \<Longrightarrow>
       FZ_COMBINE (load s (sp + i * 4 + 3)) (FZ_EXPAND alpha) = 0"
  shows "template_span_3_with_alpha_general d dp da s sp 1 w alpha = Some d"
proof -
  have "map_option fst (do_while_dec (span_3_with_alpha_general_px da s 1 (FZ_EXPAND alpha)) w
          (d, (\<lambda>i. (dp + i * (3 + da), sp + i * 4)) 0)) = Some d"
  proof (rule do_while_dec_unchanged [OF w])
    fix i :: int
    assume i: "0 \<le> i" "i < w"
    from da show "span_3_with_alpha_general_px da s 1 (FZ_EXPAND alpha)
          (d, dp + i * (3 + da), sp + i * 4)
        = (d, dp + (i + 1) * (3 + da), sp + (i + 1) * 4)"
      by (auto simp: span_3_with_alpha_general_px_def z [OF i] distrib_right)
  qed
  then show ?thesis by (simp add: template_span_3_with_alpha_general_def)
qed

lemma span_4_with_alpha_general_zero:
  assumes w: "1 \<le> w" and da: "da = 0 \<or> da = 1"
    and z: "\<And>i. 0 \<le> i \<Longrightarrow> i < w \<Longrightarrow>
       FZ_COMBINE (load s (sp + i * 5 + 4)) (FZ_EXPAND alpha) = 0"
  shows "template_span_4_with_alpha_general d dp da s sp 1 w alpha = Some d"
proof -
  have "map_option fst (do_while_dec (span_4_with_alpha_general_px da s 1 (FZ_EXPAND alpha)) w
          (d, (\<lambda>i. (dp + i * (4 + da), sp + i * 5)) 0)) = Some d"
  proof (rule do_while_dec_unchanged [OF w])
    fix i :: int
    assume i: "0 \<le> i" "i < w"
    from da show "span_4_with_alpha_general_px da s 1 (FZ_EXPAND alpha)
          (d, dp + i * (4 + da), sp + i * 5)
        = (d, dp + (i + 1) * (4 + da), sp + (i + 1) * 5)"
      by (auto simp: span_4_with_alpha_general_px_def z [OF i] distrib_right)
  qed
  then show ?thesis by (simp add: template_span_4_with_alpha_general_def)
qed

lemma span_N_with_alpha_general_zero:
  assumes w: "1 \<le> w" and da: "da = 0 \<or> da = 1" and n: "0 \<le> n"
    and z: "\<And>i. 0 \<le> i \<Longrightarrow> i < w \<Longrightarrow>
       FZ_COMBINE (load s (sp + i * (n + 1) + n)) (FZ_EXPAND alpha) = 0"
  shows "template_span_N_with_alpha_general d dp da s sp 1 n w alpha = Some d"
proof -
  have "map_option fst (do_while_dec_opt (span_N_with_alpha_general_px da s 1 n (FZ_EXPAND alpha)) w
          (d, (\<lambda>i. (dp + i * (n + da), sp + i * (n + 1))) 0)) = Some d"
  proof (rule do_while_dec_opt_unchanged [OF w])
    fix i :: int
    assume i: "0 \<le> i" "i < w"
    from da n show "span_N_with_alpha_general_px da s 1 n (FZ_EXPAND alpha)
          (d, dp + i * (n + da), sp + i * (n + 1))
        = Some (d, dp + (i + 1) * (n + da), sp + (i + 1) * (n + 1))"
      by (auto simp: span_N_with_alpha_general_px_def z [OF i] distrib_right
          while_dec_blend_byte_zero)
  qed
  then show ?thesis by (simp add: template_span_N_with_alpha_general_def)
qed

lemma span_1_general_zero:
  assumes w: "1 \<le> w"
    and z: "\<And>i. 0 \<le> i \<Longrightarrow> i < w \<Longrightarrow> load s (sp + i * 2 + 1) = 0"
  shows "template_span_1_general d dp da s sp 1 w = Some d"
proof -
  have "map_option fst (do_while_dec (span_1_general_px da s 1) w
          (d, (\<lambda>i. (dp + i * (1 + da), sp + i * 2)) 0)) = Some d"
  proof (rule do_while_dec_unchanged [OF w])
    fix i :: int
    assume i: "0 \<le> i" "i < w"
    show "span_1_general_px da s 1 (d, dp + i * (1 + da), sp + i * 2)
        = (d, dp + (i + 1) * (1 + da), sp + (i + 1) * 2)"
      by (simp add: span_1_general_px_def z [OF i] distrib_right)
  qed
  then show ?thesis by (simp add: template_span_1_general_def)
qed

lemma span_3_general_zero:
  assumes w: "1 \<le> w"
    and z: "\<And>i. 0 \<le> i \<Longrightarrow> i < w \<Longrightarrow> load s (sp + i * 4 + 3) = 0"
  shows "template_span_3_general be d dp da s sp 1 w = Some d"
proof -
  have "map_option fst (do_while_dec (span_3_general_px be da s 1) w
          (d, (\<lambda>i. (dp + i * (3 + da), sp + i * 4)) 0)) = Some d"
  proof (rule do_while_dec_unchanged [OF w])
    fix i :: int
    assume i: "0 \<le> i" "i < w"
    show "span_3_general_px be da s 1 (d, dp + i * (3 + da), sp + i * 4)
        = (d, dp + (i + 1) * (3 + da), sp + (i + 1) * 4)"
      by (simp add: span_3_general_px_def z [OF i] distrib_right)
  qed
  then show ?thesis by (simp add: template_span_3_general_def)
qed

lemma span_4_general_zero:
  assumes w: "1 \<le> w"
    and z: "\<And>i. 0 \<le> i \<Longrightarrow> i < w \<Longrightarrow> load s (sp + i * 5 + 4) = 0"
  shows "template_span_4_general d dp da s sp 1 w = Some d"
proof -
  have "map_option fst (do_while_dec (span_4_general_px da s 1) w
          (d, (\<lambda>i. (dp + i * (4 + da), sp + i * 5)) 0)) = Some d"
  proof (rule do_while_dec_unchanged [OF w])
    fix i :: int
    assume i: "0 \<le> i" "i < w"
    show "span_4_general_px da s 1 (d, dp + i * (4 + da), sp + i * 5)
        = (d, dp + (i + 1) * (4 + da), sp + (i + 1) * 5)"
      by (simp add: span_4_general_px_def z [OF i] distrib_right)
  qed
  then show ?thesis by (simp add: template_span_4_general_def)
qed

lemma span_N_general_zero:
  assumes w: "1 \<le> w"
    and z: "\<And>i. 0 \<le> i \<Longrightarrow> i < w \<Longrightarrow> load s (sp + i * (n + 1) + n) = 0"
  shows "template_span_N_general d dp da s sp 1 n w = Some d"
proof -
  have "map_option fst (do_while_dec_opt (span_N_general_px da s 1 n) w
          (d, (\<lambda>i. (dp + i * (n + da), sp + i * (n + 1))) 0)) = Some d"
  proof (rule do_while_dec_opt_unchanged [OF w])
    fix i :: int
    assume i: "0 \<le> i" "i < w"
    show "span_N_general_px da s 1 n (d, dp + i * (n + da), sp + i * (n + 1))
        = Some (d, dp + (i + 1) * (n + da), sp + (i + 1) * (n + 1))"
      by (simp add: span_N_general_px_def z [OF i] distrib_right)
  qed
  then show ?thesis by (simp add: template_span_N_general_def)
qed

lemma paint_span_0_da_sa_zero:
  assumes w: "1 \<le> w"
    and z: "\<And>i. 0 \<le> i \<Longrightarrow> i < w \<Longrightarrow> load s (sp + i) = 0"
  shows "paint_span_0_da_sa d dp da s sp sa n w alpha = Some d"
  unfolding paint_span_0_da_sa_def
proof -
  let ?body = "\<lambda>(d, dp, sp).
          let s' = load s sp; sp = sp + 1;
              t = FZ_EXPAND (255 - s');
              d = store d dp (s' + FZ_COMBINE (load d dp) t);
              dp = dp + 1
          in (d, dp, sp)"
  have "map_option fst (do_while_dec ?body w (d, (\<lambda>i. (dp + i, sp + i)) 0)) = Some d"
  proof (rule do_while_dec_unchanged [OF w])
    fix i :: int
    assume i: "0 \<le> i" "i < w"
    show "?body (d, dp + i, sp + i) = (d, dp + (i + 1), sp + (i + 1))"
      by (simp add: z [OF i])
  qed
  then show "map_option fst (do_while_dec ?body w (d, dp, sp)) = Some d" by simp
qed

lemma paint_span_0_da_sa_alpha_zero:
  assumes w: "1 \<le> w"
    and z: "\<And>i. 0 \<le> i \<Longrightarrow> i < w \<Longrightarrow> FZ_COMBINE (load s (sp + i)) (FZ_EXPAND alpha) = 0"
  shows "paint_span_0_da_sa_alpha d dp da s sp sa n w alpha = Some d"
  unfolding paint_span_0_da_sa_alpha_def Let_def
proof -
  let ?body = "\<lambda>(d, dp, sp).
           (store d dp (FZ_BLEND (load s sp) (load d dp)
                          (FZ_COMBINE (load s (sp + 0)) (FZ_EXPAND alpha))), dp + 1, sp + 1)"
  have "map_option fst (do_while_dec ?body w (d, (\<lambda>i. (dp + i, sp + i)) 0)) = Some d"
  proof (rule do_while_dec_unchanged [OF w])
    fix i :: int
    assume i: "0 \<le> i" "i < w"
    show "?body (d, dp + i, sp + i) = (d, dp + (i + 1), sp + (i + 1))"
      by (simp add: z [OF i])
  qed
  then show "map_option fst (do_while_dec ?body w (d, dp, sp)) = Some d" by simp
qed


text \<open>Every painter that \<open>fz_get_span_painter\<close> can return for a source with alpha.\<close>

lemma span_painter_zero:
  assumes sel: "fz_get_span_painter cfg da sa n alpha = Some fn"
    and sa: "sa \<noteq> 0" and n: "0 \<le> n" and w: "1 \<le> w"
    and z: "\<And>i. 0 \<le> i \<Longrightarrow> i < w \<Longrightarrow>
       FZ_COMBINE (FZ_EXPAND (load s (sp + i * (n + 1) + n))) (FZ_EXPAND alpha) = 0"
  shows "fn d dp da s sp sa n w alpha = Some d"
proof -
  have z0: "load s (sp + i * (n + 1) + n) = 0" if "alpha = 255" "0 \<le> i" "i < w" for i
    using z [OF that(2,3)] that(1) by simp
  have zc: "FZ_COMBINE (load s (sp + i * (n + 1) + n)) (FZ_EXPAND alpha) = 0"
    if "0 < alpha" "0 \<le> i" "i < w" for i
  proof (rule FZ_COMBINE_zero_mono [OF z [OF that(2,3)]])
    show "0 \<le> load s (sp + i * (n + 1) + n)" by simp
    show "load s (sp + i * (n + 1) + n) \<le> FZ_EXPAND (load s (sp + i * (n + 1) + n))"
      by (simp add: FZ_EXPAND_ge)
    from that(1) show "0 \<le> FZ_EXPAND alpha" by (simp add: FZ_EXPAND_nonneg)
  qed
  have G0: "paint_span_0_da_sa d dp da' s sp sa' n' w alpha' = Some d" if "alpha = 255" "n = 0"
    for da' sa' n' alpha'
    using z0 that by (intro paint_span_0_da_sa_zero [OF w]) simp
  have A0: "paint_span_0_da_sa_alpha d dp da' s sp sa' n' w alpha = Some d" if "0 < alpha" "n = 0"
    for da' sa' n'
    using zc that by (intro paint_span_0_da_sa_alpha_zero [OF w]) simp
  have G1: "template_span_1_general d dp da' s sp 1 w = Some d" if "alpha = 255" "n = 1" for da'
    using z0 that by (intro span_1_general_zero [OF w]) simp
  have G3: "template_span_3_general be d dp da' s sp 1 w = Some d" if "alpha = 255" "n = 3"
    for be da'
    using z0 that by (intro span_3_general_zero [OF w]) simp
  have G4: "template_span_4_general d dp da' s sp 1 w = Some d" if "alpha = 255" "n = 4" for da'
    using z0 that by (intro span_4_general_zero [OF w]) simp
  have GN: "template_span_N_general d dp da' s sp 1 n w = Some d" if "alpha = 255" for da'
    using z0 that by (intro span_N_general_zero [OF w]) simp
  have A1: "template_span_1_with_alpha_general d dp da' s sp 1 w alpha = Some d"
    if "0 < alpha" "n = 1" "da' = 0 \<or> da' = 1" for da'
    using zc that by (intro span_1_with_alpha_general_zero [OF w]) simp_all
  have A3: "template_span_3_with_alpha_general d dp da' s sp 1 w alpha = Some d"
    if "0 < alpha" "n = 3" "da' = 0 \<or> da' = 1" for da'
    using zc that by (intro span_3_with_alpha_general_zero [OF w]) simp_all
  have A4: "template_span_4_with_alpha_general d dp da' s sp 1 w alpha = Some d"
    if "0 < alpha" "n = 4" "da' = 0 \<or> da' = 1" for da'
    using zc that by (intro span_4_with_alpha_general_zero [OF w]) simp_all
  have AN: "template_span_N_with_alpha_general d dp da' s sp 1 n w alpha = Some d"
    if "0 < alpha" "da' = 0 \<or> da' = 1" for da'
    using zc that n by (intro span_N_with_alpha_general_zero [OF w]) simp_all
  from sel sa show ?thesis
    by (auto simp: fz_get_span_painter_def span_fallback_def by_alpha_def Let_def
        paint_span_1_sa_def paint_span_1_sa_alpha_def
        paint_span_1_da_sa_def paint_span_1_da_sa_alpha_def
        paint_span_3_sa_def paint_span_3_sa_alpha_def
        paint_span_3_da_sa_def paint_span_3_da_sa_alpha_def
        paint_span_4_sa_def paint_span_4_sa_alpha_def
        paint_span_4_da_sa_def paint_span_4_da_sa_alpha_def
        paint_span_N_sa_def paint_span_N_sa_alpha_def
        paint_span_N_da_sa_def paint_span_N_da_sa_alpha_def
        G0 A0 G1 G3 G4 GN A1 A3 A4 AN split: if_splits)
qed

lemma funpow_bind_fixed:
  "f d = Some d \<Longrightarrow> ((\<lambda>r. Option.bind r f) ^^ k) (Some d) = Some d"
  by (induction k) simp_all

subsection \<open>Span with mask: a source that is zero\<close>

lemma FZ_COMBINE_0 [simp]: "FZ_COMBINE 0 w = 0"
  by (simp add: FZ_COMBINE_def)

lemma over_byte_zero_src:
  "load s sp = 0 \<Longrightarrow> over_byte s 256 (d, dp, sp) = (d, dp + 1, sp + 1)"
  by (simp add: over_byte_def)

lemma over_alpha_mask_zero_src:
  "sa \<noteq> 0 \<Longrightarrow> load s sp = 0 \<Longrightarrow>
   over_alpha_mask s da sa 256 (d, dp, sp) = (d, if da \<noteq> 0 then dp + 1 else dp, sp + 1)"
  by (simp add: over_alpha_mask_def)

lemma combine2_byte_zero_src:
  "load s sp = 0 \<Longrightarrow> combine2_byte s ma 256 (d, dp, sp) = (d, dp + 1, sp + 1)"
  by (simp add: combine2_byte_def FZ_COMBINE2_def)

lemma combine2_alpha_zero_src:
  "load s sp = 0 \<Longrightarrow>
   combine2_alpha s da ma 256 (d, dp, sp) = (d, if da \<noteq> 0 then dp + 1 else dp, sp + 1)"
  by (simp add: combine2_alpha_def FZ_COMBINE2_def)

lemmas zero_src = over_byte_zero_src over_alpha_mask_zero_src combine2_byte_zero_src
  combine2_alpha_zero_src

lemma span_with_mask_1_general_zero_src:
  assumes w: "1 \<le> w" and da: "da = 0 \<or> da = 1"
    and z: "\<And>j. 0 \<le> j \<Longrightarrow> j < w * 2 \<Longrightarrow> load s (sp + j) = 0"
  shows "template_span_with_mask_1_general d dp da s sp 1 m mp w = Some d"
proof -
  have "map_option fst (do_while_dec (span_with_mask_1_general_px da s 1 m) w
          (d, (\<lambda>i. (dp + i * (1 + da), sp + i * 2, mp + i)) 0)) = Some d"
  proof (rule do_while_dec_unchanged [OF w])
    fix i :: int
    assume i: "0 \<le> i" "i < w"
    have Z: "load s a = 0" if "sp + i * 2 \<le> a" "a < sp + i * 2 + 2" for a
      using z [of "a - sp"] i that by simp
    from da show "span_with_mask_1_general_px da s 1 m (d, dp + i * (1 + da), sp + i * 2, mp + i)
        = (d, dp + (i + 1) * (1 + da), sp + (i + 1) * 2, mp + (i + 1))"
      by (auto simp: span_with_mask_1_general_px_def Let_def Z zero_src distrib_right)
  qed
  then show ?thesis by (simp add: template_span_with_mask_1_general_def)
qed


lemma span_with_mask_3_general_zero_src:
  assumes w: "1 \<le> w" and da: "da = 0 \<or> da = 1"
    and z: "\<And>j. 0 \<le> j \<Longrightarrow> j < w * 4 \<Longrightarrow> load s (sp + j) = 0"
  shows "template_span_with_mask_3_general be d dp da s sp 1 m mp w = Some d"
proof -
  have "map_option fst (do_while_dec (span_with_mask_3_general_px be da s 1 m) w
          (d, (\<lambda>i. (dp + i * (3 + da), sp + i * 4, mp + i)) 0)) = Some d"
  proof (rule do_while_dec_unchanged [OF w])
    fix i :: int
    assume i: "0 \<le> i" "i < w"
    have Z: "load s a = 0" if "sp + i * 4 \<le> a" "a < sp + i * 4 + 4" for a
      using z [of "a - sp"] i that by simp
    from da show "span_with_mask_3_general_px be da s 1 m (d, dp + i * (3 + da), sp + i * 4, mp + i)
        = (d, dp + (i + 1) * (3 + da), sp + (i + 1) * 4, mp + (i + 1))"
      by (auto simp: span_with_mask_3_general_px_def Let_def Z zero_src distrib_right)
  qed
  then show ?thesis by (simp add: template_span_with_mask_3_general_def)
qed

lemma span_with_mask_4_general_zero_src:
  assumes w: "1 \<le> w" and da: "da = 0 \<or> da = 1"
    and z: "\<And>j. 0 \<le> j \<Longrightarrow> j < w * 5 \<Longrightarrow> load s (sp + j) = 0"
  shows "template_span_with_mask_4_general d dp da s sp 1 m mp w = Some d"
proof -
  have "map_option fst (do_while_dec (span_with_mask_4_general_px da s 1 m) w
          (d, (\<lambda>i. (dp + i * (4 + da), sp + i * 5, mp + i)) 0)) = Some d"
  proof (rule do_while_dec_unchanged [OF w])
    fix i :: int
    assume i: "0 \<le> i" "i < w"
    have Z: "load s a = 0" if "sp + i * 5 \<le> a" "a < sp + i * 5 + 5" for a
      using z [of "a - sp"] i that by simp
    from da show "span_with_mask_4_general_px da s 1 m (d, dp + i * (4 + da), sp + i * 5, mp + i)
        = (d, dp + (i + 1) * (4 + da), sp + (i + 1) * 5, mp + (i + 1))"
      by (auto simp: span_with_mask_4_general_px_def Let_def Z zero_src distrib_right)
  qed
  then show ?thesis by (simp add: template_span_with_mask_4_general_def)
qed

lemma funpow_zero_src:
  assumes step: "\<And>d dp sp. load s sp = 0 \<Longrightarrow> f (d, dp, sp) = (d, dp + 1, sp + 1)"
    and z: "\<And>j. j < k \<Longrightarrow> load s (sp + int j) = 0"
  shows "(f ^^ k) (d, dp, sp) = (d, dp + int k, sp + int k)"
  using z
proof (induction k)
  case 0
  then show ?case by simp
next
  case (Suc k)
  then have "(f ^^ k) (d, dp, sp) = (d, dp + int k, sp + int k)" by simp
  moreover have "load s (sp + int k) = 0" using Suc.prems [of k] by simp
  ultimately show ?case by (simp add: step add.assoc)
qed

lemma while_dec_zero_src:
  assumes step: "\<And>d dp sp. load s sp = 0 \<Longrightarrow> f (d, dp, sp) = (d, dp + 1, sp + 1)"
    and n: "0 \<le> n"
    and z: "\<And>j. 0 \<le> j \<Longrightarrow> j < n \<Longrightarrow> load s (sp + j) = 0"
  shows "while_dec n f (d, dp, sp) = Some (d, dp + n, sp + n)"
proof -
  have "(f ^^ nat n) (d, dp, sp) = (d, dp + int (nat n), sp + int (nat n))"
    by (rule funpow_zero_src [OF step]) (use z in auto)
  with n show ?thesis by (simp add: while_dec_funpow)
qed

lemma span_with_mask_N_general_zero_src:
  assumes w: "1 \<le> w" and da: "da = 0 \<or> da = 1" and n: "0 \<le> n"
    and z: "\<And>j. 0 \<le> j \<Longrightarrow> j < w * (n + 1) \<Longrightarrow> load s (sp + j) = 0"
  shows "template_span_with_mask_N_general d dp da s sp 1 m mp n w = Some d"
proof -
  have "map_option fst (do_while_dec_opt (span_with_mask_N_general_px da s 1 m n) w
          (d, (\<lambda>i. (dp + i * (n + da), sp + i * (n + 1), mp + i)) 0)) = Some d"
  proof (rule do_while_dec_opt_unchanged [OF w])
    fix i :: int
    assume i: "0 \<le> i" "i < w"
    have le: "(i + 1) * (n + 1) \<le> w * (n + 1)"
      using i n by (intro mult_right_mono) auto
    have zi: "load s (sp + i * (n + 1) + j) = 0" if "0 \<le> j" "j \<le> n" for j
    proof -
      from i n that have "0 \<le> i * (n + 1) + j" by simp
      moreover from that le have "i * (n + 1) + j < w * (n + 1)"
        by (simp add: distrib_right)
      ultimately show ?thesis using z [of "i * (n + 1) + j"] by (simp add: add.assoc)
    qed
    have sn: "load s (sp + i * (n + 1) + n) = 0" using zi [of n] n by simp
    have o: "while_dec n (over_byte s 256) (d, dp', sp + i * (n + 1))
        = Some (d, dp' + n, sp + i * (n + 1) + n)" for dp'
      by (rule while_dec_zero_src [OF over_byte_zero_src n]) (use zi in auto)
    have c: "while_dec n (combine2_byte s ma 256) (d, dp', sp + i * (n + 1))
        = Some (d, dp' + n, sp + i * (n + 1) + n)" for dp' ma
      by (rule while_dec_zero_src [OF combine2_byte_zero_src n]) (use zi in auto)
    from da show "span_with_mask_N_general_px da s 1 m n
          (d, dp + i * (n + da), sp + i * (n + 1), mp + i)
        = Some (d, dp + (i + 1) * (n + da), sp + (i + 1) * (n + 1), mp + (i + 1))"
      by (auto simp: span_with_mask_N_general_px_def Let_def sn o c
          over_alpha_mask_zero_src combine2_alpha_zero_src distrib_right)
  qed
  then show ?thesis by (simp add: template_span_with_mask_N_general_def)
qed


text \<open>
  Every painter that \<open>fz_get_span_mask_painter\<close> can return for a source with alpha, on
  source pixels whose bytes are all 0 (alpha 0, colour premultiplied).
\<close>

lemma span_mask_painter_zero_src:
  assumes sel: "fz_get_span_mask_painter cfg da sa n = Some fn"
    and sa: "sa \<noteq> 0" and n: "0 \<le> n" and w: "1 \<le> w"
    and z: "\<And>j. 0 \<le> j \<Longrightarrow> j < w * (n + 1) \<Longrightarrow> load s (sp + j) = 0"
  shows "fn d dp da s sp sa m mp n w = Some d"
proof -
  have M0: "template_span_with_mask_N_general d dp da' s sp 1 m mp 0 w = Some d"
    if "n = 0" "da' = 0 \<or> da' = 1" for da'
    using z that by (intro span_with_mask_N_general_zero_src [OF w]) simp_all
  have M1: "template_span_with_mask_1_general d dp da' s sp 1 m mp w = Some d"
    if "n = 1" "da' = 0 \<or> da' = 1" for da'
    using z that by (intro span_with_mask_1_general_zero_src [OF w]) simp_all
  have M3: "template_span_with_mask_3_general be d dp da' s sp 1 m mp w = Some d"
    if "n = 3" "da' = 0 \<or> da' = 1" for be da'
    using z that by (intro span_with_mask_3_general_zero_src [OF w]) simp_all
  have M4: "template_span_with_mask_4_general d dp da' s sp 1 m mp w = Some d"
    if "n = 4" "da' = 0 \<or> da' = 1" for da'
    using z that by (intro span_with_mask_4_general_zero_src [OF w]) simp_all
  have MN: "template_span_with_mask_N_general d dp da' s sp 1 m mp n' w = Some d"
    if "n' = n" "da' = 0 \<or> da' = 1" for da' n'
    using z that n by (intro span_with_mask_N_general_zero_src [OF w]) simp_all
  from sel sa show ?thesis
    by (auto simp: fz_get_span_mask_painter_def span_mask_fallback_def Let_def
        paint_span_with_mask_0_da_sa_def
        paint_span_with_mask_1_da_sa_def paint_span_with_mask_1_sa_def
        paint_span_with_mask_3_da_sa_def paint_span_with_mask_3_sa_def
        paint_span_with_mask_4_da_sa_def paint_span_with_mask_4_sa_def
        paint_span_with_mask_N_da_sa_def paint_span_with_mask_N_sa_def
        M0 M1 M3 M4 MN split: if_splits)
qed

subsection \<open>Zero weight leaves the destination alone\<close>

text \<open>
  C7. Let \<open>w \<ge> 1\<close>. The weight of a pixel is what the spec calls the effective weight of
  each family of kernels:
  \<^item> span over (source with alpha): the source alpha byte of the pixel, expanded and
    combined with the expanded constant alpha; it is 0 in particular when the source
    alpha byte is 0;
  \<^item> span with mask: the coverage, that is the mask byte of the pixel;
  \<^item> span with solid colour: the expanded mask byte combined with the expanded alpha
    byte of the colour; it is 0 in particular when the mask byte or the colour alpha is 0.
  For every painter that \<open>fz_get_span_painter\<close>, \<open>fz_get_span_mask_painter\<close> or
  \<open>fz_get_span_color_painter\<close> returns, in every build configuration: if the weight of
  each of the \<open>w\<close> pixels is 0, the painter returns and the destination store is the one
  it was given, in every byte; hence any number \<open>k\<close> of such calls in a row leaves it
  unchanged. The same holds for the span-with-mask painters under any mask when the
  source pixels have alpha 0 and, being premultiplied, colour bytes 0 (store \<open>s0\<close>,
  mask \<open>m1\<close>). (\<open>n\<close> is the number of colour channels of the source, \<open>nc\<close> and \<open>dc\<close> are
  the channel count and the alpha flag of the destination of the colour painters.)
\<close>

theorem C7_zero_weight_leaves_destination_unchanged:
  assumes "1 \<le> w"
  shows
    "(fz_get_span_painter cfg da sa n alpha = Some over \<and> sa \<noteq> 0 \<and> 0 \<le> n
        \<and> (\<forall>i. 0 \<le> i \<and> i < w \<longrightarrow>
              FZ_COMBINE (FZ_EXPAND (load s (sp + i * (n + 1) + n))) (FZ_EXPAND alpha) = 0)
      \<longrightarrow> over d dp da s sp sa n w alpha = Some d
          \<and> (\<forall>k. ((\<lambda>r. Option.bind r (\<lambda>d. over d dp da s sp sa n w alpha)) ^^ k) (Some d)
                  = Some d))
     \<and> (fz_get_span_mask_painter cfg da sa n = Some masked
        \<and> (\<forall>i. 0 \<le> i \<and> i < w \<longrightarrow> load m (mp + i) = 0)
      \<longrightarrow> masked d dp da s sp sa m mp n w = Some d
          \<and> (\<forall>k. ((\<lambda>r. Option.bind r (\<lambda>d. masked d dp da s sp sa m mp n w)) ^^ k) (Some d)
                  = Some d))
     \<and> (fz_get_span_color_painter cfg nc dc color = Some colored \<and> (dc = 0 \<or> dc = 1)
        \<and> (\<forall>i. 0 \<le> i \<and> i < w \<longrightarrow>
              FZ_COMBINE (FZ_EXPAND (load m (mp + i))) (FZ_EXPAND (load color (nc - dc))) = 0)
      \<longrightarrow> colored d dp m mp nc w color dc = Some d
          \<and> (\<forall>k. ((\<lambda>r. Option.bind r (\<lambda>d. colored d dp m mp nc w color dc)) ^^ k) (Some d)
                  = Some d))
     \<and> (fz_get_span_mask_painter cfg da sa n = Some masked \<and> sa \<noteq> 0 \<and> 0 \<le> n
        \<and> (\<forall>j. 0 \<le> j \<and> j < w * (n + 1) \<longrightarrow> load s0 (sp + j) = 0)
      \<longrightarrow> masked d dp da s0 sp sa m1 mp n w = Some d
          \<and> (\<forall>k. ((\<lambda>r. Option.bind r (\<lambda>d. masked d dp da s0 sp sa m1 mp n w)) ^^ k) (Some d)
                  = Some d))"
proof (intro conjI impI)
  assume a: "fz_get_span_painter cfg da sa n alpha = Some over \<and> sa \<noteq> 0 \<and> 0 \<le> n
        \<and> (\<forall>i. 0 \<le> i \<and> i < w \<longrightarrow>
              FZ_COMBINE (FZ_EXPAND (load s (sp + i * (n + 1) + n))) (FZ_EXPAND alpha) = 0)"
  then have r: "over d dp da s sp sa n w alpha = Some d"
    by (intro span_painter_zero [of cfg da sa n alpha over w s sp] assms) simp_all
  then show "over d dp da s sp sa n w alpha = Some d" .
  from r show "\<forall>k. ((\<lambda>r. Option.bind r (\<lambda>d. over d dp da s sp sa n w alpha)) ^^ k) (Some d)
                  = Some d"
    by (simp add: funpow_bind_fixed)
next
  assume a: "fz_get_span_mask_painter cfg da sa n = Some masked
        \<and> (\<forall>i. 0 \<le> i \<and> i < w \<longrightarrow> load m (mp + i) = 0)"
  then have r: "masked d dp da s sp sa m mp n w = Some d"
    by (intro span_mask_painter_zero [of cfg da sa n masked w m mp] assms) simp_all
  then show "masked d dp da s sp sa m mp n w = Some d" .
  from r show "\<forall>k. ((\<lambda>r. Option.bind r (\<lambda>d. masked d dp da s sp sa m mp n w)) ^^ k) (Some d)
                  = Some d"
    by (simp add: funpow_bind_fixed)
next
  assume a: "fz_get_span_color_painter cfg nc dc color = Some colored \<and> (dc = 0 \<or> dc = 1)
        \<and> (\<forall>i. 0 \<le> i \<and> i < w \<longrightarrow>
              FZ_COMBINE (FZ_EXPAND (load m (mp + i))) (FZ_EXPAND (load color (nc - dc))) = 0)"
  then have r: "colored d dp m mp nc w color dc = Some d"
    by (intro span_color_painter_zero [of cfg nc dc color colored w m mp] assms) simp_all
  then show "colored d dp m mp nc w color dc = Some d" .
  from r show "\<forall>k. ((\<lambda>r. Option.bind r (\<lambda>d. colored d dp m mp nc w color dc)) ^^ k) (Some d)
                  = Some d"
    by (simp add: funpow_bind_fixed)
next
  assume a: "fz_get_span_mask_painter cfg da sa n = Some masked \<and> sa \<noteq> 0 \<and> 0 \<le> n
        \<and> (\<forall>j. 0 \<le> j \<and> j < w * (n + 1) \<longrightarrow> load s0 (sp + j) = 0)"
  then have r: "masked d dp da s0 sp sa m1 mp n w = Some d"
    by (intro span_mask_painter_zero_src [of cfg da sa n masked w s0 sp] assms) simp_all
  then show "masked d dp da s0 sp sa m1 mp n w = Some d" .
  from r show "\<forall>k. ((\<lambda>r. Option.bind r (\<lambda>d. masked d dp da s0 sp sa m1 mp n w)) ^^ k) (Some d)
                  = Some d"
    by (simp add: funpow_bind_fixed)
qed


theorem C7_witness:
  "(1::int) \<le> 2
   \<and> fz_get_span_painter
        \<lparr>plotters_g = True, plotters_rgb = True, plotters_cmyk = True, plotters_n = True,
          arch_unaligned_ok = False, isbigendian = False, ndebug = False\<rparr> 1 1 1 255
      = Some paint_span_1_da_sa
   \<and> paint_span_1_da_sa (mem_of [1, 2, 3, 4]) 0 1 (mem_of [7, 0, 9, 0]) 0 1 1 2 255
      = Some (mem_of [1, 2, 3, 4])
   \<and> fz_get_span_mask_painter
        \<lparr>plotters_g = True, plotters_rgb = True, plotters_cmyk = True, plotters_n = True,
          arch_unaligned_ok = False, isbigendian = False, ndebug = False\<rparr> 1 1 1
      = Some paint_span_with_mask_1_da_sa
   \<and> paint_span_with_mask_1_da_sa (mem_of [1, 2, 3, 4]) 0 1 (mem_of [7, 0, 9, 0]) 0 1
        (mem_of [0, 0]) 0 1 2
      = Some (mem_of [1, 2, 3, 4])
   \<and> fz_get_span_color_painter
        \<lparr>plotters_g = True, plotters_rgb = True, plotters_cmyk = True, plotters_n = True,
          arch_unaligned_ok = False, isbigendian = False, ndebug = False\<rparr> 2 1 (mem_of [100, 255])
      = Some paint_span_with_color_1_da
   \<and> paint_span_with_color_1_da (mem_of [1, 2, 3, 4]) 0 (mem_of [0, 0]) 0 2 2
        (mem_of [100, 255]) 1
      = Some (mem_of [1, 2, 3, 4])
   \<and> paint_span_with_mask_1_da_sa (mem_of [1, 2, 3, 4]) 0 1 (mem_of [0, 0, 0, 0]) 0 1
        (mem_of [255, 77]) 0 1 2
      = Some (mem_of [1, 2, 3, 4])"
proof -
  let ?cfg = "\<lparr>plotters_g = True, plotters_rgb = True, plotters_cmyk = True, plotters_n = True,
          arch_unaligned_ok = False, isbigendian = False, ndebug = False\<rparr>"
  have two: "i = 0 \<or> i = 1" if "0 \<le> i \<and> i < 2" for i :: int
    using that by auto
  have w: "(1::int) \<le> 2" by simp
  have so: "fz_get_span_painter ?cfg 1 1 1 255 = Some paint_span_1_da_sa"
    by (simp add: fz_get_span_painter_def by_alpha_def)
  have sm: "fz_get_span_mask_painter ?cfg 1 1 1 = Some paint_span_with_mask_1_da_sa"
    by (simp add: fz_get_span_mask_painter_def)
  have sc: "fz_get_span_color_painter ?cfg 2 1 (mem_of [100, 255]) = Some paint_span_with_color_1_da"
    by (simp add: fz_get_span_color_painter_def)
  have zo: "\<forall>i. 0 \<le> i \<and> i < 2 \<longrightarrow>
      FZ_COMBINE (FZ_EXPAND (load (mem_of [7, 0, 9, 0]) (0 + i * (1 + 1) + 1))) (FZ_EXPAND 255) = 0"
    by (auto dest!: two simp: load_def mem_of_def FZ_EXPAND_def FZ_COMBINE_def)
  have zm: "\<forall>i. 0 \<le> i \<and> i < 2 \<longrightarrow> load (mem_of [0, 0]) (0 + i) = 0"
    by (auto dest!: two simp: load_def mem_of_def)
  have zc: "\<forall>i. 0 \<le> i \<and> i < 2 \<longrightarrow>
      FZ_COMBINE (FZ_EXPAND (load (mem_of [0, 0]) (0 + i)))
        (FZ_EXPAND (load (mem_of [100, 255]) (2 - 1))) = 0"
    by (auto dest!: two simp: load_def mem_of_def FZ_EXPAND_def FZ_COMBINE_def)
  note T = C7_zero_weight_leaves_destination_unchanged [OF w,
      where cfg = ?cfg and da = 1 and sa = 1 and n = 1 and alpha = 255
        and over = paint_span_1_da_sa and s = "mem_of [7, 0, 9, 0]" and sp = 0
        and d = "mem_of [1, 2, 3, 4]" and dp = 0
        and masked = paint_span_with_mask_1_da_sa and m = "mem_of [0, 0]" and mp = 0
        and nc = 2 and dc = 1 and color = "mem_of [100, 255]"
        and colored = paint_span_with_color_1_da
        and ?s0.0 = "mem_of [0, 0, 0, 0]" and ?m1.0 = "mem_of [255, 77]"]
  have ho: "fz_get_span_painter ?cfg 1 1 1 255 = Some paint_span_1_da_sa \<and> (1::int) \<noteq> 0
      \<and> (0::int) \<le> 1
      \<and> (\<forall>i. 0 \<le> i \<and> i < 2 \<longrightarrow>
            FZ_COMBINE (FZ_EXPAND (load (mem_of [7, 0, 9, 0]) (0 + i * (1 + 1) + 1)))
              (FZ_EXPAND 255) = 0)"
    by (intro conjI so zo) simp_all
  have hm: "fz_get_span_mask_painter ?cfg 1 1 1 = Some paint_span_with_mask_1_da_sa
      \<and> (\<forall>i. 0 \<le> i \<and> i < 2 \<longrightarrow> load (mem_of [0, 0]) (0 + i) = 0)"
    by (intro conjI sm zm)
  have hc: "fz_get_span_color_painter ?cfg 2 1 (mem_of [100, 255]) = Some paint_span_with_color_1_da
      \<and> ((1::int) = 0 \<or> (1::int) = 1)
      \<and> (\<forall>i. 0 \<le> i \<and> i < 2 \<longrightarrow>
            FZ_COMBINE (FZ_EXPAND (load (mem_of [0, 0]) (0 + i)))
              (FZ_EXPAND (load (mem_of [100, 255]) (2 - 1))) = 0)"
    by (intro conjI sc zc) simp_all
  have zz: "\<forall>j. 0 \<le> j \<and> j < 2 * (1 + 1) \<longrightarrow> load (mem_of [0, 0, 0, 0]) (0 + j) = 0"
  proof (intro allI impI)
    fix j :: int
    assume "0 \<le> j \<and> j < 2 * (1 + 1)"
    then have "j = 0 \<or> j = 1 \<or> j = 2 \<or> j = 3" by auto
    then show "load (mem_of [0, 0, 0, 0]) (0 + j) = 0"
      by (auto simp: load_def mem_of_def)
  qed
  have hz: "fz_get_span_mask_painter ?cfg 1 1 1 = Some paint_span_with_mask_1_da_sa
      \<and> (1::int) \<noteq> 0 \<and> (0::int) \<le> 1
      \<and> (\<forall>j. 0 \<le> j \<and> j < 2 * (1 + 1) \<longrightarrow> load (mem_of [0, 0, 0, 0]) (0 + j) = 0)"
    by (intro conjI sm zz) simp_all
  have "paint_span_1_da_sa (mem_of [1, 2, 3, 4]) 0 1 (mem_of [7, 0, 9, 0]) 0 1 1 2 255
      = Some (mem_of [1, 2, 3, 4])"
    by (rule T [THEN conjunct1, THEN mp, OF ho, THEN conjunct1])
  moreover have "paint_span_with_mask_1_da_sa (mem_of [1, 2, 3, 4]) 0 1
        (mem_of [7, 0, 9, 0]) 0 1 (mem_of [0, 0]) 0 1 2
      = Some (mem_of [1, 2, 3, 4])"
    by (rule T [THEN conjunct2, THEN conjunct1, THEN mp, OF hm, THEN conjunct1])
  moreover have "paint_span_with_color_1_da (mem_of [1, 2, 3, 4]) 0 (mem_of [0, 0]) 0 2 2
        (mem_of [100, 255]) 1
      = Some (mem_of [1, 2, 3, 4])"
    by (rule T [THEN conjunct2, THEN conjunct2, THEN conjunct1, THEN mp, OF hc, THEN conjunct1])
  moreover have "paint_span_with_mask_1_da_sa (mem_of [1, 2, 3, 4]) 0 1 (mem_of [0, 0, 0, 0]) 0 1
        (mem_of [255, 77]) 0 1 2
      = Some (mem_of [1, 2, 3, 4])"
    by (rule T [THEN conjunct2, THEN conjunct2, THEN conjunct2, THEN mp, OF hz, THEN conjunct1])
  ultimately show ?thesis using w so sm sc by (intro conjI)
qed

end
